(* ===== verification/HRMS_Prelude.thy ===== *)
theory HRMS_Prelude
  imports Main "HOL-Library.Sublist"
begin

text \<open>
  Shared vocabulary of the HRMS development: the lemma collections the component
  theories extend, the names of the model's basic types, and the JavaScript string
  operations the dashboard code calls (\<open>toLowerCase\<close>, \<open>toUpperCase\<close>, \<open>includes\<close>, \<open>startsWith\<close>,
  \<open>Array.join\<close>), modelled on strings of 8-bit characters. \<open>toLowerCase\<close> and
  \<open>toUpperCase\<close> are modelled on ASCII letters only; characters outside ASCII are left unchanged.
\<close>

named_theorems model_defs "definitions of the HRMS model unfolded by component proofs"
named_theorems model_simps "derived rewrite rules of the HRMS model"

type_synonym path = string
type_synonym query_pairs = "(string \<times> string) list"

section \<open>JavaScript string operations\<close>

definition js_lower_char :: "char \<Rightarrow> char" where
  "js_lower_char c =
     (let n = (of_char c :: nat) in if 65 \<le> n \<and> n \<le> 90 then char_of (n + 32) else c)"

definition js_lower :: "string \<Rightarrow> string" where
  "js_lower s = map js_lower_char s"

definition js_upper_char :: "char \<Rightarrow> char" where
  "js_upper_char c =
     (let n = (of_char c :: nat) in if 97 \<le> n \<and> n \<le> 122 then char_of (n - 32) else c)"

definition js_upper :: "string \<Rightarrow> string" where
  "js_upper s = map js_upper_char s"

text \<open>\<open>s.includes(t)\<close> and \<open>s.startsWith(t)\<close>.\<close>

definition js_includes :: "string \<Rightarrow> string \<Rightarrow> bool" where
  "js_includes s t = sublist t s"

definition js_starts_with :: "string \<Rightarrow> string \<Rightarrow> bool" where
  "js_starts_with s t = prefix t s"

text \<open>\<open>[x1, ..., xn].join(sep)\<close>.\<close>

fun js_join :: "string \<Rightarrow> string list \<Rightarrow> string" where
  "js_join sep [] = []"
| "js_join sep [x] = x"
| "js_join sep (x # y # ys) = x @ sep @ js_join sep (y # ys)"

text \<open>\<open>String(n)\<close> for a natural number: its decimal digits.\<close>

fun decimal :: "nat \<Rightarrow> string" where
  "decimal n =
     (if n < 10 then [char_of (48 + n)] else decimal (n div 10) @ [char_of (48 + n mod 10)])"

declare decimal.simps [simp del]

declare js_lower_def [model_defs] js_includes_def [model_defs]
  js_starts_with_def [model_defs]

section \<open>Lemmas on the string operations\<close>

lemma js_lower_char_idem [simp]: "js_lower_char (js_lower_char c) = js_lower_char c"
  by (simp add: js_lower_char_def Let_def)

lemma js_upper_char_idem [simp]: "js_upper_char (js_upper_char c) = js_upper_char c"
proof -
  have "(of_char c :: nat) < 256" by (metis of_char_mod_256 mod_less_divisor zero_less_numeral)
  then show ?thesis by (auto simp: js_upper_char_def Let_def of_char_of)
qed

lemma of_char_js_lower_char:
  "(of_char (js_lower_char c) :: nat) =
     (if 65 \<le> (of_char c :: nat) \<and> (of_char c :: nat) \<le> 90 then of_char c + 32 else of_char c)"
  by (simp add: js_lower_char_def Let_def of_char_of)

lemma js_lower_Nil [simp]: "js_lower [] = []"
  by (simp add: js_lower_def)

lemma js_lower_Cons [simp]: "js_lower (c # s) = js_lower_char c # js_lower s"
  by (simp add: js_lower_def)

lemma js_lower_append [simp]: "js_lower (s @ t) = js_lower s @ js_lower t"
  by (simp add: js_lower_def)

lemma js_lower_length [simp]: "length (js_lower s) = length s"
  by (simp add: js_lower_def)

lemma js_lower_idem [simp]: "js_lower (js_lower s) = js_lower s"
  by (induction s) simp_all

lemma sublist_js_lower [intro]: "sublist t s \<Longrightarrow> sublist (js_lower t) (js_lower s)"
  unfolding js_lower_def by (rule map_mono_sublist)

lemma sublist_js_join [intro]: "x \<in> set xs \<Longrightarrow> sublist x (js_join sep xs)"
proof (induction sep xs rule: js_join.induct)
  case (3 sep x' y ys)
  have tail: "sublist (js_join sep (y # ys)) (js_join sep (x' # y # ys))"
    using sublist_append_leftI [of _ "x' @ sep"] by simp
  show ?case
  proof (cases "x = x'")
    case True
    then show ?thesis by simp
  next
    case False
    with "3.prems" have "sublist x (js_join sep (y # ys))" by (simp add: "3.IH")
    then show ?thesis using tail by (rule sublist_order.order.trans)
  qed
qed simp_all

lemma js_includes_lower_join [intro]:
  "x \<in> set xs \<Longrightarrow> js_includes (js_lower x) (js_lower t) \<Longrightarrow>
   js_includes (js_lower (js_join sep xs)) (js_lower t)"
  unfolding js_includes_def
  by (blast intro: sublist_order.order.trans)

lemma js_includes_Nil [simp]: "js_includes s []"
  by (simp add: js_includes_def)

text \<open>
  \<open>URLSearchParams.get(k)\<close> returns the value of the first pair named \<open>k\<close>, or
  \<open>null\<close>: on a list of pairs this is \<^const>\<open>map_of\<close>, which the components use.
\<close>

end
