(* ===== verification/Session_Gate.thy ===== *)
theory Session_Gate
  imports HRMS_Prelude
begin

text \<open>
  The Session Gate: the request middleware of \<open>src/middleware.ts\<close> with its
  \<open>config.matcher\<close>, and the sign-out route \<open>src/app/api/auth/signout/route.ts\<close>.
  A request URL is its path name and its query part; the session is what the
  auth helper reads from the request cookie (\<open>None\<close> when there is none). The
  middleware answers either \<open>NextResponse.next()\<close> (\<open>Next\<close>) or a redirect to a cloned
  URL whose path name has been replaced.
\<close>

record url =
  pathname :: path
  url_query :: string

datatype mw_response = Next | Redirect url

section \<open>The middleware\<close>

definition isAuthRoute :: "path \<Rightarrow> bool" where
  "isAuthRoute p \<longleftrightarrow> p = ''/'' \<or> js_starts_with p ''/login''"

definition isDashboardRoute :: "path \<Rightarrow> bool" where
  "isDashboardRoute p \<longleftrightarrow> js_starts_with p ''/dashboard'' \<or> js_starts_with p ''/Dashboard''"

definition middleware :: "'s option \<Rightarrow> url \<Rightarrow> mw_response" where
  "middleware session u =
     (if session = None \<and> isDashboardRoute (pathname u)
      then Redirect (u\<lparr>pathname := ''/''\<rparr>)
      else if session \<noteq> None \<and> isAuthRoute (pathname u)
      then Redirect (u\<lparr>pathname := ''/Dashboard''\<rparr>)
      else Next)"

text \<open>
  \<open>config.matcher\<close>: the middleware runs only on paths matching one of its patterns.
  A pattern \<open>/base/:path*\<close> matches \<open>/base\<close> itself and every path below it.
\<close>

datatype route_pattern = Exact path | Below path

fun pattern_matches :: "route_pattern \<Rightarrow> path \<Rightarrow> bool" where
  "pattern_matches (Exact q) p \<longleftrightarrow> p = q"
| "pattern_matches (Below q) p \<longleftrightarrow> p = q \<or> prefix (q @ ''/'') p"

definition config_matcher :: "route_pattern list" where
  "config_matcher = [Exact ''/'', Exact ''/login'', Below ''/dashboard'', Below ''/Dashboard'']"

definition gate :: "'s option \<Rightarrow> url \<Rightarrow> mw_response" where
  "gate session u =
     (if list_ex (\<lambda>pat. pattern_matches pat (pathname u)) config_matcher
      then middleware session u else Next)"

text \<open>The pages of the dashboard area: \<open>src/app/Dashboard/**/page.tsx\<close>.\<close>

definition dashboard_page :: "path \<Rightarrow> bool" where
  "dashboard_page p \<longleftrightarrow> p = ''/Dashboard'' \<or> prefix ''/Dashboard/'' p"

section \<open>The sign-out route\<close>

text \<open>
  The route creates a fresh data-service client from the public URL and key. That
  client is not bound to the request's cookies, so it holds no session; its
  \<open>signOut()\<close> forgets the client's own session, if any, and revokes its token.
  The route then redirects to \<open>new URL('/', req.url)\<close>, which drops the query.
\<close>

type_synonym token = string

record auth_client =
  client_session :: "token option"

definition createClient :: auth_client where
  "createClient = \<lparr>client_session = None\<rparr>"

definition signOut :: "auth_client \<Rightarrow> auth_client \<times> token list" where
  "signOut c = (c\<lparr>client_session := None\<rparr>,
                (case client_session c of None \<Rightarrow> [] | Some t \<Rightarrow> [t]))"

text \<open>
  The result is the session cookie the browser holds afterwards, the tokens the auth
  service revoked, and the response.
\<close>

definition signout_POST :: "token option \<Rightarrow> url \<Rightarrow> token option \<times> token list \<times> mw_response" where
  "signout_POST cookie req =
     (let (c', revoked) = signOut createClient
      in (cookie, revoked, Redirect \<lparr>pathname = ''/'', url_query = []\<rparr>))"

declare isAuthRoute_def [model_defs] isDashboardRoute_def [model_defs]
  middleware_def [model_defs] gate_def [model_defs] config_matcher_def [model_defs]
  dashboard_page_def [model_defs]

section \<open>Properties of the gate\<close>

lemma dashboard_page_matched [model_simps]:
  "dashboard_page p \<Longrightarrow> list_ex (\<lambda>pat. pattern_matches pat p) config_matcher"
  by (auto simp: dashboard_page_def config_matcher_def)

lemma dashboard_page_isDashboardRoute [model_simps]:
  "dashboard_page p \<Longrightarrow> isDashboardRoute p"
  using append_prefixD [of "''/Dashboard''" "''/''" p]
  by (auto simp: dashboard_page_def isDashboardRoute_def js_starts_with_def)

lemma dashboard_page_not_auth [model_simps]:
  "dashboard_page p \<Longrightarrow> \<not> isAuthRoute p"
  by (auto simp: dashboard_page_def isAuthRoute_def js_starts_with_def prefix_def)

text \<open>C6: no request without a session is let through to a dashboard page.\<close>

theorem gate_protects_dashboard:
  "dashboard_page (pathname u) \<Longrightarrow> gate None u = Redirect (u\<lparr>pathname := ''/''\<rparr>)"
  by (simp add: gate_def middleware_def dashboard_page_matched dashboard_page_isDashboardRoute)

theorem gate_protects_dashboard_witness:
  "dashboard_page (pathname \<lparr>pathname = ''/Dashboard/profile'', url_query = []\<rparr>) \<and>
   gate None \<lparr>pathname = ''/Dashboard/profile'', url_query = []\<rparr> =
     Redirect \<lparr>pathname = ''/'', url_query = []\<rparr>"
proof -
  have h: "dashboard_page (pathname \<lparr>pathname = ''/Dashboard/profile'', url_query = []\<rparr>)"
    by (simp add: dashboard_page_def)
  show ?thesis using h gate_protects_dashboard [OF h] by simp
qed

text \<open>With a session every dashboard page is reachable.\<close>

theorem gate_admits_session:
  "dashboard_page (pathname u) \<Longrightarrow> gate (Some s) u = Next"
  by (simp add: gate_def middleware_def dashboard_page_not_auth)

theorem gate_admits_session_witness:
  "dashboard_page (pathname \<lparr>pathname = ''/Dashboard'', url_query = ''x=1''\<rparr>) \<and>
   gate (Some ''tok'') \<lparr>pathname = ''/Dashboard'', url_query = ''x=1''\<rparr> = Next"
proof -
  have h: "dashboard_page (pathname \<lparr>pathname = ''/Dashboard'', url_query = ''x=1''\<rparr>)"
    by (simp add: dashboard_page_def)
  show ?thesis using h gate_admits_session [OF h, of "''tok''"] by simp
qed

text \<open>C25: a redirect of the gate is never redirected again: no redirect loop.\<close>

theorem gate_no_redirect_loop:
  "gate s u = Redirect v \<Longrightarrow> gate s v = Next"
  by (auto simp: gate_def middleware_def isAuthRoute_def isDashboardRoute_def
      js_starts_with_def config_matcher_def split: if_splits)

theorem gate_no_redirect_loop_witness:
  "gate (None :: token option) \<lparr>pathname = ''/Dashboard'', url_query = []\<rparr> =
     Redirect \<lparr>pathname = ''/'', url_query = []\<rparr> \<and>
   gate (None :: token option) \<lparr>pathname = ''/'', url_query = []\<rparr> = Next"
proof -
  have h: "gate (None :: token option) \<lparr>pathname = ''/Dashboard'', url_query = []\<rparr> =
     Redirect \<lparr>pathname = ''/'', url_query = []\<rparr>"
    by (simp add: gate_def middleware_def config_matcher_def isDashboardRoute_def js_starts_with_def)
  show ?thesis using h gate_no_redirect_loop [OF h] by simp
qed

text \<open>
  C30: the middleware protects no API route: for every path below \<open>/api/\<close> and with
  or without a session, the gate lets the request through, so the API routes run
  without any session check.
\<close>

theorem gate_api_unprotected:
  "prefix ''/api/'' (pathname u) \<Longrightarrow> gate s u = Next"
  by (auto simp: gate_def middleware_def config_matcher_def isDashboardRoute_def isAuthRoute_def
      js_starts_with_def prefix_def)

theorem gate_api_unprotected_witness:
  "prefix ''/api/'' (pathname \<lparr>pathname = ''/api/leaves'', url_query = ''page=1''\<rparr>) \<and>
   gate (None :: token option) \<lparr>pathname = ''/api/leaves'', url_query = ''page=1''\<rparr> = Next"
proof -
  have h: "prefix ''/api/'' (pathname \<lparr>pathname = ''/api/leaves'', url_query = ''page=1''\<rparr>)"
    by (simp add: prefix_def)
  show ?thesis using h gate_api_unprotected [OF h, of "None :: token option"] by simp
qed

text \<open>
  Sign-out does not end the browser's session: the cookie is returned unchanged,
  nothing is revoked, and the redirect to the entry page is turned back to the
  dashboard by the gate.
\<close>

theorem signout_keeps_session:
  "signout_POST (Some t) req =
     (Some t, [], Redirect \<lparr>pathname = ''/'', url_query = []\<rparr>) \<and>
   gate (Some t) \<lparr>pathname = ''/'', url_query = []\<rparr> =
     Redirect \<lparr>pathname = ''/Dashboard'', url_query = []\<rparr>"
  by (simp add: signout_POST_def signOut_def createClient_def gate_def middleware_def
      config_matcher_def isAuthRoute_def isDashboardRoute_def js_starts_with_def)

end
