(* ===== verification/Query_Params.thy ===== *)
theory Query_Params
  imports HRMS_Prelude
begin

text \<open>
  The arithmetic of the resource endpoints (\<open>src/app/api/employees/route.ts\<close> and
  \<open>src/app/api/leaves/route.ts\<close>, \<open>GET\<close>): query parameters read with
  \<open>searchParams.get(k) || default\<close>, numbers parsed with \<open>parseInt\<close> and clamped with
  \<open>Math.max(1, _)\<close>, the offset \<open>(page - 1) * limit\<close>, and the page envelope fields
  \<open>totalPages = Math.ceil(total / limit)\<close> and \<open>hasMore = page < totalPages\<close>.

  A JavaScript number here is an integer or \<open>NaN\<close>: these are the only values
  \<open>parseInt\<close> yields and the arithmetic of the routes keeps. Integers are unbounded
  (the double rounding above \<open>2^53\<close> is not modelled), and \<open>-0\<close> is \<open>0\<close>.
\<close>

datatype jsnum = Num int | NaN

section \<open>parseInt with no radix\<close>

text \<open>
  ECMAScript \<open>parseInt(s)\<close>: skip leading white space, read an optional sign, read
  the radix prefix \<open>0x\<close>/\<open>0X\<close> (radix 16, else 10), then the longest run of digits of
  the radix; no digit at all gives \<open>NaN\<close>. White space is the ASCII set.
\<close>

definition js_whitespace :: "char \<Rightarrow> bool" where
  "js_whitespace c \<longleftrightarrow> (let n = (of_char c :: nat) in (9 \<le> n \<and> n \<le> 13) \<or> n = 32)"

definition digit_value :: "nat \<Rightarrow> char \<Rightarrow> nat option" where
  "digit_value radix c =
     (let n = (of_char c :: nat);
          v = (if 48 \<le> n \<and> n \<le> 57 then Some (n - 48)
               else if 97 \<le> n \<and> n \<le> 122 then Some (n - 87)
               else if 65 \<le> n \<and> n \<le> 90 then Some (n - 55)
               else None)
      in case v of Some d \<Rightarrow> (if d < radix then Some d else None) | None \<Rightarrow> None)"

fun leading_digits :: "nat \<Rightarrow> string \<Rightarrow> nat list" where
  "leading_digits r [] = []"
| "leading_digits r (c # s) =
     (case digit_value r c of None \<Rightarrow> [] | Some d \<Rightarrow> d # leading_digits r s)"

definition digits_to_nat :: "nat \<Rightarrow> nat list \<Rightarrow> nat" where
  "digits_to_nat r ds = foldl (\<lambda>acc d. acc * r + d) 0 ds"

definition strip_sign :: "string \<Rightarrow> int \<times> string" where
  "strip_sign s =
     (case s of
        c # rest \<Rightarrow> (if c = CHR ''-'' then (-1, rest)
                    else if c = CHR ''+'' then (1, rest) else (1, s))
      | [] \<Rightarrow> (1, []))"

definition strip_radix :: "string \<Rightarrow> nat \<times> string" where
  "strip_radix s =
     (if take 2 s = ''0x'' \<or> take 2 s = ''0X'' then (16, drop 2 s) else (10, s))"

definition js_parseInt :: "string \<Rightarrow> jsnum" where
  "js_parseInt str =
     (let (sign, s1) = strip_sign (dropWhile js_whitespace str);
          (r, s2) = strip_radix s1;
          ds = leading_digits r s2
      in if ds = [] then NaN else Num (sign * int (digits_to_nat r ds)))"

section \<open>Number operations of the routes\<close>

text \<open>\<open>Math.max(1, x)\<close>: \<open>NaN\<close> if \<open>x\<close> is \<open>NaN\<close>.\<close>

fun js_max1 :: "jsnum \<Rightarrow> jsnum" where
  "js_max1 (Num n) = Num (max 1 n)"
| "js_max1 NaN = NaN"

fun js_add :: "jsnum \<Rightarrow> jsnum \<Rightarrow> jsnum" where
  "js_add (Num a) (Num b) = Num (a + b)"
| "js_add _ _ = NaN"

fun js_sub :: "jsnum \<Rightarrow> jsnum \<Rightarrow> jsnum" where
  "js_sub (Num a) (Num b) = Num (a - b)"
| "js_sub _ _ = NaN"

fun js_mul :: "jsnum \<Rightarrow> jsnum \<Rightarrow> jsnum" where
  "js_mul (Num a) (Num b) = Num (a * b)"
| "js_mul _ _ = NaN"

text \<open>\<open>a < b\<close> is false whenever one side is \<open>NaN\<close>.\<close>

fun js_less :: "jsnum \<Rightarrow> jsnum \<Rightarrow> bool" where
  "js_less (Num a) (Num b) \<longleftrightarrow> a < b"
| "js_less _ _ \<longleftrightarrow> False"

text \<open>
  \<open>Math.ceil(total / limit)\<close> for a count \<open>total\<close>. The routes only divide by a
  limit that is at least 1 or \<open>NaN\<close>; a zero limit (an infinite quotient in
  JavaScript) cannot occur and is mapped to \<open>NaN\<close>.
\<close>

fun js_ceil_div :: "nat \<Rightarrow> jsnum \<Rightarrow> jsnum" where
  "js_ceil_div t (Num l) = (if l = 0 then NaN else Num (- ((- int t) div l)))"
| "js_ceil_div t NaN = NaN"

section \<open>Reading the parameters\<close>

text \<open>\<open>searchParams.get(k) || d\<close>: a missing or empty parameter gives the default.\<close>

definition param :: "query_pairs \<Rightarrow> string \<Rightarrow> string \<Rightarrow> string" where
  "param ps k d = (case map_of ps k of None \<Rightarrow> d | Some v \<Rightarrow> if v = [] then d else v)"

definition page_of :: "query_pairs \<Rightarrow> jsnum" where
  "page_of ps = js_max1 (js_parseInt (param ps ''page'' ''1''))"

definition limit_of :: "query_pairs \<Rightarrow> jsnum" where
  "limit_of ps = js_max1 (js_parseInt (param ps ''limit'' ''20''))"

definition offset_of :: "jsnum \<Rightarrow> jsnum \<Rightarrow> jsnum" where
  "offset_of page limit = js_mul (js_sub page (Num 1)) limit"

text \<open>The page envelope of a successful query (lines 48--58 of the employees route).\<close>

record 'a page_envelope =
  items :: "'a list"
  env_page :: jsnum
  env_limit :: jsnum
  env_total :: nat
  env_total_pages :: jsnum
  has_more :: bool

definition make_envelope ::
  "'a list option \<Rightarrow> nat option \<Rightarrow> jsnum \<Rightarrow> jsnum \<Rightarrow> 'a page_envelope" where
  "make_envelope data count page limit =
     (let total = (case count of None \<Rightarrow> 0 | Some c \<Rightarrow> c);
          totalPages = js_ceil_div total limit
      in \<lparr>items = (case data of None \<Rightarrow> [] | Some xs \<Rightarrow> xs), env_page = page,
          env_limit = limit, env_total = total, env_total_pages = totalPages,
          has_more = js_less page totalPages\<rparr>)"

text \<open>
  A route answers \<open>NextResponse.json(x)\<close> (status 200) or
  \<open>NextResponse.json({error: m}, {status: 500})\<close>.
\<close>

datatype 'a api_response = Ok_json 'a | Error_500 string

text \<open>
  What the spec (section 4.2) promises of a list endpoint: the rows that match, newest
  first by their creation time, the slice at offset \<open>(page - 1) * limit\<close>, the exact
  total, the page count and \<open>hasMore = page < totalPages\<close>.
\<close>

definition newest_page ::
  "('r \<Rightarrow> nat) \<Rightarrow> ('r \<Rightarrow> bool) \<Rightarrow> int \<Rightarrow> int \<Rightarrow> 'r list \<Rightarrow> 'r page_envelope" where
  "newest_page key P p l rs =
     (let ms = filter P rs;
          n = length ms
      in \<lparr>items = take (nat l) (drop (nat ((p - 1) * l)) (sort_key (\<lambda>r. - int (key r)) ms)),
          env_page = Num p, env_limit = Num l, env_total = n,
          env_total_pages = Num (- ((- int n) div l)), has_more = p * l < int n\<rparr>)"

declare js_whitespace_def [model_defs] digit_value_def [model_defs]
  digits_to_nat_def [model_defs] strip_sign_def [model_defs] strip_radix_def [model_defs]
  js_parseInt_def [model_defs] param_def [model_defs] page_of_def [model_defs]
  limit_of_def [model_defs] offset_of_def [model_defs] make_envelope_def [model_defs]

section \<open>Lemmas on the route arithmetic\<close>

lemma zdiv_less_iff_mult: "0 < (l::int) \<Longrightarrow> a div l < q \<longleftrightarrow> a < q * l"
proof -
  assume l: "0 < l"
  have "q \<le> a div l \<longleftrightarrow> q * l \<le> a"
  proof
    assume "q \<le> a div l"
    then have "q * l \<le> a div l * l" using l by (simp add: mult_right_mono)
    also have "a div l * l \<le> a"
      using l div_mult_mod_eq [of a l] pos_mod_sign [of l a] by linarith
    finally show "q * l \<le> a" .
  next
    assume "q * l \<le> a"
    then have "(q * l) div l \<le> a div l" using l by (rule zdiv_mono1)
    then show "q \<le> a div l" using l by simp
  qed
  then show ?thesis by (simp add: not_le [symmetric])
qed

lemma js_less_ceil_div:
  "0 < l \<Longrightarrow> js_less (Num p) (js_ceil_div n (Num l)) \<longleftrightarrow> p * l < int n"
proof -
  assume l: "0 < l"
  have "p < - ((- int n) div l) \<longleftrightarrow> (- int n) div l < - p" by arith
  also have "\<dots> \<longleftrightarrow> p * l < int n" using l by (simp add: zdiv_less_iff_mult)
  finally show ?thesis using l by simp
qed

lemma make_envelope_Num:
  "0 < l \<Longrightarrow> make_envelope (Some xs) (Some n) (Num p) (Num l) =
     \<lparr>items = xs, env_page = Num p, env_limit = Num l, env_total = n,
      env_total_pages = Num (- ((- int n) div l)), has_more = p * l < int n\<rparr>"
  using js_less_ceil_div [of l p n] by (simp add: make_envelope_def Let_def)

lemma js_max1_Num: "js_max1 x = Num n \<Longrightarrow> 1 \<le> n"
  by (cases x) auto

section \<open>Printing and parsing identifiers\<close>

lemma digit_value_decimal_char: "d < 10 \<Longrightarrow> digit_value 10 (char_of (48 + d)) = Some d"
  by (simp add: digit_value_def Let_def)

lemma digits_of_decimal: "\<forall>c \<in> set (decimal n). \<exists>d::nat < 10. c = char_of (48 + d)"
proof (induction n rule: decimal.induct)
  case (1 n)
  then show ?case by (subst decimal.simps) (auto intro: exI [where x = "n mod 10"])
qed

lemma leading_digits_append:
  "\<forall>c \<in> set xs. digit_value r c \<noteq> None \<Longrightarrow>
   leading_digits r (xs @ ys) = leading_digits r xs @ leading_digits r ys"
  by (induction xs) (auto split: option.splits)

lemma digits_to_nat_snoc: "digits_to_nat r (xs @ [d]) = digits_to_nat r xs * r + d"
  by (simp add: digits_to_nat_def)

lemma leading_digits_decimal:
  "leading_digits 10 (decimal n) \<noteq> [] \<and> digits_to_nat 10 (leading_digits 10 (decimal n)) = n"
proof (induction n rule: decimal.induct)
  case (1 n)
  show ?case
  proof (cases "n < 10")
    case True
    then show ?thesis
      by (simp add: decimal.simps [of n] digit_value_decimal_char digits_to_nat_def)
  next
    case False
    then have IH: "leading_digits 10 (decimal (n div 10)) \<noteq> [] \<and>
        digits_to_nat 10 (leading_digits 10 (decimal (n div 10))) = n div 10"
      using "1.IH" by simp
    have dig: "\<forall>c \<in> set (decimal (n div 10)). digit_value 10 c \<noteq> None"
      using digits_of_decimal [of "n div 10"] digit_value_decimal_char by fastforce
    have "decimal n = decimal (n div 10) @ [char_of (48 + n mod 10)]"
      using False by (subst decimal.simps) simp
    then show ?thesis
      using IH dig by (simp add: leading_digits_append digit_value_decimal_char digits_to_nat_snoc)
  qed
qed

lemma decimal_no_letter: "(of_char c :: nat) \<ge> 58 \<Longrightarrow> c \<notin> set (decimal n)"
  using digits_of_decimal [of n] by (auto simp: of_char_of)

lemma decimal_first_digit: "\<exists>d::nat < 10. \<exists>rest. decimal n = char_of (48 + d) # rest"
  using digits_of_decimal [of n]
  by (cases "decimal n") (auto simp: decimal.simps [of n] split: if_splits)

theorem parseInt_decimal: "js_parseInt (decimal n) = Num (int n)"
proof -
  obtain d :: nat and rest where d: "d < 10" and dn: "decimal n = char_of (48 + d) # rest"
    using decimal_first_digit by blast
  have ws: "\<not> js_whitespace (char_of (48 + d))" using d by (simp add: js_whitespace_def)
  have sg: "strip_sign (decimal n) = (1, decimal n)"
    using d dn by (auto simp: strip_sign_def dest: arg_cong [where f = "of_char :: char \<Rightarrow> nat"])
  have rx: "strip_radix (decimal n) = (10, decimal n)"
  proof -
    have "take 2 (decimal n) \<noteq> ''0x'' \<and> take 2 (decimal n) \<noteq> ''0X''"
      using decimal_no_letter [of "CHR ''x''" n] decimal_no_letter [of "CHR ''X''" n]
        set_take_subset [of 2 "decimal n"] by auto
    then show ?thesis by (simp add: strip_radix_def)
  qed
  show ?thesis
    using ws dn sg rx leading_digits_decimal [of n] by (simp add: js_parseInt_def)
qed

lemma decimal_inj: "decimal m = decimal n \<longleftrightarrow> m = n"
  by (metis parseInt_decimal jsnum.inject of_nat_eq_iff)

end
