(* ===== verification/Data_Service.thy ===== *)
theory Data_Service
  imports Query_Params
begin

text \<open>
  The Remote Data Service as the routes use it: the query builder of the client
  library (\<open>from\<close>, \<open>select('*', {count: 'exact'})\<close>, \<open>or\<close>, \<open>eq\<close>, \<open>order\<close>,
  \<open>range\<close>, \<open>insert([body]).select().single()\<close>) and the server that evaluates the
  built request. This code is not part of the repository; it is modelled from the
  collaborator contract of the spec (section 6) and the documented request syntax:
  \<^item> an \<open>or\<close> filter is sent as the raw text the route built, in parentheses:
    \<open>or=(text)\<close>. The server splits it at commas into conditions
    \<open>column.operator.value\<close> (unquoted values; the operators \<open>eq\<close>, \<open>neq\<close>,
    \<open>like\<close>, \<open>ilike\<close>; anything else is a parse error). An unquoted value ends at
    a comma or a closing parenthesis, so a \<open>)\<close> in the text closes the list early
    and what follows it is a parse error; nested logic trees are not modelled;
  \<^item> in a \<open>like\<close>/\<open>ilike\<close> pattern \<open>%\<close> and \<open>*\<close> match any text, \<open>_\<close> one
    character, and a backslash makes the next character literal; \<open>ilike\<close> compares
    lower-cased text;
  \<^item> \<open>order('created_at', {ascending: false})\<close> sorts newest first; rows with equal
    timestamps keep their table order (the database leaves this order open);
  \<^item> \<open>range(a, b)\<close> is offset \<open>a\<close>, limit \<open>b - a + 1\<close>; a range that is not a
    number is rejected; the exact count is the number of matching rows;
  \<^item> an insert assigns the next identifier and the current time as both timestamps,
    rejects unknown columns and requires every data column.
\<close>

section \<open>Requests\<close>

datatype filter = Or_filter string | Eq_filter string string

record query =
  q_table :: string
  q_filters :: "filter list"
  q_order :: "(string \<times> bool) option"
  q_range :: "(jsnum \<times> jsnum) option"

definition select_all :: "string \<Rightarrow> query" where
  "select_all t = \<lparr>q_table = t, q_filters = [], q_order = None, q_range = None\<rparr>"

definition q_or :: "query \<Rightarrow> string \<Rightarrow> query" where
  "q_or q s = q\<lparr>q_filters := q_filters q @ [Or_filter s]\<rparr>"

definition q_eq :: "query \<Rightarrow> string \<Rightarrow> string \<Rightarrow> query" where
  "q_eq q c v = q\<lparr>q_filters := q_filters q @ [Eq_filter c v]\<rparr>"

definition q_order_by :: "query \<Rightarrow> string \<Rightarrow> bool \<Rightarrow> query" where
  "q_order_by q c asc = q\<lparr>q_order := Some (c, asc)\<rparr>"

definition q_range_of :: "query \<Rightarrow> jsnum \<Rightarrow> jsnum \<Rightarrow> query" where
  "q_range_of q a b = q\<lparr>q_range := Some (a, b)\<rparr>"

section \<open>Conditions and their parser\<close>

datatype cond = Cond_eq string string | Cond_neq string string
  | Cond_like string string | Cond_ilike string string

datatype db_error = Parse_error string | Unknown_column string | Bad_range
  | Missing_column string

fun split_on :: "char \<Rightarrow> string \<Rightarrow> string list" where
  "split_on d [] = [[]]"
| "split_on d (c # s) =
     (if c = d then [] # split_on d s
      else (case split_on d s of w # ws \<Rightarrow> (c # w) # ws | [] \<Rightarrow> [[c]]))"

definition split_first :: "char \<Rightarrow> string \<Rightarrow> (string \<times> string) option" where
  "split_first d s =
     (if d \<in> set s then Some (takeWhile (\<lambda>c. c \<noteq> d) s, tl (dropWhile (\<lambda>c. c \<noteq> d) s))
      else None)"

definition parse_cond :: "string \<Rightarrow> db_error + cond" where
  "parse_cond piece =
     (case split_first CHR ''.'' piece of
        None \<Rightarrow> Inl (Parse_error piece)
      | Some (c, rest) \<Rightarrow>
          (case split_first CHR ''.'' rest of
             None \<Rightarrow> Inl (Parse_error piece)
           | Some (opr, v) \<Rightarrow>
               (if opr = ''eq'' then Inr (Cond_eq c v)
                else if opr = ''neq'' then Inr (Cond_neq c v)
                else if opr = ''like'' then Inr (Cond_like c v)
                else if opr = ''ilike'' then Inr (Cond_ilike c v)
                else Inl (Parse_error piece))))"

fun parse_conds :: "string list \<Rightarrow> db_error + cond list" where
  "parse_conds [] = Inr []"
| "parse_conds (p # ps) =
     (case parse_cond p of
        Inl e \<Rightarrow> Inl e
      | Inr c \<Rightarrow> (case parse_conds ps of Inl e \<Rightarrow> Inl e | Inr cs \<Rightarrow> Inr (c # cs)))"

definition parse_or :: "string \<Rightarrow> db_error + cond list" where
  "parse_or s =
     (if CHR '')'' \<in> set s then Inl (Parse_error s) else parse_conds (split_on CHR '','' s))"

section \<open>Pattern matching\<close>

definition is_any :: "char \<Rightarrow> bool" where
  "is_any c \<longleftrightarrow> c = CHR ''%'' \<or> c = CHR ''*''"

fun like_match :: "string \<Rightarrow> string \<Rightarrow> bool" where
  "like_match [] t \<longleftrightarrow> t = []"
| "like_match (c # p) [] \<longleftrightarrow> is_any c \<and> like_match p []"
| "like_match (c # p) (x # t) \<longleftrightarrow>
     (if is_any c then like_match p (x # t) \<or> like_match (c # p) t
      else if c = CHR ''_'' then like_match p t
      else if c = CHR 0x5C \<and> p \<noteq> [] then x = hd p \<and> like_match (tl p) t
      else x = c \<and> like_match p t)"

definition ilike_match :: "string \<Rightarrow> string \<Rightarrow> bool" where
  "ilike_match p t = like_match (js_lower p) (js_lower t)"

section \<open>Tables and evaluation\<close>

text \<open>
  A table schema: its columns, the data columns an insert must give, how a row shows
  a column as text, its creation time, and how the service builds a row from the
  inserted fields, an identifier and a time.
\<close>

record 'r schema =
  columns :: "string list"
  required :: "string list"
  field :: "'r \<Rightarrow> string \<Rightarrow> string"
  created :: "'r \<Rightarrow> nat"
  build :: "(string \<Rightarrow> string) \<Rightarrow> string \<Rightarrow> nat \<Rightarrow> 'r"

record 'r table =
  rows :: "'r list"
  next_id :: nat
  clock :: nat

fun cond_column :: "cond \<Rightarrow> string" where
  "cond_column (Cond_eq c v) = c"
| "cond_column (Cond_neq c v) = c"
| "cond_column (Cond_like c v) = c"
| "cond_column (Cond_ilike c v) = c"

fun cond_holds :: "'r schema \<Rightarrow> 'r \<Rightarrow> cond \<Rightarrow> bool" where
  "cond_holds sc r (Cond_eq c v) \<longleftrightarrow> field sc r c = v"
| "cond_holds sc r (Cond_neq c v) \<longleftrightarrow> field sc r c \<noteq> v"
| "cond_holds sc r (Cond_like c v) \<longleftrightarrow> like_match v (field sc r c)"
| "cond_holds sc r (Cond_ilike c v) \<longleftrightarrow> ilike_match v (field sc r c)"

text \<open>A filter of the request becomes a disjunction of conditions.\<close>

fun filter_conds :: "filter \<Rightarrow> db_error + cond list" where
  "filter_conds (Or_filter s) = parse_or s"
| "filter_conds (Eq_filter c v) = Inr [Cond_eq c v]"

fun all_filter_conds :: "filter list \<Rightarrow> db_error + cond list list" where
  "all_filter_conds [] = Inr []"
| "all_filter_conds (f # fs) =
     (case filter_conds f of
        Inl e \<Rightarrow> Inl e
      | Inr cs \<Rightarrow> (case all_filter_conds fs of Inl e \<Rightarrow> Inl e | Inr css \<Rightarrow> Inr (cs # css)))"

definition row_matches :: "'r schema \<Rightarrow> cond list list \<Rightarrow> 'r \<Rightarrow> bool" where
  "row_matches sc css r \<longleftrightarrow> (\<forall>cs \<in> set css. \<exists>c \<in> set cs. cond_holds sc r c)"

definition newest_first :: "'r schema \<Rightarrow> 'r list \<Rightarrow> 'r list" where
  "newest_first sc rs = sort_key (\<lambda>r. - int (created sc r)) rs"

definition apply_range :: "(jsnum \<times> jsnum) option \<Rightarrow> 'r list \<Rightarrow> db_error + 'r list" where
  "apply_range rg rs =
     (case rg of
        None \<Rightarrow> Inr rs
      | Some (Num a, Num b) \<Rightarrow>
          (if 0 \<le> a then Inr (take (nat (b - a + 1)) (drop (nat a) rs)) else Inl Bad_range)
      | Some _ \<Rightarrow> Inl Bad_range)"

definition bad_column :: "'r schema \<Rightarrow> cond list list \<Rightarrow> string option" where
  "bad_column sc css =
     find (\<lambda>c. c \<notin> set (columns sc)) (map cond_column (concat css))"

text \<open>
  \<open>run_select\<close> answers a select request with the page of rows and the exact
  count of all matching rows, or with the error the service reports.
\<close>

definition run_select :: "'r schema \<Rightarrow> 'r list \<Rightarrow> query \<Rightarrow> db_error + ('r list \<times> nat)" where
  "run_select sc rs q =
     (case all_filter_conds (q_filters q) of
        Inl e \<Rightarrow> Inl e
      | Inr css \<Rightarrow>
          (case bad_column sc css of
             Some c \<Rightarrow> Inl (Unknown_column c)
           | None \<Rightarrow>
               (let matching = filter (row_matches sc css) rs;
                    ordered = (case q_order q of None \<Rightarrow> matching
                               | Some (_, asc) \<Rightarrow>
                                   if asc then rev (newest_first sc matching)
                                   else newest_first sc matching)
                in case apply_range (q_range q) ordered of
                     Inl e \<Rightarrow> Inl e
                   | Inr page \<Rightarrow> Inr (page, length matching))))"

text \<open>An insert of one JSON object, given as its list of fields.\<close>

definition run_insert ::
  "'r schema \<Rightarrow> 'r table \<Rightarrow> (string \<times> string) list \<Rightarrow> db_error + ('r table \<times> 'r)" where
  "run_insert sc t body =
     (case find (\<lambda>k. k \<notin> set (columns sc)) (map fst body) of
        Some k \<Rightarrow> Inl (Unknown_column k)
      | None \<Rightarrow>
          (case find (\<lambda>c. map_of body c = None) (required sc) of
             Some c \<Rightarrow> Inl (Missing_column c)
           | None \<Rightarrow>
               (let r = build sc (\<lambda>c. the (map_of body c)) (decimal (next_id t)) (clock t)
                in Inr (t\<lparr>rows := rows t @ [r], next_id := Suc (next_id t),
                          clock := Suc (clock t)\<rparr>, r))))"

text \<open>The \<open>message\<close> of the error object the service returns.\<close>

definition db_error_message :: "db_error \<Rightarrow> string" where
  "db_error_message e =
     (case e of Parse_error p \<Rightarrow> ''failed to parse filter ('' @ p @ '')''
      | Unknown_column c \<Rightarrow> ''column '' @ c @ '' does not exist''
      | Bad_range \<Rightarrow> ''invalid range''
      | Missing_column c \<Rightarrow> ''null value in column '' @ c)"

text \<open>
  Characters with no special meaning in a pattern, and searches safe to interpolate: no
  pattern character, and neither of the two characters that end an unquoted value of
  an or-filter (a comma and a closing parenthesis).
\<close>

definition plain_char :: "char \<Rightarrow> bool" where
  "plain_char c \<longleftrightarrow> \<not> is_any c \<and> c \<noteq> CHR ''_'' \<and> c \<noteq> CHR 0x5C"

definition safe_search :: "string \<Rightarrow> bool" where
  "safe_search s \<longleftrightarrow> (\<forall>c \<in> set s. plain_char c \<and> c \<noteq> CHR '','' \<and> c \<noteq> CHR '')'')"

text \<open>
  What a schema must do for the table invariant: a built row carries the identifier and
  the time it was built with. The invariant itself: identifiers are distinct, each is
  the decimal form of a number below \<open>next_id\<close>, and every row is older than \<open>clock\<close>.
\<close>

definition schema_ok :: "'r schema \<Rightarrow> bool" where
  "schema_ok sc \<longleftrightarrow>
     (\<forall>f i n. field sc (build sc f i n) ''id'' = i \<and> created sc (build sc f i n) = n)"

definition table_wf :: "'r schema \<Rightarrow> 'r table \<Rightarrow> bool" where
  "table_wf sc t \<longleftrightarrow>
     distinct (map (\<lambda>r. field sc r ''id'') (rows t)) \<and>
     (\<forall>r \<in> set (rows t). (\<exists>k < next_id t. field sc r ''id'' = decimal k) \<and> created sc r < clock t)"

declare select_all_def [model_defs] q_or_def [model_defs] q_eq_def [model_defs]
  q_order_by_def [model_defs] q_range_of_def [model_defs] split_first_def [model_defs]
  parse_cond_def [model_defs] parse_or_def [model_defs] is_any_def [model_defs]
  ilike_match_def [model_defs] row_matches_def [model_defs] newest_first_def [model_defs]
  apply_range_def [model_defs] bad_column_def [model_defs] run_select_def [model_defs]
  run_insert_def [model_defs]

section \<open>Lemmas on patterns, the filter parser and evaluation\<close>

lemma like_match_plain_prefix:
  "\<forall>c \<in> set p. plain_char c \<Longrightarrow>
   like_match (p @ q) t \<longleftrightarrow> (\<exists>t'. t = p @ t' \<and> like_match q t')"
proof (induction p arbitrary: t)
  case Nil
  then show ?case by simp
next
  case (Cons c p)
  then show ?case by (cases t) (auto simp: plain_char_def)
qed

lemma like_match_any:
  "is_any c \<Longrightarrow> like_match (c # q) t \<longleftrightarrow> (\<exists>t1 t2. t = t1 @ t2 \<and> like_match q t2)"
proof (induction t)
  case Nil
  then show ?case by simp
next
  case (Cons x t)
  then show ?case by (auto simp: Cons_eq_append_conv)
qed

lemma like_match_contains:
  "\<forall>c \<in> set p. plain_char c \<Longrightarrow> like_match (CHR ''%'' # p @ ''%'') t \<longleftrightarrow> sublist p t"
  by (auto simp: like_match_any is_any_def like_match_plain_prefix sublist_def)

lemma plain_char_lower: "plain_char c \<Longrightarrow> plain_char (js_lower_char c)"
proof (cases "65 \<le> (of_char c :: nat) \<and> (of_char c :: nat) \<le> 90")
  case True
  then have "97 \<le> (of_char (js_lower_char c) :: nat)" by (simp add: of_char_js_lower_char)
  moreover have "(of_char s :: nat) < 97" if "\<not> plain_char s" for s
    using that by (auto simp: plain_char_def is_any_def)
  ultimately show ?thesis by force
next
  case False
  then show "plain_char c \<Longrightarrow> ?thesis" by (auto simp: js_lower_char_def Let_def)
qed

lemma ilike_match_contains:
  "\<forall>c \<in> set s. plain_char c \<Longrightarrow>
   ilike_match (CHR ''%'' # s @ ''%'') t \<longleftrightarrow> sublist (js_lower s) (js_lower t)"
proof -
  assume "\<forall>c \<in> set s. plain_char c"
  then have "\<forall>c \<in> set (js_lower s). plain_char c" by (auto simp: js_lower_def plain_char_lower)
  moreover have "js_lower_char CHR ''%'' = CHR ''%''" by (simp add: js_lower_char_def)
  ultimately show ?thesis by (simp add: ilike_match_def like_match_contains)
qed

lemma split_on_no_delim: "d \<notin> set xs \<Longrightarrow> split_on d xs = [xs]"
  by (induction xs) auto

lemma split_on_append_delim:
  "d \<notin> set xs \<Longrightarrow> split_on d (xs @ d # ys) = xs # split_on d ys"
proof (induction xs)
  case Nil
  then show ?case by simp
next
  case (Cons x xs)
  then show ?case by auto
qed

lemma split_on_js_join:
  "\<forall>w \<in> set ws. d \<notin> set w \<Longrightarrow> ws \<noteq> [] \<Longrightarrow> split_on d (js_join [d] ws) = ws"
proof (induction "[d]" ws rule: js_join.induct)
  case (2 x)
  then show ?case by (simp add: split_on_no_delim)
next
  case (3 x y ys)
  then show ?case by (simp add: split_on_append_delim)
qed simp

lemma split_first_append: "d \<notin> set a \<Longrightarrow> split_first d (a @ d # b) = Some (a, b)"
  by (induction a) (auto simp: split_first_def)

lemma parse_cond_ilike:
  "CHR ''.'' \<notin> set c \<Longrightarrow> parse_cond (c @ ''.ilike.'' @ v) = Inr (Cond_ilike c v)"
  using split_first_append [of "CHR ''.''" c "''ilike.'' @ v"]
    split_first_append [of "CHR ''.''" "''ilike''" v]
  by (simp add: parse_cond_def)

lemma all_filter_conds_append:
  "all_filter_conds (xs @ ys) =
     (case all_filter_conds xs of Inl e \<Rightarrow> Inl e
      | Inr a \<Rightarrow> (case all_filter_conds ys of Inl e \<Rightarrow> Inl e | Inr b \<Rightarrow> Inr (a @ b)))"
  by (induction xs) (auto split: sum.splits)

lemma run_select_range:
  "all_filter_conds (q_filters q) = Inr css \<Longrightarrow> bad_column sc css = None \<Longrightarrow>
   q_order q = Some (c, False) \<Longrightarrow> q_range q = Some (Num a, Num b) \<Longrightarrow> 0 \<le> a \<Longrightarrow>
   run_select sc rs q =
     Inr (take (nat (b - a + 1)) (drop (nat a) (newest_first sc (filter (row_matches sc css) rs))),
          length (filter (row_matches sc css) rs))"
  by (simp add: run_select_def apply_range_def Let_def)

text \<open>
  A newest-first paged select answers the specified page: the route's envelope of its
  result is \<^const>\<open>newest_page\<close> of the rows the filter accepts. Both list routes use it.
\<close>

lemma run_select_newest_page:
  assumes conds: "all_filter_conds (q_filters q) = Inr css" and bad: "bad_column sc css = None"
    and ord: "q_order q = Some (c, False)"
    and rng: "q_range q = Some (Num ((p - 1) * l), Num ((p - 1) * l + l - 1))"
    and p1: "1 \<le> p" and l1: "1 \<le> l"
  shows "(case run_select sc rs q of
            Inl e \<Rightarrow> Error_500 (db_error_message e)
          | Inr (data, count) \<Rightarrow> Ok_json (make_envelope (Some data) (Some count) (Num p) (Num l))) =
         Ok_json (newest_page (created sc) (row_matches sc css) p l rs)"
proof -
  have "run_select sc rs q =
     Inr (take (nat l) (drop (nat ((p - 1) * l)) (newest_first sc (filter (row_matches sc css) rs))),
          length (filter (row_matches sc css) rs))"
    using run_select_range [OF conds bad ord rng] p1 l1 by simp
  then show ?thesis using l1 by (simp add: make_envelope_Num newest_page_def newest_first_def Let_def)
qed

lemma row_matches_append [simp]:
  "row_matches sc (a @ b) r \<longleftrightarrow> row_matches sc a r \<and> row_matches sc b r"
  by (auto simp: row_matches_def)

lemma row_matches_Nil [simp]: "row_matches sc [] r"
  by (simp add: row_matches_def)

lemma row_matches_single [simp]: "row_matches sc [cs] r \<longleftrightarrow> (\<exists>c \<in> set cs. cond_holds sc r c)"
  by (simp add: row_matches_def)

lemma run_insert_Inr:
  "run_insert sc t b = Inr (t', r) \<Longrightarrow>
   r = build sc (\<lambda>c. the (map_of b c)) (decimal (next_id t)) (clock t) \<and>
   t' = t\<lparr>rows := rows t @ [r], next_id := Suc (next_id t), clock := Suc (clock t)\<rparr>"
  by (auto simp: run_insert_def Let_def split: option.splits)

lemma run_insert_table_wf:
  assumes ok: "schema_ok sc" and wf: "table_wf sc t" and ins: "run_insert sc t b = Inr (t', r)"
  shows "table_wf sc t'"
proof -
  from run_insert_Inr [OF ins] have r: "field sc r ''id'' = decimal (next_id t)"
      "created sc r = clock t"
    and t': "t' = t\<lparr>rows := rows t @ [r], next_id := Suc (next_id t), clock := Suc (clock t)\<rparr>"
    using ok by (auto simp: schema_ok_def)
  have fresh: "decimal (next_id t) \<notin> set (map (\<lambda>r. field sc r ''id'') (rows t))"
    using wf by (auto simp: table_wf_def decimal_inj)
  show ?thesis
    using wf r fresh by (fastforce simp: t' table_wf_def less_Suc_eq)
qed

lemma sort_key_append_least:
  "\<forall>y \<in> set xs. f x < f y \<Longrightarrow> sort_key f (xs @ [x]) = x # sort_key f xs"
proof (induction xs)
  case Nil
  then show ?case by simp
next
  case (Cons y ys)
  then have "sort_key f (ys @ [x]) = x # sort_key f ys" by simp
  with Cons.prems show ?case by auto
qed

text \<open>A page of a select is made of rows of the table, distinct when they are.\<close>

lemma run_select_page:
  "run_select sc rs q = Inr (page, n) \<Longrightarrow> set page \<subseteq> set rs \<and> (distinct rs \<longrightarrow> distinct page)"
  by (auto simp: run_select_def apply_range_def newest_first_def Let_def distinct_sort
      dest!: in_set_takeD in_set_dropD split: sum.splits option.splits prod.splits jsnum.splits if_splits)

lemma distinct_map_subset:
  "distinct (map f ys) \<Longrightarrow> set xs \<subseteq> set ys \<Longrightarrow> distinct xs \<Longrightarrow> distinct (map f xs)"
  by (auto simp: distinct_map intro: inj_on_subset)

lemma newest_first_insert:
  "schema_ok sc \<Longrightarrow> table_wf sc t \<Longrightarrow> run_insert sc t b = Inr (t', r) \<Longrightarrow>
   P r \<Longrightarrow> newest_first sc (filter P (rows t')) = r # newest_first sc (filter P (rows t))"
  by (auto simp: newest_first_def schema_ok_def table_wf_def dest!: run_insert_Inr
      intro!: sort_key_append_least)

text \<open>The pattern \<open>%%\<close> matches every text.\<close>

lemma like_match_any_all: "like_match ''%%'' t"
  by (induction t) (simp_all add: is_any_def)

lemma ilike_any_all: "ilike_match ''%%'' t"
  using like_match_any_all [of "js_lower t"] by (simp add: ilike_match_def js_lower_def js_lower_char_def)

text \<open>An or-filter of \<open>ilike\<close> conditions on plain column names, as the routes build it.\<close>

lemma parse_conds_ilike:
  "\<forall>c \<in> set cols. CHR ''.'' \<notin> set c \<Longrightarrow>
   parse_conds (map (\<lambda>c. c @ ''.ilike.'' @ v) cols) = Inr (map (\<lambda>c. Cond_ilike c v) cols)"
proof (induction cols)
  case (Cons a cols)
  have "parse_cond (a @ ''.ilike.'' @ v) = Inr (Cond_ilike a v)"
    using Cons.prems by (intro parse_cond_ilike) simp
  with Cons show ?case by simp
qed simp

lemma paren_js_join:
  "\<forall>w \<in> set ws. CHR '')'' \<notin> set w \<Longrightarrow> CHR '')'' \<notin> set (js_join '','' ws)"
  by (induction "'',''" ws rule: js_join.induct) auto

lemma parse_or_ilike_columns:
  assumes s: "CHR '','' \<notin> set s" "CHR '')'' \<notin> set s"
    and cs: "\<forall>c \<in> set cols. CHR ''.'' \<notin> set c \<and> CHR '','' \<notin> set c \<and> CHR '')'' \<notin> set c"
    and ne: "cols \<noteq> []"
  shows "parse_or (js_join '','' (map (\<lambda>c. c @ ''.ilike.%'' @ s @ ''%'') cols)) =
           Inr (map (\<lambda>c. Cond_ilike c (''%'' @ s @ ''%'')) cols)"
proof -
  have "split_on CHR '','' (js_join '','' (map (\<lambda>c. c @ ''.ilike.%'' @ s @ ''%'') cols)) =
        map (\<lambda>c. c @ ''.ilike.'' @ (''%'' @ s @ ''%'')) cols"
    using split_on_js_join [of "map (\<lambda>c. c @ ''.ilike.%'' @ s @ ''%'') cols" "CHR '',''"] s cs ne
    by auto
  moreover have "parse_conds (map (\<lambda>c. c @ ''.ilike.'' @ (''%'' @ s @ ''%'')) cols) =
      Inr (map (\<lambda>c. Cond_ilike c (''%'' @ s @ ''%'')) cols)"
    using cs by (intro parse_conds_ilike) auto
  moreover have "CHR '')'' \<notin> set (js_join '','' (map (\<lambda>c. c @ ''.ilike.%'' @ s @ ''%'') cols))"
    using s cs by (intro paren_js_join) auto
  ultimately show ?thesis by (simp add: parse_or_def)
qed

text \<open>A select whose first filter is an or-filter with a \<open>)\<close> in it fails to parse.\<close>

lemma run_select_paren:
  "q_filters q = Or_filter s # fs \<Longrightarrow> CHR '')'' \<in> set s \<Longrightarrow> run_select sc rs q = Inl (Parse_error s)"
  by (simp add: run_select_def parse_or_def)

end
