(* ===== verification/Employees_Api.thy ===== *)
theory Employees_Api
  imports Data_Service
begin

text \<open>
  The employees resource endpoint, \<open>src/app/api/employees/route.ts\<close>: the employee
  row as the table and the client see it, the table schema the data service works
  on, and the two handlers \<open>GET\<close> (filtered, sorted, paged list in an envelope)
  and \<open>POST\<close> (insert one employee). A handler takes whether the service
  configuration is present (\<open>createClient\<close> throws without it, and the
  \<open>catch\<close> answers 500), the request, and the table.
\<close>

record employee =
  emp_id :: string
  emp_name :: string
  emp_email :: string
  emp_department :: string
  emp_role :: string
  emp_status :: string
  emp_created_at :: nat
  emp_updated_at :: nat

section \<open>The employees table\<close>

definition employee_data_columns :: "string list" where
  "employee_data_columns = [''name'', ''email'', ''department'', ''role'', ''status'']"

definition employee_field :: "employee \<Rightarrow> string \<Rightarrow> string" where
  "employee_field e c =
     (if c = ''id'' then emp_id e
      else if c = ''name'' then emp_name e
      else if c = ''email'' then emp_email e
      else if c = ''department'' then emp_department e
      else if c = ''role'' then emp_role e
      else if c = ''status'' then emp_status e
      else if c = ''created_at'' then decimal (emp_created_at e)
      else if c = ''updated_at'' then decimal (emp_updated_at e)
      else [])"

definition build_employee :: "(string \<Rightarrow> string) \<Rightarrow> string \<Rightarrow> nat \<Rightarrow> employee" where
  "build_employee f i t =
     \<lparr>emp_id = i, emp_name = f ''name'', emp_email = f ''email'',
      emp_department = f ''department'', emp_role = f ''role'', emp_status = f ''status'',
      emp_created_at = t, emp_updated_at = t\<rparr>"

definition employee_schema :: "employee schema" where
  "employee_schema =
     \<lparr>columns = ''id'' # employee_data_columns @ [''created_at'', ''updated_at''],
      required = employee_data_columns, field = employee_field,
      created = emp_created_at, build = build_employee\<rparr>"

section \<open>GET\<close>

definition employees_or_filter :: "string \<Rightarrow> string" where
  "employees_or_filter s =
     ''name.ilike.%'' @ s @ ''%,email.ilike.%'' @ s @ ''%,department.ilike.%'' @ s @
     ''%,role.ilike.%'' @ s @ ''%''"

definition employees_query :: "string \<Rightarrow> string \<Rightarrow> string \<Rightarrow> jsnum \<Rightarrow> jsnum \<Rightarrow> query" where
  "employees_query search department status page limit =
     (let offset = offset_of page limit;
          q0 = select_all ''employees'';
          q1 = (if search \<noteq> [] then q_or q0 (employees_or_filter search) else q0);
          q2 = (if department \<noteq> [] then q_eq q1 ''department'' department else q1);
          q3 = (if status \<noteq> [] then q_eq q2 ''status'' status else q2)
      in q_range_of (q_order_by q3 ''created_at'' False) offset
           (js_sub (js_add offset limit) (Num 1)))"

definition employees_GET ::
  "bool \<Rightarrow> query_pairs \<Rightarrow> employee list \<Rightarrow> employee page_envelope api_response" where
  "employees_GET env_ok ps rs =
     (let page = page_of ps;
          limit = limit_of ps;
          search = param ps ''search'' [];
          department = param ps ''department'' [];
          status = param ps ''status'' []
      in if \<not> env_ok then Error_500 ''Internal server error''
         else (case run_select employee_schema rs
                      (employees_query search department status page limit) of
                 Inl e \<Rightarrow> Error_500 (db_error_message e)
               | Inr (data, count) \<Rightarrow> Ok_json (make_envelope (Some data) (Some count) page limit)))"

section \<open>POST\<close>

text \<open>
  The body is the request's JSON object as its list of fields, \<open>None\<close> when
  \<open>request.json()\<close> throws. The handler returns the table afterwards and the response.
\<close>

definition employees_POST ::
  "bool \<Rightarrow> (string \<times> string) list option \<Rightarrow> employee table \<Rightarrow>
   employee table \<times> employee api_response" where
  "employees_POST env_ok body t =
     (if \<not> env_ok then (t, Error_500 ''Internal server error'')
      else (case body of
              None \<Rightarrow> (t, Error_500 ''Internal server error'')
            | Some b \<Rightarrow>
                (case run_insert employee_schema t b of
                   Inl e \<Rightarrow> (t, Error_500 (db_error_message e))
                 | Inr (t', r) \<Rightarrow> (t', Ok_json r))))"

section \<open>Abstract specification of GET\<close>

text \<open>
  What the spec (section 4.2) promises: an employee matches when the search is empty
  or occurs, ignoring case, in its name, email, department or role, and the
  department and status filters are empty or equal; the page is the slice of the
  matches, newest first, at offset \<open>(page - 1) * limit\<close>.
\<close>

definition employee_matches :: "string \<Rightarrow> string \<Rightarrow> string \<Rightarrow> employee \<Rightarrow> bool" where
  "employee_matches search dept st e \<longleftrightarrow>
     (search = [] \<or>
      (\<exists>f \<in> set [emp_name e, emp_email e, emp_department e, emp_role e].
         sublist (js_lower search) (js_lower f)))
     \<and> (dept = [] \<or> emp_department e = dept) \<and> (st = [] \<or> emp_status e = st)"

definition employees_page_spec ::
  "string \<Rightarrow> string \<Rightarrow> string \<Rightarrow> int \<Rightarrow> int \<Rightarrow> employee list \<Rightarrow> employee page_envelope" where
  "employees_page_spec search dept st p l rs =
     newest_page emp_created_at (employee_matches search dept st) p l rs"

definition employees_css :: "string \<Rightarrow> string \<Rightarrow> string \<Rightarrow> cond list list" where
  "employees_css s d st =
     (if s \<noteq> [] then [map (\<lambda>c. Cond_ilike c (''%'' @ s @ ''%'')) [''name'', ''email'', ''department'', ''role'']] else []) @
     (if d \<noteq> [] then [[Cond_eq ''department'' d]] else []) @
     (if st \<noteq> [] then [[Cond_eq ''status'' st]] else [])"

declare employee_data_columns_def [model_defs] employee_field_def [model_defs]
  build_employee_def [model_defs] employee_schema_def [model_defs]
  employees_or_filter_def [model_defs] employees_query_def [model_defs]
  db_error_message_def [model_defs] employees_GET_def [model_defs]
  employees_POST_def [model_defs]

section \<open>GET refines its specification\<close>

lemma employees_or_filter_join:
  "employees_or_filter s = js_join '','' [''name.ilike.%'' @ s @ ''%'', ''email.ilike.%'' @ s @ ''%'',
     ''department.ilike.%'' @ s @ ''%'', ''role.ilike.%'' @ s @ ''%'']"
  by (simp add: employees_or_filter_def)

lemma parse_or_employees:
  "CHR '','' \<notin> set s \<Longrightarrow> CHR '')'' \<notin> set s \<Longrightarrow>
   parse_or (employees_or_filter s) =
     Inr [Cond_ilike ''name'' (''%'' @ s @ ''%''), Cond_ilike ''email'' (''%'' @ s @ ''%''),
          Cond_ilike ''department'' (''%'' @ s @ ''%''), Cond_ilike ''role'' (''%'' @ s @ ''%'')]"
  using parse_or_ilike_columns [of s "[''name'', ''email'', ''department'', ''role'']"]
  by (simp add: employees_or_filter_join)

lemma q_filters_employees_query:
  "q_filters (employees_query s d st pg lm) =
     (if s \<noteq> [] then [Or_filter (employees_or_filter s)] else []) @
     (if d \<noteq> [] then [Eq_filter ''department'' d] else []) @
     (if st \<noteq> [] then [Eq_filter ''status'' st] else [])"
  by (simp add: employees_query_def Let_def q_or_def q_eq_def select_all_def
      q_order_by_def q_range_of_def)

lemma all_filter_conds_employees:
  "safe_search s \<Longrightarrow>
   all_filter_conds (q_filters (employees_query s d st pg lm)) = Inr (employees_css s d st)"
proof -
  assume "safe_search s"
  then have "CHR '','' \<notin> set s" "CHR '')'' \<notin> set s" by (auto simp: safe_search_def)
  then have "all_filter_conds [Or_filter (employees_or_filter s)] =
      Inr [map (\<lambda>c. Cond_ilike c (''%'' @ s @ ''%'')) [''name'', ''email'', ''department'', ''role'']]"
    using parse_or_employees [of s] by simp
  then show ?thesis
    by (simp only: q_filters_employees_query all_filter_conds_append employees_css_def)
      (simp split: if_splits)
qed

lemma bad_column_employees: "bad_column employee_schema (employees_css s d st) = None"
  by (auto simp: bad_column_def employees_css_def employee_schema_def employee_data_columns_def
      find_None_iff)

lemma row_matches_employees:
  "safe_search s \<Longrightarrow>
   row_matches employee_schema (employees_css s d st) = employee_matches s d st"
proof -
  assume "safe_search s"
  then have "\<forall>c \<in> set s. plain_char c" by (simp add: safe_search_def)
  then show ?thesis
    by (simp add: fun_eq_iff employees_css_def employee_matches_def employee_schema_def
        employee_field_def ilike_match_contains)
qed

lemma employees_GET_spec:
  assumes pg: "page_of ps = Num p" and lm: "limit_of ps = Num l"
    and safe: "safe_search (param ps ''search'' [])"
  shows "employees_GET True ps rs =
     Ok_json (employees_page_spec (param ps ''search'' []) (param ps ''department'' [])
                (param ps ''status'' []) p l rs)"
proof -
  let ?s = "param ps ''search'' []" and ?d = "param ps ''department'' []"
    and ?st = "param ps ''status'' []"
  let ?q = "employees_query ?s ?d ?st (Num p) (Num l)"
  have p1: "1 \<le> p" using pg js_max1_Num by (simp add: page_of_def)
  have l1: "1 \<le> l" using lm js_max1_Num by (simp add: limit_of_def)
  have ord: "q_order ?q = Some (''created_at'', False)"
    by (simp add: employees_query_def Let_def q_range_of_def q_order_by_def)
  have rng: "q_range ?q = Some (Num ((p - 1) * l), Num ((p - 1) * l + l - 1))"
    by (simp add: employees_query_def Let_def q_range_of_def offset_of_def)
  have "(case run_select employee_schema rs ?q of
            Inl e \<Rightarrow> Error_500 (db_error_message e)
          | Inr (data, count) \<Rightarrow> Ok_json (make_envelope (Some data) (Some count) (Num p) (Num l))) =
        Ok_json (employees_page_spec ?s ?d ?st p l rs)"
    using run_select_newest_page [OF all_filter_conds_employees [OF safe] bad_column_employees ord rng p1 l1]
      row_matches_employees [OF safe] by (simp add: employees_page_spec_def employee_schema_def)
  then show ?thesis using pg lm by (simp add: employees_GET_def Let_def)
qed

lemma run_select_length:
  "run_select sc rs q = Inr (xs, n) \<Longrightarrow> q_range q = Some (Num a, Num b) \<Longrightarrow>
   length xs \<le> nat (b - a + 1)"
  by (auto simp: run_select_def apply_range_def Let_def split: sum.splits option.splits if_splits)

lemma q_range_employees_query:
  "q_range (employees_query s d st (Num p) (Num l)) = Some (Num ((p - 1) * l), Num ((p - 1) * l + l - 1))"
  by (simp add: employees_query_def Let_def q_range_of_def offset_of_def)

lemma run_select_NaN_range:
  "q_range q = Some (NaN, b) \<Longrightarrow> \<exists>e. run_select sc rs q = Inl e"
  by (auto simp: run_select_def apply_range_def Let_def split: sum.splits option.splits)

lemma offset_of_NaN: "offset_of NaN l = NaN"
  by (simp add: offset_of_def)

lemma all_filter_conds_comma:
  "all_filter_conds (q_filters (employees_query ''a,b'' d st pg lm)) = Inl (Parse_error ''b%'')"
  by (simp add: q_filters_employees_query all_filter_conds_append employees_or_filter_def
      parse_or_def parse_cond_def split_first_def)


lemma injection_or_filter:
  "employees_or_filter (x @ '',name.ilike.%'') =
     js_join '','' [''name.ilike.%'' @ x, ''name.ilike.%%'', ''email.ilike.%'' @ x, ''name.ilike.%%'',
       ''department.ilike.%'' @ x, ''name.ilike.%%'', ''role.ilike.%'' @ x, ''name.ilike.%%'']"
  by (simp add: employees_or_filter_def)

lemma schema_ok_employee: "schema_ok employee_schema"
  by (simp add: schema_ok_def employee_schema_def build_employee_def employee_field_def)

lemma employees_POST_Ok:
  "employees_POST env_ok b t = (t', Ok_json r) \<Longrightarrow>
   \<exists>body. b = Some body \<and> run_insert employee_schema t body = Inr (t', r)"
  by (auto simp: employees_POST_def split: if_splits option.splits sum.splits)

lemma employees_POST_unchanged:
  "employees_POST env_ok b t = (t', Error_500 m) \<Longrightarrow> t' = t"
  by (auto simp: employees_POST_def split: if_splits option.splits sum.splits)

section \<open>Properties of the employees endpoint\<close>

text \<open>
  C1: GET refines the specification of the spec (section 4.2): for a numeric page and
  limit and a search text with no pattern character (\<open>%\<close>, \<open>*\<close>, \<open>_\<close>, backslash)
  and neither a comma nor a closing parenthesis (the filter syntax's separators), the answer is the
  page of the employees whose name, email, department or role contains the search
  (ignoring case) and whose department and status equal the non-empty filters, newest
  first, at offset (page - 1) * limit, with the exact total and hasMore = page * limit < total.
\<close>

theorem employees_GET_refines:
  "page_of ps = Num p \<Longrightarrow> limit_of ps = Num l \<Longrightarrow> safe_search (param ps ''search'' []) \<Longrightarrow>
   employees_GET True ps rs =
     Ok_json (employees_page_spec (param ps ''search'' []) (param ps ''department'' [])
                (param ps ''status'' []) p l rs)"
  by (rule employees_GET_spec)

theorem employees_GET_refines_witness:
  "page_of [(''search'', ''john'')] = Num 1 \<and> limit_of [(''search'', ''john'')] = Num 20 \<and>
   safe_search (param [(''search'', ''john'')] ''search'' []) \<and>
   employees_GET True [(''search'', ''john'')] [] = Ok_json (employees_page_spec ''john'' [] [] 1 20 [])"
proof -
  have h1: "page_of [(''search'', ''john'')] = Num 1" by code_simp
  have h2: "limit_of [(''search'', ''john'')] = Num 20" by code_simp
  have h3: "safe_search (param [(''search'', ''john'')] ''search'' [])" by code_simp
  show ?thesis using h1 h2 h3 employees_GET_refines [OF h1 h2 h3, of "[]"]
    by (simp add: param_def)
qed

text \<open>
  C19: every page GET answers has at most limit items, and hasMore holds exactly when
  page * limit is below the total, whatever the search text.
\<close>

theorem employees_GET_page_bounds:
  assumes pg: "page_of ps = Num p" and lm: "limit_of ps = Num l"
    and ok: "employees_GET True ps rs = Ok_json env"
  shows "length (items env) \<le> nat l \<and> (has_more env \<longleftrightarrow> p * l < int (env_total env))"
proof -
  have l1: "1 \<le> l" using lm js_max1_Num by (simp add: limit_of_def)
  obtain data count where rs: "run_select employee_schema rs
      (employees_query (param ps ''search'' []) (param ps ''department'' []) (param ps ''status'' [])
         (Num p) (Num l)) = Inr (data, count)"
    and env: "env = make_envelope (Some data) (Some count) (Num p) (Num l)"
    using ok pg lm by (auto simp: employees_GET_def Let_def split: sum.splits)
  have "length data \<le> nat l"
    using run_select_length [OF rs q_range_employees_query] by simp
  then show ?thesis
    using l1 js_less_ceil_div [of l p count] by (simp add: env make_envelope_def)
qed

theorem employees_GET_page_bounds_witness:
  "page_of [] = Num 1 \<and> limit_of [] = Num 20 \<and>
   employees_GET True [] [] = Ok_json (make_envelope (Some []) (Some 0) (Num 1) (Num 20)) \<and>
   length (items (make_envelope (Some ([]::employee list)) (Some 0) (Num 1) (Num 20))) \<le> nat 20 \<and>
   (has_more (make_envelope (Some ([]::employee list)) (Some 0) (Num 1) (Num 20)) \<longleftrightarrow>
      1 * 20 < int (env_total (make_envelope (Some ([]::employee list)) (Some 0) (Num 1) (Num 20))))"
proof -
  have h1: "page_of [] = Num 1" by code_simp
  have h2: "limit_of [] = Num 20" by code_simp
  have h3: "employees_GET True [] [] = Ok_json (make_envelope (Some []) (Some 0) (Num 1) (Num 20))"
    by code_simp
  show ?thesis using h1 h2 h3 employees_GET_page_bounds [OF h1 h2 h3] by simp
qed

text \<open>
  C23: a page parameter that parseInt cannot read (such as "abc") is not clamped to 1:
  Math.max(1, NaN) is NaN, the range sent to the data service is not a number, and
  GET answers with status 500.
\<close>

theorem employees_GET_NaN_page:
  "page_of ps = NaN \<Longrightarrow> \<exists>m. employees_GET True ps rs = Error_500 m"
proof -
  assume pg: "page_of ps = NaN"
  let ?q = "employees_query (param ps ''search'' []) (param ps ''department'' [])
              (param ps ''status'' []) NaN (limit_of ps)"
  have "q_range ?q = Some (NaN, js_sub (js_add NaN (limit_of ps)) (Num 1))"
    by (simp add: employees_query_def Let_def q_range_of_def offset_of_NaN)
  then obtain e where "run_select employee_schema rs ?q = Inl e"
    using run_select_NaN_range by blast
  then show ?thesis using pg by (simp add: employees_GET_def)
qed

theorem employees_GET_NaN_page_witness:
  "page_of [(''page'', ''abc'')] = NaN \<and>
   (\<exists>m. employees_GET True [(''page'', ''abc'')] [] = Error_500 m)"
proof -
  have h: "page_of [(''page'', ''abc'')] = NaN" by code_simp
  show ?thesis using h employees_GET_NaN_page [OF h] by simp
qed

text \<open>
  A comma in the search text breaks the filter the route builds by interpolation:
  the search "a,b" makes GET answer with status 500.
\<close>

theorem employees_GET_comma_search:
  "employees_GET True ((''search'', ''a,b'') # ps) rs = Error_500 ''failed to parse filter (b%)''"
  using all_filter_conds_comma
  by (simp add: employees_GET_def param_def run_select_def db_error_message_def)

text \<open>
  C27: the search text is interpolated unescaped into the filter language, so a search
  can add conditions of its own: for every text x without a comma or a closing
  parenthesis, the search "x,name.ilike.%" adds the condition that the name matches
  "%%", which every row satisfies, and GET answers the first page of all employees,
  whatever x is.
\<close>

theorem employees_search_injection:
  assumes c: "CHR '','' \<notin> set x" and r: "CHR '')'' \<notin> set x"
  shows "employees_GET True [(''search'', x @ '',name.ilike.%'')] rs =
           Ok_json (newest_page emp_created_at (\<lambda>e. True) 1 20 rs)"
proof -
  let ?s = "x @ '',name.ilike.%''"
  let ?ws = "[''name.ilike.%'' @ x, ''name.ilike.%%'', ''email.ilike.%'' @ x, ''name.ilike.%%'',
       ''department.ilike.%'' @ x, ''name.ilike.%%'', ''role.ilike.%'' @ x, ''name.ilike.%%'']"
  let ?cs = "[Cond_ilike ''name'' (''%'' @ x), Cond_ilike ''name'' ''%%'', Cond_ilike ''email'' (''%'' @ x),
       Cond_ilike ''name'' ''%%'', Cond_ilike ''department'' (''%'' @ x), Cond_ilike ''name'' ''%%'',
       Cond_ilike ''role'' (''%'' @ x), Cond_ilike ''name'' ''%%'']"
  let ?q = "employees_query ?s [] [] (Num 1) (Num 20)"
  have sp: "split_on CHR '','' (employees_or_filter ?s) = ?ws"
    unfolding injection_or_filter using c by (subst split_on_js_join) auto
  have np: "CHR '')'' \<notin> set (employees_or_filter ?s)"
    unfolding injection_or_filter using r by (intro paren_js_join) auto
  have "parse_conds ?ws = Inr ?cs"
    using parse_cond_ilike [of "''name''"] parse_cond_ilike [of "''email''"]
      parse_cond_ilike [of "''department''"] parse_cond_ilike [of "''role''"] by simp
  then have "parse_or (employees_or_filter ?s) = Inr ?cs"
    using sp np by (simp add: parse_or_def)
  then have conds: "all_filter_conds (q_filters ?q) = Inr [?cs]"
    by (simp add: q_filters_employees_query)
  have bad: "bad_column employee_schema [?cs] = None"
    by (simp add: bad_column_def employee_schema_def employee_data_columns_def)
  have ord: "q_order ?q = Some (''created_at'', False)"
    by (simp add: employees_query_def Let_def q_range_of_def q_order_by_def)
  have all: "row_matches employee_schema [?cs] = (\<lambda>e. True)"
    by (simp add: fun_eq_iff row_matches_def ilike_any_all)
  have pg: "page_of [(''search'', ?s)] = Num 1" and lm: "limit_of [(''search'', ?s)] = Num 20"
    by (simp_all add: page_of_def limit_of_def param_def js_parseInt_def strip_sign_def strip_radix_def
        js_whitespace_def digit_value_def digits_to_nat_def)
  have rng: "q_range ?q = Some (Num ((1 - 1) * 20), Num ((1 - 1) * 20 + 20 - 1))"
    by (rule q_range_employees_query)
  have one: "(1::int) \<le> 1" and twenty: "(1::int) \<le> 20" by simp_all
  show ?thesis
    using run_select_newest_page [OF conds bad ord rng one twenty, of rs] all pg lm
    by (simp add: employees_GET_def param_def employee_schema_def Let_def)
qed


theorem employees_search_injection_witness:
  "CHR '','' \<notin> set ''zz'' \<and> CHR '')'' \<notin> set ''zz'' \<and>
   employees_GET True [(''search'', ''zz,name.ilike.%'')]
     [\<lparr>emp_id = ''1'', emp_name = ''Ann'', emp_email = ''a@x'', emp_department = ''HR'',
       emp_role = ''Lead'', emp_status = ''Active'', emp_created_at = 0, emp_updated_at = 0\<rparr>] =
   Ok_json (newest_page emp_created_at (\<lambda>e. True) 1 20
     [\<lparr>emp_id = ''1'', emp_name = ''Ann'', emp_email = ''a@x'', emp_department = ''HR'',
       emp_role = ''Lead'', emp_status = ''Active'', emp_created_at = 0, emp_updated_at = 0\<rparr>]) \<and>
   items (newest_page emp_created_at (\<lambda>e. True) 1 20
     [\<lparr>emp_id = ''1'', emp_name = ''Ann'', emp_email = ''a@x'', emp_department = ''HR'',
       emp_role = ''Lead'', emp_status = ''Active'', emp_created_at = 0, emp_updated_at = 0\<rparr>]) =
     [\<lparr>emp_id = ''1'', emp_name = ''Ann'', emp_email = ''a@x'', emp_department = ''HR'',
       emp_role = ''Lead'', emp_status = ''Active'', emp_created_at = 0, emp_updated_at = 0\<rparr>] \<and>
   \<not> employee_matches ''zz,name.ilike.%'' [] []
       \<lparr>emp_id = ''1'', emp_name = ''Ann'', emp_email = ''a@x'', emp_department = ''HR'',
        emp_role = ''Lead'', emp_status = ''Active'', emp_created_at = 0, emp_updated_at = 0\<rparr>"
proof -
  have h1: "CHR '','' \<notin> set ''zz''" and h2: "CHR '')'' \<notin> set ''zz''" by simp_all
  have pg: "items (newest_page emp_created_at (\<lambda>e. True) 1 20
     [\<lparr>emp_id = ''1'', emp_name = ''Ann'', emp_email = ''a@x'', emp_department = ''HR'',
       emp_role = ''Lead'', emp_status = ''Active'', emp_created_at = 0, emp_updated_at = 0\<rparr>]) =
     [\<lparr>emp_id = ''1'', emp_name = ''Ann'', emp_email = ''a@x'', emp_department = ''HR'',
       emp_role = ''Lead'', emp_status = ''Active'', emp_created_at = 0, emp_updated_at = 0\<rparr>]"
    by (simp add: newest_page_def)
  have nm: "\<not> employee_matches ''zz,name.ilike.%'' [] []
       \<lparr>emp_id = ''1'', emp_name = ''Ann'', emp_email = ''a@x'', emp_department = ''HR'',
        emp_role = ''Lead'', emp_status = ''Active'', emp_created_at = 0, emp_updated_at = 0\<rparr>"
    by code_simp
  show ?thesis using h1 h2 pg nm employees_search_injection [OF h1 h2,
      of "[\<lparr>emp_id = ''1'', emp_name = ''Ann'', emp_email = ''a@x'', emp_department = ''HR'',
       emp_role = ''Lead'', emp_status = ''Active'', emp_created_at = 0, emp_updated_at = 0\<rparr>]"]
    by simp
qed





text \<open>
  C20: POST of a complete employee object inserts exactly that employee, with the next
  identifier and the current time as both timestamps, and answers with the inserted row.
\<close>

theorem employees_POST_roundtrip:
  "employees_POST True
     (Some [(''name'', n), (''email'', e), (''department'', d), (''role'', ro), (''status'', st)]) t =
   (t\<lparr>rows := rows t @ [\<lparr>emp_id = decimal (next_id t), emp_name = n, emp_email = e,
        emp_department = d, emp_role = ro, emp_status = st,
        emp_created_at = clock t, emp_updated_at = clock t\<rparr>],
      next_id := Suc (next_id t), clock := Suc (clock t)\<rparr>,
    Ok_json \<lparr>emp_id = decimal (next_id t), emp_name = n, emp_email = e,
        emp_department = d, emp_role = ro, emp_status = st,
        emp_created_at = clock t, emp_updated_at = clock t\<rparr>)"
  by (simp add: employees_POST_def run_insert_def employee_schema_def employee_data_columns_def
      build_employee_def Let_def)

text \<open>
  POST keeps the table invariant: identifiers stay distinct and below next_id, and
  every row is older than the clock.
\<close>

theorem employees_POST_table_wf:
  "table_wf employee_schema t \<Longrightarrow> employees_POST env_ok b t = (t', resp) \<Longrightarrow>
   table_wf employee_schema t'"
proof (cases resp)
  case (Ok_json r)
  assume "table_wf employee_schema t" "employees_POST env_ok b t = (t', resp)"
  with Ok_json show ?thesis
    using run_insert_table_wf [OF schema_ok_employee] employees_POST_Ok by blast
next
  case (Error_500 m)
  assume "table_wf employee_schema t" "employees_POST env_ok b t = (t', resp)"
  with Error_500 show ?thesis using employees_POST_unchanged by blast
qed

theorem employees_POST_table_wf_witness:
  "table_wf employee_schema \<lparr>rows = [], next_id = 0, clock = 0\<rparr> \<and>
   table_wf employee_schema
     (fst (employees_POST True (Some [(''name'', ''A''), (''email'', ''a@x''), (''department'', ''HR''),
        (''role'', ''Lead''), (''status'', ''Active'')]) \<lparr>rows = [], next_id = 0, clock = 0\<rparr>))"
proof -
  have h: "table_wf employee_schema \<lparr>rows = [], next_id = 0, clock = (0::nat)\<rparr>"
    by (simp add: table_wf_def)
  show ?thesis
    using h employees_POST_table_wf [OF h, of True] by (metis prod.collapse)
qed

text \<open>
  After a successful POST on a well-formed table, a GET with no parameters lists the
  new employee first.
\<close>

theorem employees_create_then_list:
  assumes wf: "table_wf employee_schema t"
    and post: "employees_POST True b t = (t', Ok_json r)"
  shows "\<exists>env. employees_GET True [] (rows t') = Ok_json env \<and> items env \<noteq> [] \<and> hd (items env) = r"
proof -
  obtain body where ins: "run_insert employee_schema t body = Inr (t', r)"
    using employees_POST_Ok [OF post] by blast
  have all: "employee_matches [] [] [] = (\<lambda>e. True)"
    by (simp add: fun_eq_iff employee_matches_def)
  have "newest_first employee_schema (filter (\<lambda>e. True) (rows t')) =
        r # newest_first employee_schema (filter (\<lambda>e. True) (rows t))"
    by (rule newest_first_insert [OF schema_ok_employee wf ins]) simp
  then have ord: "sort_key (\<lambda>e. - int (emp_created_at e)) (rows t') =
        r # sort_key (\<lambda>e. - int (emp_created_at e)) (rows t)"
    by (simp add: newest_first_def employee_schema_def)
  have pg: "page_of [] = Num 1" and lm: "limit_of [] = Num 20" and sf: "safe_search (param [] ''search'' [])"
    by (simp_all add: page_of_def limit_of_def param_def js_parseInt_def strip_sign_def strip_radix_def
        js_whitespace_def digit_value_def digits_to_nat_def safe_search_def)
  show ?thesis
    using employees_GET_spec [OF pg lm sf, of "rows t'"] ord all
    by (simp add: employees_page_spec_def newest_page_def param_def Let_def)
qed

theorem employees_create_then_list_witness:
  "table_wf employee_schema \<lparr>rows = [], next_id = 0, clock = 0\<rparr> \<and>
   employees_POST True (Some [(''name'', ''A''), (''email'', ''a@x''), (''department'', ''HR''),
        (''role'', ''Lead''), (''status'', ''Active'')]) \<lparr>rows = [], next_id = 0, clock = 0\<rparr> =
     (\<lparr>rows = [\<lparr>emp_id = ''0'', emp_name = ''A'', emp_email = ''a@x'', emp_department = ''HR'',
        emp_role = ''Lead'', emp_status = ''Active'', emp_created_at = 0, emp_updated_at = 0\<rparr>],
       next_id = 1, clock = 1\<rparr>,
      Ok_json \<lparr>emp_id = ''0'', emp_name = ''A'', emp_email = ''a@x'', emp_department = ''HR'',
        emp_role = ''Lead'', emp_status = ''Active'', emp_created_at = 0, emp_updated_at = 0\<rparr>) \<and>
   (\<exists>env. employees_GET True []
      [\<lparr>emp_id = ''0'', emp_name = ''A'', emp_email = ''a@x'', emp_department = ''HR'',
        emp_role = ''Lead'', emp_status = ''Active'', emp_created_at = 0, emp_updated_at = 0\<rparr>] = Ok_json env \<and>
      items env \<noteq> [] \<and>
      hd (items env) = \<lparr>emp_id = ''0'', emp_name = ''A'', emp_email = ''a@x'', emp_department = ''HR'',
        emp_role = ''Lead'', emp_status = ''Active'', emp_created_at = 0, emp_updated_at = 0\<rparr>)"
proof -
  have h1: "table_wf employee_schema \<lparr>rows = [], next_id = 0, clock = (0::nat)\<rparr>"
    by (simp add: table_wf_def)
  have h2: "employees_POST True (Some [(''name'', ''A''), (''email'', ''a@x''), (''department'', ''HR''),
        (''role'', ''Lead''), (''status'', ''Active'')]) \<lparr>rows = [], next_id = 0, clock = 0\<rparr> =
     (\<lparr>rows = [\<lparr>emp_id = ''0'', emp_name = ''A'', emp_email = ''a@x'', emp_department = ''HR'',
        emp_role = ''Lead'', emp_status = ''Active'', emp_created_at = 0, emp_updated_at = 0\<rparr>],
       next_id = 1, clock = 1\<rparr>,
      Ok_json \<lparr>emp_id = ''0'', emp_name = ''A'', emp_email = ''a@x'', emp_department = ''HR'',
        emp_role = ''Lead'', emp_status = ''Active'', emp_created_at = 0, emp_updated_at = 0\<rparr>)"
    by code_simp
  show ?thesis using h1 h2 employees_create_then_list [OF h1 h2] by simp
qed

end
