(* ===== verification/Employee_Directory.thy ===== *)
theory Employee_Directory
  imports Employees_Api
begin

text \<open>
  The employee directory page, \<open>src/app/Dashboard/employee-directory/page.tsx\<close>: the
  list view controller of the employees. Its React state is a record; the two
  effects (the 300 ms search debounce and the reload on a change of the debounced
  search or a filter), the handlers and the resolution of each outstanding
  \<open>fetch\<close> are events of a step function. Requests in flight are kept in issue
  order and may resolve in any order. While \<open>loading\<close> holds the page renders
  only its loading message (lines 200--208), so no input, button or modal event can
  happen; a row can only be edited or deleted while it is rendered.
\<close>

record form_data =
  f_name :: string
  f_email :: string
  f_department :: string
  f_role :: string
  f_status :: string

datatype form_field = Field_name | Field_email | Field_department | Field_role | Field_status

datatype dir_request =
    Load_req query_pairs
  | Delete_req string
  | Update_req string form_data
  | Create_req form_data

text \<open>The JSON body of a successful response, and how a fetch ends.\<close>

datatype json_body = Json_page "employee list option" | Json_employee employee | Json_other

datatype fetch_result = Http_ok json_body | Http_not_ok | Network_error

record dir_state =
  employees :: "employee list"
  search :: string
  debouncedSearch :: string
  department :: string
  status :: string
  showModal :: bool
  editingEmployee :: "employee option"
  loading :: bool
  formData :: form_data
  timer :: "(nat \<times> string) option"
  now :: nat
  inflight :: "dir_request list"

datatype dir_event =
    Type_search string
  | Select_department string
  | Select_status string
  | Tick nat
  | Click_add
  | Click_edit employee
  | Click_delete string bool
  | Input_change form_field string
  | Submit
  | Click_cancel
  | Resolve nat fetch_result

section \<open>State and derived values\<close>

definition blank_form :: form_data where
  "blank_form = \<lparr>f_name = [], f_email = [], f_department = [], f_role = [], f_status = ''Active''\<rparr>"

text \<open>The option lists of the selects (lines 81--104).\<close>

definition departments :: "string list" where
  "departments = [''Engineering'', ''Finance'', ''Operations'', ''Sales'', ''HR'', ''Marketing'',
                  ''Product'', ''Support'', ''Legal'']"

definition statuses :: "string list" where
  "statuses = [''Active'', ''Inactive'']"

definition roles :: "string list" where
  "roles = [''Manager'', ''Developer'', ''Analyst'', ''Coordinator'', ''Specialist'', ''Director'',
            ''Lead'', ''Associate'', ''Senior'', ''Junior'']"

text \<open>
  The values a select of the form can set (lines 356--399): department and role have an
  empty placeholder option, status has none; the text inputs take any value.
\<close>

fun field_choice :: "form_field \<Rightarrow> string \<Rightarrow> bool" where
  "field_choice Field_department v \<longleftrightarrow> v \<in> set ([] # departments)"
| "field_choice Field_role v \<longleftrightarrow> v \<in> set ([] # roles)"
| "field_choice Field_status v \<longleftrightarrow> v \<in> set statuses"
| "field_choice _ v \<longleftrightarrow> True"

definition load_params :: "dir_state \<Rightarrow> query_pairs" where
  "load_params s = [(''search'', debouncedSearch s), (''department'', department s), (''status'', status s)]"

definition init_dir :: dir_state where
  "init_dir =
     \<lparr>employees = [], search = [], debouncedSearch = [], department = [], status = [],
      showModal = False, editingEmployee = None, loading = True, formData = blank_form,
      timer = Some (300, []), now = 0,
      inflight = [Load_req [(''search'', []), (''department'', []), (''status'', [])]]\<rparr>"

text \<open>The memoised \<open>filtered\<close> list (lines 69--79): the rows the table renders.\<close>

definition matches_query :: "string \<Rightarrow> employee \<Rightarrow> bool" where
  "matches_query q e \<longleftrightarrow>
     js_includes (js_lower (js_join '' '' [emp_name e, emp_email e, emp_department e, emp_role e]))
       (js_lower q)"

definition filtered :: "dir_state \<Rightarrow> employee list" where
  "filtered s =
     filter (\<lambda>e. matches_query (debouncedSearch s) e
                 \<and> (department s = [] \<or> emp_department e = department s)
                 \<and> (status s = [] \<or> emp_status e = status s)) (employees s)"

section \<open>Handlers and effects\<close>

text \<open>\<open>loadEmployees\<close> (lines 45--67): set \<open>loading\<close> and issue the fetch.\<close>

definition loadEmployees :: "dir_state \<Rightarrow> dir_state" where
  "loadEmployees s = s\<lparr>loading := True, inflight := inflight s @ [Load_req (load_params s)]\<rparr>"

text \<open>The debounce effect (lines 33--39) runs when \<open>search\<close> changes: it clears the old timer and sets a new one.\<close>

definition setSearch :: "dir_state \<Rightarrow> string \<Rightarrow> dir_state" where
  "setSearch s v = (if v = search s then s else s\<lparr>search := v, timer := Some (now s + 300, v)\<rparr>)"

text \<open>The reload effect (lines 41--43) runs when the debounced search or a filter changes.\<close>

definition setDebouncedSearch :: "dir_state \<Rightarrow> string \<Rightarrow> dir_state" where
  "setDebouncedSearch s v =
     (if v = debouncedSearch s then s else loadEmployees (s\<lparr>debouncedSearch := v\<rparr>))"

definition setDepartment :: "dir_state \<Rightarrow> string \<Rightarrow> dir_state" where
  "setDepartment s v = (if v = department s then s else loadEmployees (s\<lparr>department := v\<rparr>))"

definition setStatus :: "dir_state \<Rightarrow> string \<Rightarrow> dir_state" where
  "setStatus s v = (if v = status s then s else loadEmployees (s\<lparr>status := v\<rparr>))"

text \<open>Time passes by \<open>d\<close> ms; the pending timer fires once its deadline is reached.\<close>

definition tick :: "dir_state \<Rightarrow> nat \<Rightarrow> dir_state" where
  "tick s d =
     (let t = now s + d
      in case timer s of
           Some (deadline, v) \<Rightarrow>
             if deadline \<le> t then setDebouncedSearch (s\<lparr>now := t, timer := None\<rparr>) v
             else s\<lparr>now := t\<rparr>
         | None \<Rightarrow> s\<lparr>now := t\<rparr>)"

definition handleCreate :: "dir_state \<Rightarrow> dir_state" where
  "handleCreate s = s\<lparr>editingEmployee := None, formData := blank_form, showModal := True\<rparr>"

definition form_of :: "employee \<Rightarrow> form_data" where
  "form_of e = \<lparr>f_name = emp_name e, f_email = emp_email e, f_department = emp_department e,
                f_role = emp_role e, f_status = emp_status e\<rparr>"

definition handleEdit :: "dir_state \<Rightarrow> employee \<Rightarrow> dir_state" where
  "handleEdit s e = s\<lparr>editingEmployee := Some e, formData := form_of e, showModal := True\<rparr>"

text \<open>\<open>handleDelete\<close> (lines 130--146): \<open>ok\<close> is the answer to \<open>confirm\<close>.\<close>

definition handleDelete :: "dir_state \<Rightarrow> string \<Rightarrow> bool \<Rightarrow> dir_state" where
  "handleDelete s i ok = (if ok then s\<lparr>inflight := inflight s @ [Delete_req i]\<rparr> else s)"

text \<open>\<open>handleSubmit\<close> (lines 148--189): PUT for the employee being edited, else POST.\<close>

definition handleSubmit :: "dir_state \<Rightarrow> dir_state" where
  "handleSubmit s =
     (case editingEmployee s of
        Some e \<Rightarrow> s\<lparr>inflight := inflight s @ [Update_req (emp_id e) (formData s)]\<rparr>
      | None \<Rightarrow> s\<lparr>inflight := inflight s @ [Create_req (formData s)]\<rparr>)"

fun set_field :: "form_data \<Rightarrow> form_field \<Rightarrow> string \<Rightarrow> form_data" where
  "set_field f Field_name v = f\<lparr>f_name := v\<rparr>"
| "set_field f Field_email v = f\<lparr>f_email := v\<rparr>"
| "set_field f Field_department v = f\<lparr>f_department := v\<rparr>"
| "set_field f Field_role v = f\<lparr>f_role := v\<rparr>"
| "set_field f Field_status v = f\<lparr>f_status := v\<rparr>"

definition handleInputChange :: "dir_state \<Rightarrow> form_field \<Rightarrow> string \<Rightarrow> dir_state" where
  "handleInputChange s fld v = s\<lparr>formData := set_field (formData s) fld v\<rparr>"

text \<open>
  The form's native validation: the required text inputs, the email input (modelled as
  an \<open>@\<close> with text on both sides) and the required selects. A controlled select
  whose value matches no option shows its first option, so department and role pass
  only with a value of their lists, and status, which has no placeholder, always passes.
\<close>

definition valid_email :: "string \<Rightarrow> bool" where
  "valid_email e \<longleftrightarrow> CHR ''@'' \<in> set e \<and> hd e \<noteq> CHR ''@'' \<and> last e \<noteq> CHR ''@''"

definition form_valid :: "form_data \<Rightarrow> bool" where
  "form_valid f \<longleftrightarrow> f_name f \<noteq> [] \<and> valid_email (f_email f) \<and>
     f_department f \<in> set departments \<and> f_role f \<in> set roles"

definition close_modal :: "dir_state \<Rightarrow> dir_state" where
  "close_modal s = s\<lparr>showModal := False, editingEmployee := None\<rparr>"

text \<open>
  The continuation of each request once its fetch ends (\<open>None\<close>: a body the request
  cannot receive). A network failure or an unreadable body lands in \<open>catch\<close>.
\<close>

fun on_result :: "dir_state \<Rightarrow> dir_request \<Rightarrow> fetch_result \<Rightarrow> dir_state option" where
  "on_result s (Load_req q) (Http_ok j) =
     Some (s\<lparr>employees := (case j of Json_page (Some es) \<Rightarrow> es | _ \<Rightarrow> []), loading := False\<rparr>)"
| "on_result s (Load_req q) _ = Some (s\<lparr>loading := False\<rparr>)"
| "on_result s (Delete_req i) (Http_ok j) =
     Some (s\<lparr>employees := filter (\<lambda>e. emp_id e \<noteq> i) (employees s)\<rparr>)"
| "on_result s (Delete_req i) _ = Some s"
| "on_result s (Update_req i f) (Http_ok (Json_employee e')) =
     Some (close_modal (s\<lparr>employees := map (\<lambda>e. if emp_id e = i then e' else e) (employees s)\<rparr>))"
| "on_result s (Update_req i f) Http_not_ok = Some (close_modal s)"
| "on_result s (Update_req i f) Network_error = Some s"
| "on_result s (Update_req i f) (Http_ok _) = None"
| "on_result s (Create_req f) (Http_ok (Json_employee e')) =
     Some (close_modal (s\<lparr>employees := e' # employees s\<rparr>))"
| "on_result s (Create_req f) Http_not_ok = Some (close_modal s)"
| "on_result s (Create_req f) Network_error = Some s"
| "on_result s (Create_req f) (Http_ok _) = None"

definition resolve :: "dir_state \<Rightarrow> nat \<Rightarrow> fetch_result \<Rightarrow> dir_state option" where
  "resolve s i r =
     (if i < length (inflight s)
      then on_result (s\<lparr>inflight := take i (inflight s) @ drop (Suc i) (inflight s)\<rparr>) (inflight s ! i) r
      else None)"

section \<open>The step function\<close>

fun dir_step :: "dir_state \<Rightarrow> dir_event \<Rightarrow> dir_state option" where
  "dir_step s (Tick d) = Some (tick s d)"
| "dir_step s (Resolve i r) = resolve s i r"
| "dir_step s ev =
     (if loading s then None
      else case ev of
        Type_search v \<Rightarrow> Some (setSearch s v)
      | Select_department v \<Rightarrow>
          (if v \<in> set ([] # departments) then Some (setDepartment s v) else None)
      | Select_status v \<Rightarrow> (if v \<in> set ([] # statuses) then Some (setStatus s v) else None)
      | Click_add \<Rightarrow> Some (handleCreate s)
      | Click_edit e \<Rightarrow> (if e \<in> set (filtered s) then Some (handleEdit s e) else None)
      | Click_delete i ok \<Rightarrow>
          (if \<exists>e \<in> set (filtered s). emp_id e = i then Some (handleDelete s i ok) else None)
      | Input_change fld v \<Rightarrow>
          (if showModal s \<and> field_choice fld v then Some (handleInputChange s fld v) else None)
      | Submit \<Rightarrow>
          (if showModal s \<and> form_valid (formData s) then Some (handleSubmit s) else None)
      | Click_cancel \<Rightarrow> (if showModal s then Some (s\<lparr>showModal := False\<rparr>) else None)
      | _ \<Rightarrow> None)"

fun dir_run :: "dir_state \<Rightarrow> dir_event list \<Rightarrow> dir_state option" where
  "dir_run s [] = Some s"
| "dir_run s (ev # evs) = (case dir_step s ev of None \<Rightarrow> None | Some s' \<Rightarrow> dir_run s' evs)"

inductive dir_reachable :: "dir_state \<Rightarrow> bool" where
  init: "dir_reachable init_dir"
| step: "dir_reachable s \<Longrightarrow> dir_step s ev = Some s' \<Longrightarrow> dir_reachable s'"


section \<open>Traces and the loading invariant\<close>

text \<open>A burst of keystrokes: each types the text shown and is followed by a pause.\<close>

definition burst :: "(string \<times> nat) list \<Rightarrow> dir_event list" where
  "burst ks = concat (map (\<lambda>(v, d). [Type_search v, Tick d]) ks)"

text \<open>A fetch of the list is outstanding; the invariant that \<open>loading\<close> implies one.\<close>

definition load_pending :: "dir_state \<Rightarrow> bool" where
  "load_pending s \<longleftrightarrow> (\<exists>q. Load_req q \<in> set (inflight s))"

definition loading_inv :: "dir_state \<Rightarrow> bool" where
  "loading_inv s \<longleftrightarrow> (loading s \<longrightarrow> load_pending s)"

text \<open>
  A trace with two overlapping loads: the initial load ends, the user types \<open>a\<close>
  and picks a department, and the debounce fires. Both the department and the
  debounced search reload, so two loads are in flight.
\<close>

definition race_events :: "dir_event list" where
  "race_events =
     [Resolve 0 (Http_ok (Json_page (Some []))), Type_search ''a'', Select_department ''HR'', Tick 300]"

section \<open>Properties of the controller\<close>

text \<open>Running a trace in two parts, and the helpers of the debounce and invariant proofs.\<close>

lemma dir_run_append:
  "dir_run s (xs @ ys) = (case dir_run s xs of None \<Rightarrow> None | Some s' \<Rightarrow> dir_run s' ys)"
  by (induction xs arbitrary: s) (auto split: option.splits)

lemma keystroke_pause:
  "\<not> loading s \<Longrightarrow> v \<noteq> search s \<Longrightarrow> d < 300 \<Longrightarrow>
   dir_run s [Type_search v, Tick d] =
     Some (s\<lparr>search := v, timer := Some (now s + 300, v), now := now s + d\<rparr>)"
  by (simp add: setSearch_def tick_def)

lemma burst_run:
  "\<not> loading s \<Longrightarrow> ks \<noteq> [] \<Longrightarrow> \<forall>(v, d) \<in> set ks. d < 300 \<Longrightarrow>
   distinct_adj (search s # map fst ks) \<Longrightarrow>
   \<exists>n. dir_run s (burst ks) =
     Some (s\<lparr>search := fst (last ks), timer := Some (n + 300, fst (last ks)), now := n + snd (last ks)\<rparr>)"
proof (induction ks arbitrary: s)
  case Nil
  then show ?case by simp
next
  case (Cons k ks)
  obtain v d where k: "k = (v, d)" by force
  let ?s1 = "s\<lparr>search := v, timer := Some (now s + 300, v), now := now s + d\<rparr>"
  have r1: "dir_run s [Type_search v, Tick d] = Some ?s1"
    using Cons.prems k by (intro keystroke_pause) auto
  show ?case
  proof (cases "ks = []")
    case True
    then show ?thesis using r1 k by (auto simp: burst_def)
  next
    case False
    have "\<exists>n. dir_run ?s1 (burst ks) =
       Some (?s1\<lparr>search := fst (last ks), timer := Some (n + 300, fst (last ks)), now := n + snd (last ks)\<rparr>)"
      using Cons.prems k False by (intro Cons.IH) auto
    then show ?thesis
      using r1 k False by (auto simp: burst_def dir_run_append)
  qed
qed

lemma resolve_last:
  "resolve (s\<lparr>inflight := inflight s @ [req]\<rparr>) (length (inflight s)) r = on_result s req r"
  by (simp add: resolve_def)

lemma set_remove_nth:
  "x \<in> set xs \<Longrightarrow> xs ! i \<noteq> x \<Longrightarrow> x \<in> set (take i xs @ drop (Suc i) xs)"
proof (cases "i < length xs")
  case True
  assume x: "x \<in> set xs" and ne: "xs ! i \<noteq> x"
  have "xs = take i xs @ xs ! i # drop (Suc i) xs" using True by (simp add: id_take_nth_drop)
  then have "set xs = insert (xs ! i) (set (take i xs @ drop (Suc i) xs))"
    by (metis list.simps(15) set_append Un_insert_right)
  with x ne show ?thesis by auto
next
  case False
  then show "x \<in> set xs \<Longrightarrow> xs ! i \<noteq> x \<Longrightarrow> ?thesis" by simp
qed

lemma on_result_loading:
  "on_result s req r = Some s' \<Longrightarrow> (\<forall>q. req \<noteq> Load_req q) \<Longrightarrow>
   loading s' = loading s \<and> inflight s' = inflight s"
  by (cases "(s, req, r)" rule: on_result.cases) (auto simp: close_modal_def)

lemma on_result_load:
  "on_result s (Load_req q) r = Some s' \<Longrightarrow> \<not> loading s' \<and> inflight s' = inflight s"
  by (cases r) auto

lemma loadEmployees_inv: "loading_inv (loadEmployees s)"
  by (auto simp: loading_inv_def load_pending_def loadEmployees_def)

lemma tick_cases:
  "(loading (tick s d) = loading s \<and> inflight (tick s d) = inflight s) \<or>
   (\<exists>s0. tick s d = loadEmployees s0)"
  by (auto simp: tick_def setDebouncedSearch_def Let_def split: option.splits)

lemma resolve_inv:
  assumes inv: "loading_inv s" and r: "resolve s i res = Some s'"
  shows "loading_inv s'"
proof -
  have i: "i < length (inflight s)" using r by (simp add: resolve_def split: if_splits)
  let ?rest = "take i (inflight s) @ drop (Suc i) (inflight s)"
  have on: "on_result (s\<lparr>inflight := ?rest\<rparr>) (inflight s ! i) res = Some s'"
    using r i by (simp add: resolve_def)
  show ?thesis
  proof (cases "\<exists>q. inflight s ! i = Load_req q")
    case True
    then show ?thesis using on on_result_load by (auto simp: loading_inv_def)
  next
    case False
    then have same: "loading s' = loading s \<and> inflight s' = ?rest"
      using on_result_loading [OF on] by auto
    have "loading s \<longrightarrow> load_pending (s\<lparr>inflight := ?rest\<rparr>)"
      using inv False set_remove_nth [of _ "inflight s" i]
      by (auto simp: loading_inv_def load_pending_def)
    then show ?thesis using same by (simp add: loading_inv_def load_pending_def)
  qed
qed

lemma dir_step_inv:
  "loading_inv s \<Longrightarrow> dir_step s ev = Some s' \<Longrightarrow> loading_inv s'"
proof (induction s ev rule: dir_step.induct)
  case (1 s d)
  then show ?case
    using tick_cases [of s d] loadEmployees_inv by (auto simp: loading_inv_def load_pending_def)
next
  case (2 s i r)
  then show ?case using resolve_inv by simp
qed (auto simp: setSearch_def setDepartment_def setStatus_def handleCreate_def handleEdit_def
      handleDelete_def handleSubmit_def handleInputChange_def loadEmployees_def
      loading_inv_def load_pending_def split: if_splits option.splits)

text \<open>
  C3: search debounce. A burst of keystrokes, each changing the text and each
  followed by less than 300 ms of quiet, issues no request; when the input then
  stays quiet for 300 ms the last text alone becomes the debounced search and at
  most one load is issued, for that text with the current filters.
\<close>

theorem debounce_single_fetch:
  assumes idle: "\<not> loading s" and ne: "ks \<noteq> []" and quick: "\<forall>(v, d) \<in> set ks. d < 300"
    and typed: "distinct_adj (search s # map fst ks)"
  shows "\<exists>s'. dir_run s (burst ks) = Some s' \<and> inflight s' = inflight s \<and>
           (\<exists>s''. dir_step s' (Tick 300) = Some s'' \<and> debouncedSearch s'' = fst (last ks) \<and>
              inflight s'' = inflight s @
                (if fst (last ks) = debouncedSearch s then []
                 else [Load_req [(''search'', fst (last ks)), (''department'', department s),
                                 (''status'', status s)]]))"
proof -
  obtain n where run: "dir_run s (burst ks) =
     Some (s\<lparr>search := fst (last ks), timer := Some (n + 300, fst (last ks)), now := n + snd (last ks)\<rparr>)"
    using burst_run [OF idle ne quick typed] by blast
  show ?thesis
    using run by (simp add: tick_def setDebouncedSearch_def loadEmployees_def load_params_def)
qed

theorem debounce_single_fetch_witness:
  "\<not> loading (init_dir\<lparr>loading := False, inflight := []\<rparr>) \<and>
   [(''a'', 100), (''ab'', 50)] \<noteq> [] \<and>
   (100::nat) < 300 \<and> (50::nat) < 300 \<and>
   distinct_adj (search (init_dir\<lparr>loading := False, inflight := []\<rparr>) # map fst [(''a'', 100::nat), (''ab'', 50)]) \<and>
   (\<exists>s'. dir_run (init_dir\<lparr>loading := False, inflight := []\<rparr>) (burst [(''a'', 100), (''ab'', 50)]) = Some s' \<and>
      inflight s' = [] \<and>
      (\<exists>s''. dir_step s' (Tick 300) = Some s'' \<and> debouncedSearch s'' = ''ab'' \<and>
         inflight s'' = [Load_req [(''search'', ''ab''), (''department'', []), (''status'', [])]]))"
  using debounce_single_fetch [of "init_dir\<lparr>loading := False, inflight := []\<rparr>" "[(''a'', 100), (''ab'', 50)]"]
  by (simp add: init_dir_def)

text \<open>
  C10: in every reachable state of the page, while the loading message is shown a
  fetch of the list is outstanding (the page is never stuck loading).
\<close>

theorem loading_means_fetch_pending:
  "dir_reachable s \<Longrightarrow> loading s \<Longrightarrow> \<exists>q. Load_req q \<in> set (inflight s)"
proof -
  assume "dir_reachable s"
  then have "loading_inv s"
  proof (induction rule: dir_reachable.induct)
    case init
    then show ?case by (simp add: loading_inv_def load_pending_def init_dir_def)
  next
    case (step s ev s')
    then show ?case using dir_step_inv by blast
  qed
  then show "loading s \<Longrightarrow> ?thesis" by (simp add: loading_inv_def load_pending_def)
qed

theorem loading_means_fetch_pending_witness:
  "dir_reachable init_dir \<and> loading init_dir \<and> (\<exists>q. Load_req q \<in> set (inflight init_dir))"
proof -
  have h: "dir_reachable init_dir" by (rule dir_reachable.init)
  show ?thesis using h loading_means_fetch_pending [OF h] by (simp add: init_dir_def)
qed

text \<open>
  The converse fails: loads are not sequenced, so the first of two overlapping
  loads to end clears \<open>loading\<close> while the other is still outstanding.
\<close>

theorem overlapping_loads_stale_idle:
  "\<exists>s. dir_run init_dir (race_events @ [Resolve 1 (Http_ok (Json_page (Some [])))]) = Some s \<and>
     \<not> loading s \<and> (\<exists>q. Load_req q \<in> set (inflight s))"
  by (simp add: race_events_def init_dir_def departments_def setSearch_def setDepartment_def tick_def
      setDebouncedSearch_def loadEmployees_def load_params_def resolve_def filtered_def)

text \<open>
  Out-of-order responses: when the newer of two overlapping loads ends first,
  the older one ends last and its rows replace the newer ones, although the
  filters shown are those of the newer request.
\<close>

theorem stale_response_overwrites:
  "\<exists>s. dir_run init_dir (race_events @ [Resolve 1 (Http_ok (Json_page (Some [e]))),
                                       Resolve 0 (Http_ok (Json_page (Some [])))]) = Some s \<and>
     employees s = [] \<and> load_params s = [(''search'', ''a''), (''department'', ''HR''), (''status'', [])]"
  by (simp add: race_events_def init_dir_def departments_def setSearch_def setDepartment_def tick_def
      setDebouncedSearch_def loadEmployees_def load_params_def resolve_def filtered_def)

text \<open>
  C22: deleting a rendered row after confirmation removes exactly the rows with its
  identifier once the request succeeds; without confirmation nothing happens.
\<close>

theorem delete_confirmed_removes:
  "\<not> loading s \<Longrightarrow> e \<in> set (filtered s) \<Longrightarrow>
   dir_run s [Click_delete (emp_id e) True, Resolve (length (inflight s)) (Http_ok j)] =
     Some (s\<lparr>employees := filter (\<lambda>x. emp_id x \<noteq> emp_id e) (employees s)\<rparr>) \<and>
   dir_run s [Click_delete (emp_id e) False] = Some s"
  by (auto simp: handleDelete_def resolve_last)

theorem delete_confirmed_removes_witness:
  "\<not> loading (init_dir\<lparr>loading := False, inflight := [], employees := [\<lparr>emp_id = ''1'', emp_name = ''A'', emp_email = ''a@b'', emp_department = ''HR'', emp_role = ''R'', emp_status = ''S'', emp_created_at = 0, emp_updated_at = 0\<rparr>]\<rparr>) \<and>
   \<lparr>emp_id = ''1'', emp_name = ''A'', emp_email = ''a@b'', emp_department = ''HR'', emp_role = ''R'', emp_status = ''S'', emp_created_at = 0, emp_updated_at = 0\<rparr> \<in> set (filtered (init_dir\<lparr>loading := False, inflight := [], employees := [\<lparr>emp_id = ''1'', emp_name = ''A'', emp_email = ''a@b'', emp_department = ''HR'', emp_role = ''R'', emp_status = ''S'', emp_created_at = 0, emp_updated_at = 0\<rparr>]\<rparr>)) \<and>
   dir_run (init_dir\<lparr>loading := False, inflight := [], employees := [\<lparr>emp_id = ''1'', emp_name = ''A'', emp_email = ''a@b'', emp_department = ''HR'', emp_role = ''R'', emp_status = ''S'', emp_created_at = 0, emp_updated_at = 0\<rparr>]\<rparr>)
     [Click_delete ''1'' True, Resolve 0 (Http_ok Json_other)] =
     Some (init_dir\<lparr>loading := False, inflight := [], employees := []\<rparr>)"
proof -
  have h1: "\<not> loading (init_dir\<lparr>loading := False, inflight := [], employees := [\<lparr>emp_id = ''1'', emp_name = ''A'', emp_email = ''a@b'', emp_department = ''HR'', emp_role = ''R'', emp_status = ''S'', emp_created_at = 0, emp_updated_at = 0\<rparr>]\<rparr>)"
    by (simp add: init_dir_def)
  have h2: "\<lparr>emp_id = ''1'', emp_name = ''A'', emp_email = ''a@b'', emp_department = ''HR'', emp_role = ''R'', emp_status = ''S'', emp_created_at = 0, emp_updated_at = 0\<rparr> \<in> set (filtered (init_dir\<lparr>loading := False, inflight := [], employees := [\<lparr>emp_id = ''1'', emp_name = ''A'', emp_email = ''a@b'', emp_department = ''HR'', emp_role = ''R'', emp_status = ''S'', emp_created_at = 0, emp_updated_at = 0\<rparr>]\<rparr>))"
    by code_simp
  show ?thesis using h1 h2 delete_confirmed_removes [OF h1 h2, of Json_other] by simp
qed

text \<open>
  C21: a submit whose request is answered with an error status closes the modal
  and discards the edit, as a success does; only a network failure keeps it open.
\<close>

theorem submit_failure_closes_modal:
  "\<not> loading s \<Longrightarrow> showModal s \<Longrightarrow> form_valid (formData s) \<Longrightarrow>
   dir_run s [Submit, Resolve (length (inflight s)) Http_not_ok] =
     Some (s\<lparr>showModal := False, editingEmployee := None\<rparr>) \<and>
   dir_run s [Submit, Resolve (length (inflight s)) Network_error] = Some s"
  by (auto simp: handleSubmit_def resolve_last close_modal_def split: option.splits)

theorem submit_failure_closes_modal_witness:
  "\<not> loading (init_dir\<lparr>loading := False, inflight := [], showModal := True, formData := \<lparr>f_name = ''B'', f_email = ''b@c'', f_department = ''HR'', f_role = ''Lead'', f_status = ''S''\<rparr>\<rparr>) \<and>
   showModal (init_dir\<lparr>loading := False, inflight := [], showModal := True, formData := \<lparr>f_name = ''B'', f_email = ''b@c'', f_department = ''HR'', f_role = ''Lead'', f_status = ''S''\<rparr>\<rparr>) \<and>
   form_valid \<lparr>f_name = ''B'', f_email = ''b@c'', f_department = ''HR'', f_role = ''Lead'', f_status = ''S''\<rparr> \<and>
   dir_run (init_dir\<lparr>loading := False, inflight := [], showModal := True, formData := \<lparr>f_name = ''B'', f_email = ''b@c'', f_department = ''HR'', f_role = ''Lead'', f_status = ''S''\<rparr>\<rparr>)
     [Submit, Resolve 0 Http_not_ok] =
     Some (init_dir\<lparr>loading := False, inflight := [], showModal := False, formData := \<lparr>f_name = ''B'', f_email = ''b@c'', f_department = ''HR'', f_role = ''Lead'', f_status = ''S''\<rparr>\<rparr>)"
proof -
  let ?s = "init_dir\<lparr>loading := False, inflight := [], showModal := True, formData := \<lparr>f_name = ''B'', f_email = ''b@c'', f_department = ''HR'', f_role = ''Lead'', f_status = ''S''\<rparr>\<rparr>"
  have h1: "\<not> loading ?s" by (simp add: init_dir_def)
  have h2: "showModal ?s" by simp
  have h3: "form_valid (formData ?s)" by code_simp
  show ?thesis using h1 h2 h3 submit_failure_closes_modal [OF h1 h2 h3] by (simp add: init_dir_def)
qed

text \<open>
  Submitting the add form sends the draft as a create request; on success the
  returned record is prepended to the list and the modal closes.
\<close>

theorem submit_create_prepends:
  "\<not> loading s \<Longrightarrow> showModal s \<Longrightarrow> form_valid (formData s) \<Longrightarrow> editingEmployee s = None \<Longrightarrow>
   dir_step s Submit = Some (s\<lparr>inflight := inflight s @ [Create_req (formData s)]\<rparr>) \<and>
   dir_run s [Submit, Resolve (length (inflight s)) (Http_ok (Json_employee r))] =
     Some (s\<lparr>employees := r # employees s, showModal := False, editingEmployee := None\<rparr>)"
  by (simp add: handleSubmit_def resolve_last close_modal_def)

theorem submit_create_prepends_witness:
  "\<not> loading (init_dir\<lparr>loading := False, inflight := [], showModal := True, formData := \<lparr>f_name = ''B'', f_email = ''b@c'', f_department = ''HR'', f_role = ''Lead'', f_status = ''S''\<rparr>\<rparr>) \<and>
   form_valid \<lparr>f_name = ''B'', f_email = ''b@c'', f_department = ''HR'', f_role = ''Lead'', f_status = ''S''\<rparr> \<and>
   dir_run (init_dir\<lparr>loading := False, inflight := [], showModal := True, formData := \<lparr>f_name = ''B'', f_email = ''b@c'', f_department = ''HR'', f_role = ''Lead'', f_status = ''S''\<rparr>\<rparr>)
     [Submit, Resolve 0 (Http_ok (Json_employee \<lparr>emp_id = ''1'', emp_name = ''A'', emp_email = ''a@b'', emp_department = ''HR'', emp_role = ''R'', emp_status = ''S'', emp_created_at = 0, emp_updated_at = 0\<rparr>))] =
     Some (init_dir\<lparr>loading := False, inflight := [], formData := \<lparr>f_name = ''B'', f_email = ''b@c'', f_department = ''HR'', f_role = ''Lead'', f_status = ''S''\<rparr>, employees := [\<lparr>emp_id = ''1'', emp_name = ''A'', emp_email = ''a@b'', emp_department = ''HR'', emp_role = ''R'', emp_status = ''S'', emp_created_at = 0, emp_updated_at = 0\<rparr>]\<rparr>)"
proof -
  let ?s = "init_dir\<lparr>loading := False, inflight := [], showModal := True, formData := \<lparr>f_name = ''B'', f_email = ''b@c'', f_department = ''HR'', f_role = ''Lead'', f_status = ''S''\<rparr>\<rparr>"
  have h1: "\<not> loading ?s" by (simp add: init_dir_def)
  have h2: "showModal ?s" by simp
  have h3: "form_valid (formData ?s)" by code_simp
  have h4: "editingEmployee ?s = None" by (simp add: init_dir_def)
  show ?thesis using h1 h3 submit_create_prepends [OF h1 h2 h3 h4, of "\<lparr>emp_id = ''1'', emp_name = ''A'', emp_email = ''a@b'', emp_department = ''HR'', emp_role = ''R'', emp_status = ''S'', emp_created_at = 0, emp_updated_at = 0\<rparr>"]
    by (simp del: dir_run.simps add: init_dir_def)
qed

text \<open>
  Submitting the edit form sends the draft as an update of the edited row; on
  success the returned record replaces every row with that identifier in place.
\<close>

theorem submit_edit_replaces:
  "\<not> loading s \<Longrightarrow> showModal s \<Longrightarrow> form_valid (formData s) \<Longrightarrow> editingEmployee s = Some e \<Longrightarrow>
   dir_step s Submit = Some (s\<lparr>inflight := inflight s @ [Update_req (emp_id e) (formData s)]\<rparr>) \<and>
   dir_run s [Submit, Resolve (length (inflight s)) (Http_ok (Json_employee r))] =
     Some (s\<lparr>employees := map (\<lambda>x. if emp_id x = emp_id e then r else x) (employees s),
             showModal := False, editingEmployee := None\<rparr>)"
  by (simp add: handleSubmit_def resolve_last close_modal_def)

theorem submit_edit_replaces_witness:
  "\<not> loading (init_dir\<lparr>loading := False, inflight := [], showModal := True, formData := \<lparr>f_name = ''B'', f_email = ''b@c'', f_department = ''HR'', f_role = ''Lead'', f_status = ''S''\<rparr>,
                         employees := [\<lparr>emp_id = ''1'', emp_name = ''A'', emp_email = ''a@b'', emp_department = ''HR'', emp_role = ''R'', emp_status = ''S'', emp_created_at = 0, emp_updated_at = 0\<rparr>], editingEmployee := Some \<lparr>emp_id = ''1'', emp_name = ''A'', emp_email = ''a@b'', emp_department = ''HR'', emp_role = ''R'', emp_status = ''S'', emp_created_at = 0, emp_updated_at = 0\<rparr>\<rparr>) \<and>
   form_valid \<lparr>f_name = ''B'', f_email = ''b@c'', f_department = ''HR'', f_role = ''Lead'', f_status = ''S''\<rparr> \<and>
   dir_run (init_dir\<lparr>loading := False, inflight := [], showModal := True, formData := \<lparr>f_name = ''B'', f_email = ''b@c'', f_department = ''HR'', f_role = ''Lead'', f_status = ''S''\<rparr>,
                      employees := [\<lparr>emp_id = ''1'', emp_name = ''A'', emp_email = ''a@b'', emp_department = ''HR'', emp_role = ''R'', emp_status = ''S'', emp_created_at = 0, emp_updated_at = 0\<rparr>], editingEmployee := Some \<lparr>emp_id = ''1'', emp_name = ''A'', emp_email = ''a@b'', emp_department = ''HR'', emp_role = ''R'', emp_status = ''S'', emp_created_at = 0, emp_updated_at = 0\<rparr>\<rparr>)
     [Submit, Resolve 0 (Http_ok (Json_employee \<lparr>emp_id = ''1'', emp_name = ''B'', emp_email = ''a@b'', emp_department = ''HR'', emp_role = ''R'', emp_status = ''S'', emp_created_at = 0, emp_updated_at = 0\<rparr>))] =
     Some (init_dir\<lparr>loading := False, inflight := [], formData := \<lparr>f_name = ''B'', f_email = ''b@c'', f_department = ''HR'', f_role = ''Lead'', f_status = ''S''\<rparr>,
                   employees := [\<lparr>emp_id = ''1'', emp_name = ''B'', emp_email = ''a@b'', emp_department = ''HR'', emp_role = ''R'', emp_status = ''S'', emp_created_at = 0, emp_updated_at = 0\<rparr>]\<rparr>)"
proof -
  let ?s = "init_dir\<lparr>loading := False, inflight := [], showModal := True, formData := \<lparr>f_name = ''B'', f_email = ''b@c'', f_department = ''HR'', f_role = ''Lead'', f_status = ''S''\<rparr>,
                employees := [\<lparr>emp_id = ''1'', emp_name = ''A'', emp_email = ''a@b'', emp_department = ''HR'', emp_role = ''R'', emp_status = ''S'', emp_created_at = 0, emp_updated_at = 0\<rparr>], editingEmployee := Some \<lparr>emp_id = ''1'', emp_name = ''A'', emp_email = ''a@b'', emp_department = ''HR'', emp_role = ''R'', emp_status = ''S'', emp_created_at = 0, emp_updated_at = 0\<rparr>\<rparr>"
  have h1: "\<not> loading ?s" by (simp add: init_dir_def)
  have h2: "showModal ?s" by simp
  have h3: "form_valid (formData ?s)" by code_simp
  have h4: "editingEmployee ?s = Some \<lparr>emp_id = ''1'', emp_name = ''A'', emp_email = ''a@b'', emp_department = ''HR'', emp_role = ''R'', emp_status = ''S'', emp_created_at = 0, emp_updated_at = 0\<rparr>" by simp
  show ?thesis using h1 h3 submit_edit_replaces [OF h1 h2 h3 h4, of "\<lparr>emp_id = ''1'', emp_name = ''B'', emp_email = ''a@b'', emp_department = ''HR'', emp_role = ''R'', emp_status = ''S'', emp_created_at = 0, emp_updated_at = 0\<rparr>"]
    by (simp del: dir_run.simps add: init_dir_def)
qed

end
