(* ===== verification/Leaves_Api.thy ===== *)
theory Leaves_Api
  imports Data_Service
begin

text \<open>
  The leave requests endpoint, \<open>src/app/api/leaves/route.ts\<close>: the leave row, the
  \<open>leaves\<close> table schema, and the handlers \<open>GET\<close> (search over the employee name
  and the leave type, a status filter, newest first, paged) and \<open>POST\<close> (insert one
  leave request). The handlers have the shape of the employees handlers and run on
  the same model of the data service.
\<close>

record leave =
  lv_id :: string
  lv_employee_id :: string
  lv_employee_name :: string
  lv_type :: string
  lv_start_date :: string
  lv_end_date :: string
  lv_status :: string
  lv_created_at :: nat
  lv_updated_at :: nat

section \<open>The leaves table\<close>

definition leave_data_columns :: "string list" where
  "leave_data_columns = [''employee_id'', ''employee_name'', ''type'', ''start_date'', ''end_date'', ''status'']"

definition leave_field :: "leave \<Rightarrow> string \<Rightarrow> string" where
  "leave_field r c =
     (if c = ''id'' then lv_id r
      else if c = ''employee_id'' then lv_employee_id r
      else if c = ''employee_name'' then lv_employee_name r
      else if c = ''type'' then lv_type r
      else if c = ''start_date'' then lv_start_date r
      else if c = ''end_date'' then lv_end_date r
      else if c = ''status'' then lv_status r
      else if c = ''created_at'' then decimal (lv_created_at r)
      else if c = ''updated_at'' then decimal (lv_updated_at r)
      else [])"

definition build_leave :: "(string \<Rightarrow> string) \<Rightarrow> string \<Rightarrow> nat \<Rightarrow> leave" where
  "build_leave f i t =
     \<lparr>lv_id = i, lv_employee_id = f ''employee_id'', lv_employee_name = f ''employee_name'',
      lv_type = f ''type'', lv_start_date = f ''start_date'', lv_end_date = f ''end_date'',
      lv_status = f ''status'', lv_created_at = t, lv_updated_at = t\<rparr>"

text \<open>
  The dates are \<open>date\<close> columns given as \<open>YYYY-MM-DD\<close> text; the schema requires
  every data column and places no constraint between the two dates.
\<close>

definition leave_schema :: "leave schema" where
  "leave_schema =
     \<lparr>columns = ''id'' # leave_data_columns @ [''created_at'', ''updated_at''],
      required = leave_data_columns, field = leave_field,
      created = lv_created_at, build = build_leave\<rparr>"

section \<open>GET and POST\<close>

definition leaves_or_filter :: "string \<Rightarrow> string" where
  "leaves_or_filter s = ''employee_name.ilike.%'' @ s @ ''%,type.ilike.%'' @ s @ ''%''"

definition leaves_query :: "string \<Rightarrow> string \<Rightarrow> jsnum \<Rightarrow> jsnum \<Rightarrow> query" where
  "leaves_query search status page limit =
     (let offset = offset_of page limit;
          q0 = select_all ''leaves'';
          q1 = (if search \<noteq> [] then q_or q0 (leaves_or_filter search) else q0);
          q2 = (if status \<noteq> [] then q_eq q1 ''status'' status else q1)
      in q_range_of (q_order_by q2 ''created_at'' False) offset
           (js_sub (js_add offset limit) (Num 1)))"

definition leaves_GET ::
  "bool \<Rightarrow> query_pairs \<Rightarrow> leave list \<Rightarrow> leave page_envelope api_response" where
  "leaves_GET env_ok ps rs =
     (let page = page_of ps;
          limit = limit_of ps;
          search = param ps ''search'' [];
          status = param ps ''status'' []
      in if \<not> env_ok then Error_500 ''Internal server error''
         else (case run_select leave_schema rs (leaves_query search status page limit) of
                 Inl e \<Rightarrow> Error_500 (db_error_message e)
               | Inr (data, count) \<Rightarrow> Ok_json (make_envelope (Some data) (Some count) page limit)))"

definition leaves_POST ::
  "bool \<Rightarrow> (string \<times> string) list option \<Rightarrow> leave table \<Rightarrow> leave table \<times> leave api_response" where
  "leaves_POST env_ok body t =
     (if \<not> env_ok then (t, Error_500 ''Internal server error'')
      else (case body of
              None \<Rightarrow> (t, Error_500 ''Internal server error'')
            | Some b \<Rightarrow>
                (case run_insert leave_schema t b of
                   Inl e \<Rightarrow> (t, Error_500 (db_error_message e))
                 | Inr (t', r) \<Rightarrow> (t', Ok_json r))))"

section \<open>Abstract specification of GET\<close>

definition leave_matches :: "string \<Rightarrow> string \<Rightarrow> leave \<Rightarrow> bool" where
  "leave_matches search st r \<longleftrightarrow>
     (search = [] \<or>
      (\<exists>f \<in> set [lv_employee_name r, lv_type r]. sublist (js_lower search) (js_lower f)))
     \<and> (st = [] \<or> lv_status r = st)"

definition leaves_page_spec ::
  "string \<Rightarrow> string \<Rightarrow> int \<Rightarrow> int \<Rightarrow> leave list \<Rightarrow> leave page_envelope" where
  "leaves_page_spec search st p l rs = newest_page lv_created_at (leave_matches search st) p l rs"

definition leaves_css :: "string \<Rightarrow> string \<Rightarrow> cond list list" where
  "leaves_css s st =
     (if s \<noteq> [] then [map (\<lambda>c. Cond_ilike c (''%'' @ s @ ''%'')) [''employee_name'', ''type'']] else []) @
     (if st \<noteq> [] then [[Cond_eq ''status'' st]] else [])"

declare leave_data_columns_def [model_defs] leave_field_def [model_defs]
  build_leave_def [model_defs] leave_schema_def [model_defs] leaves_or_filter_def [model_defs]
  leaves_query_def [model_defs] leaves_GET_def [model_defs] leaves_POST_def [model_defs]

section \<open>GET refines its specification\<close>

lemma q_filters_leaves_query:
  "q_filters (leaves_query s st pg lm) =
     (if s \<noteq> [] then [Or_filter (leaves_or_filter s)] else []) @
     (if st \<noteq> [] then [Eq_filter ''status'' st] else [])"
  by (simp add: leaves_query_def Let_def q_or_def q_eq_def select_all_def
      q_order_by_def q_range_of_def)

lemma all_filter_conds_leaves:
  "safe_search s \<Longrightarrow>
   all_filter_conds (q_filters (leaves_query s st pg lm)) = Inr (leaves_css s st)"
proof -
  assume "safe_search s"
  then have "CHR '','' \<notin> set s" "CHR '')'' \<notin> set s" by (auto simp: safe_search_def)
  then have "parse_or (leaves_or_filter s) =
      Inr (map (\<lambda>c. Cond_ilike c (''%'' @ s @ ''%'')) [''employee_name'', ''type''])"
    using parse_or_ilike_columns [of s "[''employee_name'', ''type'']"]
    by (simp add: leaves_or_filter_def)
  then have "all_filter_conds [Or_filter (leaves_or_filter s)] =
      Inr [map (\<lambda>c. Cond_ilike c (''%'' @ s @ ''%'')) [''employee_name'', ''type'']]"
    by simp
  then show ?thesis
    by (simp only: q_filters_leaves_query all_filter_conds_append leaves_css_def)
      (simp split: if_splits)
qed

lemma bad_column_leaves: "bad_column leave_schema (leaves_css s st) = None"
  by (auto simp: bad_column_def leaves_css_def leave_schema_def leave_data_columns_def find_None_iff)

lemma row_matches_leaves:
  "safe_search s \<Longrightarrow> row_matches leave_schema (leaves_css s st) = leave_matches s st"
proof -
  assume "safe_search s"
  then have "\<forall>c \<in> set s. plain_char c" by (simp add: safe_search_def)
  then show ?thesis
    by (simp add: fun_eq_iff leaves_css_def leave_matches_def leave_schema_def
        leave_field_def ilike_match_contains)
qed

lemma leaves_GET_spec:
  assumes pg: "page_of ps = Num p" and lm: "limit_of ps = Num l"
    and safe: "safe_search (param ps ''search'' [])"
  shows "leaves_GET True ps rs =
     Ok_json (leaves_page_spec (param ps ''search'' []) (param ps ''status'' []) p l rs)"
proof -
  let ?s = "param ps ''search'' []" and ?st = "param ps ''status'' []"
  let ?q = "leaves_query ?s ?st (Num p) (Num l)"
  have p1: "1 \<le> p" using pg js_max1_Num by (simp add: page_of_def)
  have l1: "1 \<le> l" using lm js_max1_Num by (simp add: limit_of_def)
  have ord: "q_order ?q = Some (''created_at'', False)"
    by (simp add: leaves_query_def Let_def q_range_of_def q_order_by_def)
  have rng: "q_range ?q = Some (Num ((p - 1) * l), Num ((p - 1) * l + l - 1))"
    by (simp add: leaves_query_def Let_def q_range_of_def offset_of_def)
  have "(case run_select leave_schema rs ?q of
            Inl e \<Rightarrow> Error_500 (db_error_message e)
          | Inr (data, count) \<Rightarrow> Ok_json (make_envelope (Some data) (Some count) (Num p) (Num l))) =
        Ok_json (leaves_page_spec ?s ?st p l rs)"
    using run_select_newest_page [OF all_filter_conds_leaves [OF safe] bad_column_leaves ord rng p1 l1]
      row_matches_leaves [OF safe] by (simp add: leaves_page_spec_def leave_schema_def)
  then show ?thesis using pg lm by (simp add: leaves_GET_def Let_def)
qed

lemma schema_ok_leave: "schema_ok leave_schema"
  by (simp add: schema_ok_def leave_schema_def build_leave_def leave_field_def)

section \<open>Properties of the leaves endpoint\<close>

text \<open>
  C11: GET of the leave requests refines the specification: for a numeric page and limit
  and a search with no pattern character, comma or closing parenthesis, the answer is the page of the requests whose employee name or
  leave type contains the search (ignoring case) and whose status equals the non-empty
  filter, newest first, with the exact total and hasMore.
\<close>

theorem leaves_GET_refines:
  "page_of ps = Num p \<Longrightarrow> limit_of ps = Num l \<Longrightarrow> safe_search (param ps ''search'' []) \<Longrightarrow>
   leaves_GET True ps rs =
     Ok_json (leaves_page_spec (param ps ''search'' []) (param ps ''status'' []) p l rs)"
  by (rule leaves_GET_spec)

theorem leaves_GET_refines_witness:
  "page_of [(''search'', ''sick''), (''status'', ''Pending'')] = Num 1 \<and>
   limit_of [(''search'', ''sick''), (''status'', ''Pending'')] = Num 20 \<and>
   safe_search (param [(''search'', ''sick''), (''status'', ''Pending'')] ''search'' []) \<and>
   leaves_GET True [(''search'', ''sick''), (''status'', ''Pending'')] [] =
     Ok_json (leaves_page_spec ''sick'' ''Pending'' 1 20 [])"
proof -
  let ?ps = "[(''search'', ''sick''), (''status'', ''Pending'')]"
  have h1: "page_of ?ps = Num 1" by code_simp
  have h2: "limit_of ?ps = Num 20" by code_simp
  have h3: "safe_search (param ?ps ''search'' [])" by code_simp
  show ?thesis using h1 h2 h3 leaves_GET_refines [OF h1 h2 h3, of "[]"]
    by (simp add: param_def)
qed

text \<open>
  C29: POST of a complete leave request inserts it with the next identifier and the
  current time, whatever its dates: an end date before the start date is accepted,
  since neither the route nor the table checks their order.
\<close>

theorem leaves_POST_any_dates:
  "leaves_POST True
     (Some [(''employee_id'', ei), (''employee_name'', n), (''type'', ty),
            (''start_date'', sd), (''end_date'', ed), (''status'', st)]) t =
   (let r = \<lparr>lv_id = decimal (next_id t), lv_employee_id = ei, lv_employee_name = n,
             lv_type = ty, lv_start_date = sd, lv_end_date = ed, lv_status = st,
             lv_created_at = clock t, lv_updated_at = clock t\<rparr>
    in (t\<lparr>rows := rows t @ [r], next_id := Suc (next_id t), clock := Suc (clock t)\<rparr>, Ok_json r))"
  by (simp add: leaves_POST_def run_insert_def leave_schema_def leave_data_columns_def
      build_leave_def Let_def)

end
