(* ===== verification/Leave_Requests.thy ===== *)
theory Leave_Requests
  imports Leaves_Api
begin

text \<open>
  The leave requests page, \<open>src/app/Dashboard/leave-requests/page.tsx\<close>: a list view
  controller with a debounced search, a status filter and a loading flag. Unlike the
  employee directory, the search input and the filter stay rendered while the list
  loads (lines 86--103 are outside the loading conditional of line 107), so they are
  events in every state. Its only requests are loads, kept in issue order and
  resolving in any order.
\<close>

text \<open>How a load ends: an ok answer with the \<open>leaves\<close> field of its body, a non-ok status, or a throw.\<close>

datatype lv_result = Lv_ok "leave list option" | Lv_not_ok | Lv_network_error

record lv_state =
  leaves :: "leave list"
  lv_search :: string
  lv_debounced :: string
  lv_filter :: string
  lv_loading :: bool
  lv_timer :: "(nat \<times> string) option"
  lv_now :: nat
  lv_inflight :: "query_pairs list"

datatype lv_event = Lv_type string | Lv_select string | Lv_tick nat | Lv_resolve nat lv_result

definition lv_params :: "lv_state \<Rightarrow> query_pairs" where
  "lv_params s = [(''search'', lv_debounced s), (''status'', lv_filter s)]"

text \<open>The state after mounting: both effects have run, so a load is in flight.\<close>

definition init_lv :: lv_state where
  "init_lv =
     \<lparr>leaves = [], lv_search = [], lv_debounced = [], lv_filter = [], lv_loading = True,
      lv_timer = Some (300, []), lv_now = 0, lv_inflight = [[(''search'', []), (''status'', [])]]\<rparr>"

text \<open>The rendered list (line 59).\<close>

definition lv_filtered :: "lv_state \<Rightarrow> leave list" where
  "lv_filtered s = (if lv_filter s = [] then leaves s else filter (\<lambda>l. lv_status l = lv_filter s) (leaves s))"

text \<open>\<open>loadLeaves\<close> (lines 36--57): set \<open>loading\<close> and issue the fetch.\<close>

definition loadLeaves :: "lv_state \<Rightarrow> lv_state" where
  "loadLeaves s = s\<lparr>lv_loading := True, lv_inflight := lv_inflight s @ [lv_params s]\<rparr>"

text \<open>The debounce effect (lines 24--30) and the reload effect (lines 32--34).\<close>

definition lv_setSearch :: "lv_state \<Rightarrow> string \<Rightarrow> lv_state" where
  "lv_setSearch s v = (if v = lv_search s then s else s\<lparr>lv_search := v, lv_timer := Some (lv_now s + 300, v)\<rparr>)"

definition lv_setDebounced :: "lv_state \<Rightarrow> string \<Rightarrow> lv_state" where
  "lv_setDebounced s v = (if v = lv_debounced s then s else loadLeaves (s\<lparr>lv_debounced := v\<rparr>))"

definition lv_setFilter :: "lv_state \<Rightarrow> string \<Rightarrow> lv_state" where
  "lv_setFilter s v = (if v = lv_filter s then s else loadLeaves (s\<lparr>lv_filter := v\<rparr>))"

definition lv_tick :: "lv_state \<Rightarrow> nat \<Rightarrow> lv_state" where
  "lv_tick s d =
     (let t = lv_now s + d
      in case lv_timer s of
           Some (deadline, v) \<Rightarrow>
             if deadline \<le> t then lv_setDebounced (s\<lparr>lv_now := t, lv_timer := None\<rparr>) v
             else s\<lparr>lv_now := t\<rparr>
         | None \<Rightarrow> s\<lparr>lv_now := t\<rparr>)"

text \<open>The continuation of a load (lines 46--56): the \<open>finally\<close> clears the flag.\<close>

fun lv_on_result :: "lv_state \<Rightarrow> lv_result \<Rightarrow> lv_state" where
  "lv_on_result s (Lv_ok ls) =
     s\<lparr>leaves := (case ls of Some xs \<Rightarrow> xs | None \<Rightarrow> []), lv_loading := False\<rparr>"
| "lv_on_result s _ = s\<lparr>lv_loading := False\<rparr>"

definition lv_resolve :: "lv_state \<Rightarrow> nat \<Rightarrow> lv_result \<Rightarrow> lv_state option" where
  "lv_resolve s i r =
     (if i < length (lv_inflight s)
      then Some (lv_on_result (s\<lparr>lv_inflight := take i (lv_inflight s) @ drop (Suc i) (lv_inflight s)\<rparr>) r)
      else None)"

fun lv_step :: "lv_state \<Rightarrow> lv_event \<Rightarrow> lv_state option" where
  "lv_step s (Lv_type v) = Some (lv_setSearch s v)"
| "lv_step s (Lv_select v) = Some (lv_setFilter s v)"
| "lv_step s (Lv_tick d) = Some (lv_tick s d)"
| "lv_step s (Lv_resolve i r) = lv_resolve s i r"

fun lv_run :: "lv_state \<Rightarrow> lv_event list \<Rightarrow> lv_state option" where
  "lv_run s [] = Some s"
| "lv_run s (ev # evs) = (case lv_step s ev of None \<Rightarrow> None | Some s' \<Rightarrow> lv_run s' evs)"

inductive lv_reachable :: "lv_state \<Rightarrow> bool" where
  init: "lv_reachable init_lv"
| step: "lv_reachable s \<Longrightarrow> lv_step s ev = Some s' \<Longrightarrow> lv_reachable s'"

text \<open>
  A burst of keystrokes: each types the text shown and is followed by a pause of the
  given length. The reference debounce: the committed text is the last one followed
  by a pause of at least 300 ms.
\<close>

definition lv_burst :: "(string \<times> nat) list \<Rightarrow> lv_event list" where
  "lv_burst ks = concat (map (\<lambda>(v, d). [Lv_type v, Lv_tick d]) ks)"

fun debounce_ref :: "string \<Rightarrow> (string \<times> nat) list \<Rightarrow> string" where
  "debounce_ref cur [] = cur"
| "debounce_ref cur ((v, d) # ks) = debounce_ref (if 300 \<le> d then v else cur) ks"

section \<open>Properties of the leave requests page\<close>

lemma lv_resolve_last:
  "lv_resolve (s\<lparr>lv_loading := b, lv_inflight := lv_inflight s @ [q]\<rparr>) (length (lv_inflight s)) r =
   Some (lv_on_result (s\<lparr>lv_loading := b\<rparr>) r)"
  by (simp add: lv_resolve_def)

lemma lv_on_result_fields [simp]:
  "lv_inflight (lv_on_result s r) = lv_inflight s \<and> \<not> lv_loading (lv_on_result s r) \<and>
   lv_filter (lv_on_result s r) = lv_filter s \<and> lv_debounced (lv_on_result s r) = lv_debounced s"
  by (cases r) simp_all

lemma lv_step_inv:
  "(lv_loading s \<longrightarrow> lv_inflight s \<noteq> []) \<Longrightarrow> lv_step s ev = Some s' \<Longrightarrow>
   (lv_loading s' \<longrightarrow> lv_inflight s' \<noteq> [])"
  by (cases ev) (auto simp: lv_setSearch_def lv_setFilter_def lv_tick_def lv_setDebounced_def
      loadLeaves_def lv_resolve_def Let_def split: if_splits option.splits)

text \<open>
  C28: in every reachable state of the leave requests page, while the loading message
  is shown a load is outstanding.
\<close>

theorem lv_loading_means_fetch_pending:
  "lv_reachable s \<Longrightarrow> lv_loading s \<Longrightarrow> lv_inflight s \<noteq> []"
proof -
  assume "lv_reachable s"
  then have "lv_loading s \<longrightarrow> lv_inflight s \<noteq> []"
  proof (induction rule: lv_reachable.induct)
    case (step s ev s')
    then show ?case using lv_step_inv by blast
  qed (simp add: init_lv_def)
  then show "lv_loading s \<Longrightarrow> lv_inflight s \<noteq> []" by blast
qed

theorem lv_loading_means_fetch_pending_witness:
  "lv_reachable init_lv \<and> lv_loading init_lv \<and> lv_inflight init_lv \<noteq> []"
  using lv_loading_means_fetch_pending [OF lv_reachable.init] lv_reachable.init
  by (simp add: init_lv_def)

text \<open>
  The search input stays live while a load is outstanding: typing and pausing for
  300 ms during a load issues a second load for the new text, so the two overlap.
\<close>

theorem lv_type_during_load:
  "\<exists>s. lv_run init_lv [Lv_type ''ann'', Lv_tick 300] = Some s \<and> lv_loading s \<and>
     lv_inflight s = [[(''search'', []), (''status'', [])], [(''search'', ''ann''), (''status'', [])]]"
  by (simp add: init_lv_def lv_setSearch_def lv_tick_def lv_setDebounced_def loadLeaves_def lv_params_def)

lemma lv_run_append:
  "lv_run s (xs @ ys) = (case lv_run s xs of None \<Rightarrow> None | Some s' \<Rightarrow> lv_run s' ys)"
  by (induction xs arbitrary: s) (auto split: option.splits)

lemma loadLeaves_fields [simp]:
  "lv_debounced (loadLeaves s) = lv_debounced s \<and> lv_search (loadLeaves s) = lv_search s \<and>
   lv_timer (loadLeaves s) = lv_timer s"
  by (simp add: loadLeaves_def)

lemma lv_keystroke:
  "v \<noteq> lv_search s \<Longrightarrow>
   \<exists>s'. lv_run s [Lv_type v, Lv_tick d] = Some s' \<and> lv_search s' = v \<and>
     lv_debounced s' = (if 300 \<le> d then v else lv_debounced s)"
  by (auto simp: lv_setSearch_def lv_tick_def lv_setDebounced_def Let_def)

text \<open>
  C14: the debounce of the leave requests page is the reference debounce: after any
  burst in which each keystroke changes the text, the committed search is the last
  text followed by a pause of at least 300 ms, or the previous one if there is none.
  The inputs stay live while loads are outstanding, so this holds in every state.
\<close>

theorem lv_debounce_equiv:
  "distinct_adj (lv_search s # map fst ks) \<Longrightarrow>
   \<exists>s'. lv_run s (lv_burst ks) = Some s' \<and> lv_debounced s' = debounce_ref (lv_debounced s) ks \<and>
     lv_search s' = last (lv_search s # map fst ks)"
proof (induction ks arbitrary: s)
  case Nil
  then show ?case by (simp add: lv_burst_def)
next
  case (Cons k ks)
  obtain v d where k: "k = (v, d)" by force
  from Cons.prems k have "v \<noteq> lv_search s" by auto
  then obtain s1 where r1: "lv_run s [Lv_type v, Lv_tick d] = Some s1" and
    f1: "lv_search s1 = v" "lv_debounced s1 = (if 300 \<le> d then v else lv_debounced s)"
    using lv_keystroke by blast
  have "distinct_adj (lv_search s1 # map fst ks)" using Cons.prems k f1 by simp
  then obtain s' where r': "lv_run s1 (lv_burst ks) = Some s'"
    and f': "lv_debounced s' = debounce_ref (lv_debounced s1) ks"
      "lv_search s' = last (lv_search s1 # map fst ks)"
    using Cons.IH by blast
  have "lv_run s (lv_burst (k # ks)) = Some s'"
    using r1 r' k by (simp add: lv_burst_def lv_run_append [of s "[Lv_type v, Lv_tick d]", simplified])
  then show ?case using f1 f' k by auto
qed

theorem lv_debounce_equiv_witness:
  "distinct_adj (lv_search init_lv # map fst [(''a'', 100::nat), (''ab'', 400), (''abc'', 20)]) \<and>
   (\<exists>s'. lv_run init_lv (lv_burst [(''a'', 100), (''ab'', 400), (''abc'', 20)]) = Some s' \<and>
      lv_debounced s' = ''ab'' \<and> lv_search s' = ''abc'')"
proof -
  have h: "distinct_adj (lv_search init_lv # map fst [(''a'', 100::nat), (''ab'', 400), (''abc'', 20)])"
    by (simp add: init_lv_def)
  show ?thesis using h lv_debounce_equiv [OF h] by (simp add: init_lv_def)
qed

end
