(* ===== verification/Profile.thy ===== *)
theory Profile
  imports HRMS_Prelude
begin

text \<open>
  The profile page, \<open>src/app/Dashboard/profile/page.tsx\<close>: the signed-in user's name
  and email, edited in place and saved to the auth service's user metadata. The
  state is the page's hooks; the two auth calls (\<open>getUser\<close> on mount and
  \<open>updateUser\<close> on save) are requests in flight that resolve in any order. Only
  the name input has an \<open>onChange\<close>; the email input is read-only. The save and
  cancel buttons are rendered only while the name differs from the saved one and
  are disabled while saving; the edit button is rendered otherwise. The rendered
  view \<open>pf_render\<close> records what the page shows.
\<close>

record user_profile =
  up_email :: string
  up_name :: string

text \<open>
  A request in flight: the mount's \<open>getUser\<close>, or a save of the profile as the
  click saw it (the handler's closure), which sends its name.
\<close>

datatype pf_request = Get_user | Update_user user_profile

text \<open>
  How an auth call ends: \<open>getUser\<close> with a user (email and metadata name, each
  possibly missing) or none, \<open>updateUser\<close> with success or an error message, or a
  rejected promise.
\<close>

datatype auth_answer =
    Auth_user "(string option \<times> string option) option"
  | Update_ok
  | Update_error string
  | Auth_reject

record pf_state =
  profile :: user_profile
  originalProfile :: user_profile
  isEditing :: bool
  isSaving :: bool
  saveMessage :: string
  pf_inflight :: "pf_request list"

datatype pf_event = Pf_change_name string | Pf_save | Pf_cancel | Pf_edit | Pf_resolve nat auth_answer

definition empty_profile :: user_profile where
  "empty_profile = \<lparr>up_email = [], up_name = []\<rparr>"

text \<open>The state after mounting (lines 7--29): \<open>getUser\<close> is in flight.\<close>

definition init_pf :: pf_state where
  "init_pf =
     \<lparr>profile = empty_profile, originalProfile = empty_profile, isEditing = False,
      isSaving = False, saveMessage = [], pf_inflight = [Get_user]\<rparr>"

definition hasChanges :: "pf_state \<Rightarrow> bool" where
  "hasChanges s \<longleftrightarrow> up_name (profile s) \<noteq> up_name (originalProfile s)"

definition getInitials :: "string \<Rightarrow> string" where
  "getInitials name = (if name = [] then ''U'' else [js_upper_char (hd name)])"

definition handleChange :: "pf_state \<Rightarrow> string \<Rightarrow> pf_state" where
  "handleChange s v = s\<lparr>profile := (profile s)\<lparr>up_name := v\<rparr>\<rparr>"

definition handleSave :: "pf_state \<Rightarrow> pf_state" where
  "handleSave s =
     s\<lparr>isSaving := True, saveMessage := [], pf_inflight := pf_inflight s @ [Update_user (profile s)]\<rparr>"

definition handleCancel :: "pf_state \<Rightarrow> pf_state" where
  "handleCancel s = s\<lparr>profile := originalProfile s, isEditing := False, saveMessage := []\<rparr>"

definition save_ok_message :: string where
  "save_ok_message = ''Profile saved successfully!''"

text \<open>The continuation of each call (\<open>None\<close>: an answer the call cannot give).\<close>

fun pf_on_result :: "pf_state \<Rightarrow> pf_request \<Rightarrow> auth_answer \<Rightarrow> pf_state option" where
  "pf_on_result s Get_user (Auth_user None) = Some s"
| "pf_on_result s Get_user (Auth_user (Some (e, n))) =
     (let p = \<lparr>up_email = case_option [] id e, up_name = case_option [] id n\<rparr>
      in Some (s\<lparr>profile := p, originalProfile := p\<rparr>))"
| "pf_on_result s Get_user Auth_reject = Some s"
| "pf_on_result s Get_user _ = None"
| "pf_on_result s (Update_user p) Update_ok =
     Some (s\<lparr>saveMessage := save_ok_message, originalProfile := p, isEditing := False,
             isSaving := False\<rparr>)"
| "pf_on_result s (Update_user p) (Update_error m) =
     Some (s\<lparr>saveMessage := ''Error saving profile: '' @ m, isSaving := False\<rparr>)"
| "pf_on_result s (Update_user p) Auth_reject =
     Some (s\<lparr>saveMessage := ''Error saving profile. Please try again.'', isSaving := False\<rparr>)"
| "pf_on_result s (Update_user p) (Auth_user u) = None"

definition pf_resolve :: "pf_state \<Rightarrow> nat \<Rightarrow> auth_answer \<Rightarrow> pf_state option" where
  "pf_resolve s i a =
     (if i < length (pf_inflight s)
      then pf_on_result (s\<lparr>pf_inflight := take i (pf_inflight s) @ drop (Suc i) (pf_inflight s)\<rparr>)
             (pf_inflight s ! i) a
      else None)"

fun pf_step :: "pf_state \<Rightarrow> pf_event \<Rightarrow> pf_state option" where
  "pf_step s (Pf_change_name v) = Some (handleChange s v)"
| "pf_step s Pf_save = (if hasChanges s \<and> \<not> isSaving s then Some (handleSave s) else None)"
| "pf_step s Pf_cancel = (if hasChanges s \<and> \<not> isSaving s then Some (handleCancel s) else None)"
| "pf_step s Pf_edit = (if \<not> hasChanges s then Some (s\<lparr>isEditing := True\<rparr>) else None)"
| "pf_step s (Pf_resolve i a) = pf_resolve s i a"

fun pf_run :: "pf_state \<Rightarrow> pf_event list \<Rightarrow> pf_state option" where
  "pf_run s [] = Some s"
| "pf_run s (ev # evs) = (case pf_step s ev of None \<Rightarrow> None | Some s' \<Rightarrow> pf_run s' evs)"

inductive pf_reachable :: "pf_state \<Rightarrow> bool" where
  init: "pf_reachable init_pf"
| step: "pf_reachable s \<Longrightarrow> pf_step s ev = Some s' \<Longrightarrow> pf_reachable s'"

text \<open>The saves in flight.\<close>

definition pending_saves :: "pf_state \<Rightarrow> nat" where
  "pending_saves s = length (filter (\<lambda>r. r \<noteq> Get_user) (pf_inflight s))"

text \<open>
  What the page renders (lines 72--151): the avatar initial and heading, the read-only
  email, the name input, the save message box (lines 110--118, styled as an error when
  the message contains \<open>Error\<close>), and the action buttons, each with its label, its
  \<open>disabled\<close> attribute and the event its \<open>onClick\<close> raises.
\<close>

record pf_view =
  pv_initials :: string
  pv_heading :: string
  pv_email :: string
  pv_name_input :: string
  pv_banner :: "(bool \<times> string) option"
  pv_buttons :: "(string \<times> bool \<times> pf_event) list"

definition save_banner :: "string \<Rightarrow> (bool \<times> string) option" where
  "save_banner m = (if m = [] then None else Some (js_includes m ''Error'', m))"

definition pf_buttons :: "pf_state \<Rightarrow> (string \<times> bool \<times> pf_event) list" where
  "pf_buttons s =
     (if hasChanges s
      then [(if isSaving s then ''Saving...'' else ''Save Changes'', isSaving s, Pf_save),
            (''Cancel'', isSaving s, Pf_cancel)]
      else [(''Edit Profile'', False, Pf_edit)])"

definition pf_render :: "pf_state \<Rightarrow> pf_view" where
  "pf_render s =
     \<lparr>pv_initials = getInitials (up_name (profile s)),
      pv_heading = (if up_name (profile s) = [] then ''User'' else up_name (profile s)),
      pv_email = up_email (profile s), pv_name_input = up_name (profile s),
      pv_banner = save_banner (saveMessage s), pv_buttons = pf_buttons s\<rparr>"

section \<open>Properties of the profile page\<close>

lemma length_filter_remove_nth:
  "i < length xs \<Longrightarrow>
   length (filter P (take i xs @ drop (Suc i) xs)) + (if P (xs ! i) then 1 else 0) = length (filter P xs)"
proof -
  assume i: "i < length xs"
  have "xs = take i xs @ xs ! i # drop (Suc i) xs" using i by (rule id_take_nth_drop)
  then have "length (filter P xs) = length (filter P (take i xs @ xs ! i # drop (Suc i) xs))"
    by (rule arg_cong)
  then show ?thesis by simp
qed

lemma pf_on_result_saving:
  "pf_on_result s r a = Some s' \<Longrightarrow>
   pf_inflight s' = pf_inflight s \<and> (isSaving s' = (isSaving s \<and> r = Get_user))"
  by (cases "(s, r, a)" rule: pf_on_result.cases) (auto simp: Let_def)

lemma pf_step_saving_inv:
  assumes inv: "pending_saves s = (if isSaving s then 1 else 0)"
    and st: "pf_step s ev = Some s'"
  shows "pending_saves s' = (if isSaving s' then 1 else 0)"
proof (cases ev)
  case (Pf_resolve i a)
  let ?rest = "take i (pf_inflight s) @ drop (Suc i) (pf_inflight s)"
  have i: "i < length (pf_inflight s)" using st Pf_resolve by (simp add: pf_resolve_def split: if_splits)
  have on: "pf_on_result (s\<lparr>pf_inflight := ?rest\<rparr>) (pf_inflight s ! i) a = Some s'"
    using st Pf_resolve i by (simp add: pf_resolve_def)
  have cnt: "length (filter (\<lambda>r. r \<noteq> Get_user) ?rest) +
      (if pf_inflight s ! i \<noteq> Get_user then 1 else 0) = pending_saves s"
    using length_filter_remove_nth [OF i, of "\<lambda>r. r \<noteq> Get_user"] by (simp add: pending_saves_def)
  show ?thesis using pf_on_result_saving [OF on] inv cnt
    by (auto simp: pending_saves_def split: if_splits)
qed (use inv st in \<open>auto simp: handleChange_def handleSave_def handleCancel_def pending_saves_def
       split: if_splits\<close>)

text \<open>C15: at most one save is in flight, and exactly while the page shows it saving.\<close>

theorem pf_single_save:
  "pf_reachable s \<Longrightarrow> pending_saves s = (if isSaving s then 1 else 0)"
proof (induction rule: pf_reachable.induct)
  case init
  then show ?case by (simp add: init_pf_def pending_saves_def)
next
  case (step s ev s')
  then show ?case using pf_step_saving_inv by blast
qed

theorem pf_single_save_witness:
  "pf_reachable init_pf \<and> pending_saves init_pf = 0 \<and> \<not> isSaving init_pf"
  using pf_single_save [OF pf_reachable.init] pf_reachable.init by (simp add: init_pf_def)

text \<open>A name typed before the user is loaded is overwritten when the user arrives.\<close>

theorem pf_late_user_discards_edit:
  "\<exists>s. pf_run init_pf [Pf_change_name ''Ann'', Pf_resolve 0 (Auth_user (Some (Some ''a@x'', None)))] = Some s \<and>
     up_name (profile s) = [] \<and> \<not> hasChanges s"
  by (simp add: init_pf_def handleChange_def pf_resolve_def hasChanges_def empty_profile_def Let_def)

text \<open>
  A save that overlaps the loading of the user stores the profile as the click saw
  it: after the save succeeds, Cancel restores an empty email.
\<close>

theorem pf_stale_save_loses_email:
  "\<exists>s. pf_run init_pf [Pf_change_name ''Ann'', Pf_save,
        Pf_resolve 0 (Auth_user (Some (Some ''a@x'', Some ''Bo''))), Pf_resolve 0 Update_ok, Pf_cancel] = Some s \<and>
     up_email (profile s) = [] \<and> up_name (profile s) = ''Ann''"
  by (simp add: init_pf_def handleChange_def handleSave_def handleCancel_def pf_resolve_def
      hasChanges_def empty_profile_def Let_def)

text \<open>The save message contains \<open>Error\<close> exactly when the save failed.\<close>

theorem pf_save_message_error:
  "pf_on_result s (Update_user p) a = Some s' \<Longrightarrow>
   (js_includes (saveMessage s') ''Error'' \<longleftrightarrow> a \<noteq> Update_ok)"
  by (cases a) (auto simp: js_includes_def save_ok_message_def sublist_Cons_right)

theorem pf_save_message_error_witness:
  "pf_on_result init_pf (Update_user empty_profile) (Update_error ''denied'') =
     Some (init_pf\<lparr>saveMessage := ''Error saving profile: denied''\<rparr>) \<and>
   js_includes ''Error saving profile: denied'' ''Error''"
proof -
  have h: "pf_on_result init_pf (Update_user empty_profile) (Update_error ''denied'') =
     Some (init_pf\<lparr>saveMessage := ''Error saving profile: denied''\<rparr>)"
    by (simp add: init_pf_def)
  show ?thesis using h pf_save_message_error [OF h] by simp
qed

text \<open>
  C18: after the answer of a save the page shows the message box, styled as an error
  exactly when the save failed.
\<close>

theorem pf_save_banner_error:
  "pf_on_result s (Update_user p) a = Some s' \<Longrightarrow>
   pv_banner (pf_render s') = Some (a \<noteq> Update_ok, saveMessage s')"
proof -
  assume h: "pf_on_result s (Update_user p) a = Some s'"
  have "saveMessage s' \<noteq> []" using h by (cases a) (auto simp: save_ok_message_def)
  then show ?thesis using pf_save_message_error [OF h] by (simp add: pf_render_def save_banner_def)
qed

theorem pf_save_banner_error_witness:
  "pf_on_result init_pf (Update_user empty_profile) (Update_error ''denied'') =
     Some (init_pf\<lparr>saveMessage := ''Error saving profile: denied''\<rparr>) \<and>
   pv_banner (pf_render (init_pf\<lparr>saveMessage := ''Error saving profile: denied''\<rparr>)) =
     Some (True, ''Error saving profile: denied'')"
proof -
  have h: "pf_on_result init_pf (Update_user empty_profile) (Update_error ''denied'') =
     Some (init_pf\<lparr>saveMessage := ''Error saving profile: denied''\<rparr>)"
    by (simp add: init_pf_def)
  show ?thesis using h pf_save_banner_error [OF h] by simp
qed

text \<open>
  A successful save records the edited profile as saved and leaves no pending
  change; Cancel restores the saved profile.
\<close>

theorem pf_save_then_clean:
  "\<not> isSaving s \<Longrightarrow> hasChanges s \<Longrightarrow>
   pf_run s [Pf_save, Pf_resolve (length (pf_inflight s)) Update_ok] =
     Some (s\<lparr>saveMessage := save_ok_message, originalProfile := profile s, isEditing := False\<rparr>) \<and>
   \<not> hasChanges (s\<lparr>saveMessage := save_ok_message, originalProfile := profile s, isEditing := False\<rparr>) \<and>
   pf_step s Pf_cancel = Some (handleCancel s) \<and> \<not> hasChanges (handleCancel s)"
  by (simp add: handleSave_def pf_resolve_def hasChanges_def handleCancel_def)

theorem pf_save_then_clean_witness:
  "\<not> isSaving (init_pf\<lparr>pf_inflight := [], profile := \<lparr>up_email = [], up_name = ''Ann''\<rparr>\<rparr>) \<and>
   hasChanges (init_pf\<lparr>pf_inflight := [], profile := \<lparr>up_email = [], up_name = ''Ann''\<rparr>\<rparr>) \<and>
   pf_run (init_pf\<lparr>pf_inflight := [], profile := \<lparr>up_email = [], up_name = ''Ann''\<rparr>\<rparr>)
     [Pf_save, Pf_resolve 0 Update_ok] =
   Some (init_pf\<lparr>pf_inflight := [], profile := \<lparr>up_email = [], up_name = ''Ann''\<rparr>,
     saveMessage := save_ok_message, originalProfile := \<lparr>up_email = [], up_name = ''Ann''\<rparr>\<rparr>)"
proof -
  let ?s = "init_pf\<lparr>pf_inflight := [], profile := \<lparr>up_email = [], up_name = ''Ann''\<rparr>\<rparr>"
  have h1: "\<not> isSaving ?s" by (simp add: init_pf_def)
  have h2: "hasChanges ?s" by (simp add: init_pf_def hasChanges_def empty_profile_def)
  show ?thesis using h1 h2 pf_save_then_clean [OF h1 h2] by (simp add: init_pf_def)
qed

text \<open>The avatar initial is one character and never a lowercase letter.\<close>

theorem getInitials_upper:
  "length (getInitials n) = 1 \<and> js_upper (getInitials n) = getInitials n"
proof (cases "n = []")
  case True
  then show ?thesis by (simp add: getInitials_def js_upper_def js_upper_char_def)
next
  case False
  then show ?thesis by (simp add: getInitials_def js_upper_def)
qed

end
