(* ===== verification/Login.thy ===== *)
theory Login
  imports Session_Gate
begin

text \<open>
  The login page, \<open>src/app/page.tsx\<close>: a form that signs in or signs up with the
  auth service, and a link that toggles between the two modes. \<open>handleLogin\<close>
  awaits the auth call and then clears \<open>loading\<close>; it has no \<open>try\<close>, so a rejected
  call leaves \<open>loading\<close> set and the submit button disabled. A successful sign-in
  stores the session cookie (the auth helper client does) and pushes \<open>/Dashboard\<close>.
  The rendered view \<open>login_render\<close> records the title, the error paragraph and the
  labels and attributes of the buttons.
\<close>

datatype login_request = Sign_up string string | Sign_in string string

text \<open>How an auth call ends: success (with the session a sign-in opens), an error, a rejection.\<close>

datatype login_answer = Auth_ok token | Auth_error string | Auth_rejected

record login_state =
  l_email :: string
  l_password :: string
  l_error :: string
  isSignup :: bool
  l_loading :: bool
  l_inflight :: "login_request list"
  l_cookie :: "token option"
  pushed :: "path list"

datatype login_event =
    Type_email string | Type_password string | Toggle_mode | Submit_login | Login_resolve nat login_answer

definition init_login :: login_state where
  "init_login =
     \<lparr>l_email = [], l_password = [], l_error = [], isSignup = False, l_loading = False,
      l_inflight = [], l_cookie = None, pushed = []\<rparr>"

text \<open>The form's native validation: both inputs are required, the first is of type email.\<close>

definition login_form_valid :: "login_state \<Rightarrow> bool" where
  "login_form_valid s \<longleftrightarrow>
     CHR ''@'' \<in> set (l_email s) \<and> hd (l_email s) \<noteq> CHR ''@'' \<and> last (l_email s) \<noteq> CHR ''@'' \<and>
     l_password s \<noteq> []"

definition handleLogin :: "login_state \<Rightarrow> login_state" where
  "handleLogin s =
     s\<lparr>l_loading := True, l_error := [],
       l_inflight := l_inflight s @
         [if isSignup s then Sign_up (l_email s) (l_password s) else Sign_in (l_email s) (l_password s)]\<rparr>"

definition signup_message :: string where
  "signup_message = ''Check your email for confirmation link!''"

fun login_on_result :: "login_state \<Rightarrow> login_request \<Rightarrow> login_answer \<Rightarrow> login_state" where
  "login_on_result s _ Auth_rejected = s"
| "login_on_result s _ (Auth_error m) = s\<lparr>l_error := m, l_loading := False\<rparr>"
| "login_on_result s (Sign_up e p) (Auth_ok t) = s\<lparr>l_error := signup_message, l_loading := False\<rparr>"
| "login_on_result s (Sign_in e p) (Auth_ok t) =
     s\<lparr>l_cookie := Some t, pushed := pushed s @ [''/Dashboard''], l_loading := False\<rparr>"

definition login_resolve :: "login_state \<Rightarrow> nat \<Rightarrow> login_answer \<Rightarrow> login_state option" where
  "login_resolve s i a =
     (if i < length (l_inflight s)
      then Some (login_on_result (s\<lparr>l_inflight := take i (l_inflight s) @ drop (Suc i) (l_inflight s)\<rparr>)
                   (l_inflight s ! i) a)
      else None)"

fun login_step :: "login_state \<Rightarrow> login_event \<Rightarrow> login_state option" where
  "login_step s (Type_email v) = Some (s\<lparr>l_email := v\<rparr>)"
| "login_step s (Type_password v) = Some (s\<lparr>l_password := v\<rparr>)"
| "login_step s Toggle_mode = Some (s\<lparr>isSignup := \<not> isSignup s, l_error := []\<rparr>)"
| "login_step s Submit_login =
     (if \<not> l_loading s \<and> login_form_valid s then Some (handleLogin s) else None)"
| "login_step s (Login_resolve i a) = login_resolve s i a"

fun login_run :: "login_state \<Rightarrow> login_event list \<Rightarrow> login_state option" where
  "login_run s [] = Some s"
| "login_run s (ev # evs) = (case login_step s ev of None \<Rightarrow> None | Some s' \<Rightarrow> login_run s' evs)"

inductive login_reachable :: "login_state \<Rightarrow> bool" where
  init: "login_reachable init_login"
| step: "login_reachable s \<Longrightarrow> login_step s ev = Some s' \<Longrightarrow> login_reachable s'"

text \<open>
  What the page renders (lines 43--99): the title, the error paragraph (line 70, in the
  destructive style, shown while \<open>error\<close> is not empty), the submit button with its label
  and \<open>disabled\<close> attribute, the label of the mode toggle and the hint below it.
\<close>

record login_view =
  lgv_title :: string
  lgv_error :: "string option"
  lgv_submit_label :: string
  lgv_submit_disabled :: bool
  lgv_toggle_label :: string
  lgv_hint :: string

definition login_render :: "login_state \<Rightarrow> login_view" where
  "login_render s =
     \<lparr>lgv_title = (if isSignup s then ''Sign Up'' else ''Login'') @ '' to HRMS'',
      lgv_error = (if l_error s = [] then None else Some (l_error s)),
      lgv_submit_label =
        (if l_loading s then ''Loading...'' else if isSignup s then ''Sign Up'' else ''Login''),
      lgv_submit_disabled = l_loading s,
      lgv_toggle_label =
        (if isSignup s then ''Already have an account? Login'' else ''Don't have an account? Sign up''),
      lgv_hint =
        (if isSignup s then ''After signing up, check your email for confirmation.''
         else ''Tip: create a user in Supabase Auth with email/password to sign in.'')\<rparr>"

section \<open>Properties of the login page\<close>

lemma login_on_result_inflight [simp]: "l_inflight (login_on_result s r a) = l_inflight s"
  by (cases "(s, r, a)" rule: login_on_result.cases) simp_all

lemma login_stuck_step:
  "l_loading s \<Longrightarrow> l_inflight s = [] \<Longrightarrow> login_step s ev = Some s' \<Longrightarrow>
   l_loading s' \<and> l_inflight s' = []"
  by (cases ev) (auto simp: login_resolve_def split: if_splits)

text \<open>
  C16: a successful sign-in ends on the dashboard: the page pushes \<open>/Dashboard\<close> with the
  session cookie set, and the gate lets that request through.
\<close>

theorem login_reaches_dashboard:
  "\<not> l_loading s \<Longrightarrow> login_form_valid s \<Longrightarrow> \<not> isSignup s \<Longrightarrow>
   \<exists>s'. login_run s [Submit_login, Login_resolve (length (l_inflight s)) (Auth_ok t)] = Some s' \<and>
     \<not> l_loading s' \<and> l_cookie s' = Some t \<and> last (pushed s') = ''/Dashboard'' \<and>
     gate (l_cookie s') \<lparr>pathname = last (pushed s'), url_query = []\<rparr> = Next"
  by (simp add: handleLogin_def login_resolve_def gate_def middleware_def config_matcher_def
      isAuthRoute_def js_starts_with_def)

theorem login_reaches_dashboard_witness:
  "\<not> l_loading (init_login\<lparr>l_email := ''a@b'', l_password := ''pw''\<rparr>) \<and>
   login_form_valid (init_login\<lparr>l_email := ''a@b'', l_password := ''pw''\<rparr>) \<and>
   \<not> isSignup (init_login\<lparr>l_email := ''a@b'', l_password := ''pw''\<rparr>) \<and>
   login_run (init_login\<lparr>l_email := ''a@b'', l_password := ''pw''\<rparr>)
     [Submit_login, Login_resolve 0 (Auth_ok ''tok'')] =
   Some (init_login\<lparr>l_email := ''a@b'', l_password := ''pw'', l_cookie := Some ''tok'',
     pushed := [''/Dashboard'']\<rparr>)"
proof -
  let ?s = "init_login\<lparr>l_email := ''a@b'', l_password := ''pw''\<rparr>"
  have h1: "\<not> l_loading ?s" by (simp add: init_login_def)
  have h2: "login_form_valid ?s" by code_simp
  have h3: "\<not> isSignup ?s" by (simp add: init_login_def)
  obtain s' where "login_run ?s [Submit_login, Login_resolve (length (l_inflight ?s)) (Auth_ok ''tok'')] = Some s'"
    using login_reaches_dashboard [OF h1 h2 h3, of "''tok''"] by blast
  then show ?thesis using h1 h2 h3
    by (simp add: init_login_def handleLogin_def login_resolve_def)
qed

text \<open>Once loading with nothing in flight, no sequence of events clears it.\<close>

lemma login_stuck_run:
  "l_loading s \<Longrightarrow> l_inflight s = [] \<Longrightarrow> login_run s evs = Some s' \<Longrightarrow>
   l_loading s' \<and> l_inflight s' = []"
proof (induction evs arbitrary: s)
  case Nil
  then show ?case by simp
next
  case (Cons ev evs)
  then obtain s1 where st: "login_step s ev = Some s1" and r: "login_run s1 evs = Some s'"
    by (auto split: option.splits)
  have "l_loading s1 \<and> l_inflight s1 = []" using login_stuck_step [OF Cons.prems(1,2) st] .
  then show ?case using Cons.IH r by blast
qed

text \<open>In every reachable state at most one auth call is in flight, and only while loading.\<close>

lemma login_reachable_inflight:
  "login_reachable s \<Longrightarrow> length (l_inflight s) \<le> 1 \<and> (l_inflight s \<noteq> [] \<longrightarrow> l_loading s)"
proof (induction rule: login_reachable.induct)
  case init
  then show ?case by (simp add: init_login_def)
next
  case (step s ev s')
  then show ?case
    by (cases ev) (auto simp: handleLogin_def login_resolve_def split: if_splits)
qed

text \<open>
  C17: a rejected auth call disables the form for good: from every reachable state of
  the login page, if a submit is answered by a rejected promise, then after any further
  events the page is still loading with nothing in flight, the submit button is
  disabled and labelled "Loading...", and a submit is impossible. The handler has no
  \<open>try\<close>/\<open>finally\<close>, so \<open>setLoading(false)\<close> is never reached.
\<close>

theorem login_reject_stuck:
  "login_reachable s \<Longrightarrow>
   login_run s (Submit_login # Login_resolve 0 Auth_rejected # evs) = Some s' \<Longrightarrow>
   l_loading s' \<and> l_inflight s' = [] \<and> login_step s' Submit_login = None \<and>
   lgv_submit_disabled (login_render s') \<and> lgv_submit_label (login_render s') = ''Loading...''"
proof -
  assume reach: "login_reachable s"
    and run: "login_run s (Submit_login # Login_resolve 0 Auth_rejected # evs) = Some s'"
  then obtain s2 where sub: "login_step s Submit_login = Some (handleLogin s)"
    and res: "login_resolve (handleLogin s) 0 Auth_rejected = Some s2" and rest: "login_run s2 evs = Some s'"
    by (auto split: option.splits if_splits)
  then have "\<not> l_loading s" by (auto split: if_splits)
  then have "l_inflight s = []" using login_reachable_inflight [OF reach] by auto
  then have "l_loading s2 \<and> l_inflight s2 = []" using res by (auto simp: handleLogin_def login_resolve_def)
  then have "l_loading s' \<and> l_inflight s' = []" using login_stuck_run rest by blast
  then show ?thesis by (simp add: login_render_def)
qed

theorem login_reject_stuck_witness:
  "login_reachable (init_login\<lparr>l_email := ''a@b'', l_password := ''pw''\<rparr>) \<and>
   login_run (init_login\<lparr>l_email := ''a@b'', l_password := ''pw''\<rparr>)
     [Submit_login, Login_resolve 0 Auth_rejected, Toggle_mode] =
     Some (init_login\<lparr>l_email := ''a@b'', l_password := ''pw'', l_loading := True, isSignup := True\<rparr>) \<and>
   lgv_submit_label (login_render
     (init_login\<lparr>l_email := ''a@b'', l_password := ''pw'', l_loading := True, isSignup := True\<rparr>)) =
     ''Loading...''"
proof -
  let ?s = "init_login\<lparr>l_email := ''a@b'', l_password := ''pw''\<rparr>"
  have r1: "login_reachable (init_login\<lparr>l_email := ''a@b''\<rparr>)"
    using login_reachable.step [OF login_reachable.init, of "Type_email ''a@b''"] by simp
  have h1: "login_reachable ?s"
    using login_reachable.step [OF r1, of "Type_password ''pw''"] by simp
  have v: "login_form_valid ?s" by code_simp
  have h2: "login_run ?s [Submit_login, Login_resolve 0 Auth_rejected, Toggle_mode] =
     Some (init_login\<lparr>l_email := ''a@b'', l_password := ''pw'', l_loading := True, isSignup := True\<rparr>)"
    using v by (simp add: init_login_def handleLogin_def login_resolve_def)
  show ?thesis using h1 h2 login_reject_stuck [OF h1 h2] by simp
qed

text \<open>
  A successful sign-up is reported in the error slot of the form, and the page
  stays on the login form with no session.
\<close>

theorem signup_message_in_error_slot:
  "\<not> l_loading s \<Longrightarrow> login_form_valid s \<Longrightarrow> isSignup s \<Longrightarrow>
   login_run s [Submit_login, Login_resolve (length (l_inflight s)) (Auth_ok t)] =
     Some (s\<lparr>l_error := signup_message\<rparr>)"
  by (simp add: handleLogin_def login_resolve_def)

theorem signup_message_in_error_slot_witness:
  "\<not> l_loading (init_login\<lparr>l_email := ''a@b'', l_password := ''pw'', isSignup := True\<rparr>) \<and>
   login_form_valid (init_login\<lparr>l_email := ''a@b'', l_password := ''pw'', isSignup := True\<rparr>) \<and>
   login_run (init_login\<lparr>l_email := ''a@b'', l_password := ''pw'', isSignup := True\<rparr>)
     [Submit_login, Login_resolve 0 (Auth_ok ''tok'')] =
   Some (init_login\<lparr>l_email := ''a@b'', l_password := ''pw'', isSignup := True, l_error := signup_message\<rparr>)"
proof -
  let ?s = "init_login\<lparr>l_email := ''a@b'', l_password := ''pw'', isSignup := True\<rparr>"
  have h1: "\<not> l_loading ?s" by (simp add: init_login_def)
  have h2: "login_form_valid ?s" by code_simp
  have h3: "isSignup ?s" by simp
  show ?thesis using h1 h2 signup_message_in_error_slot [OF h1 h2 h3, of "''tok''"]
    by (simp add: init_login_def)
qed

text \<open>
  C26: a successful sign-up shows its confirmation in the error paragraph, in the
  destructive style of a failure, and the page stays on the sign-up form with no
  session and no navigation.
\<close>

theorem signup_shown_as_error:
  "\<not> l_loading s \<Longrightarrow> login_form_valid s \<Longrightarrow> isSignup s \<Longrightarrow>
   \<exists>s'. login_run s [Submit_login, Login_resolve (length (l_inflight s)) (Auth_ok t)] = Some s' \<and>
     lgv_error (login_render s') = Some signup_message \<and>
     lgv_title (login_render s') = ''Sign Up to HRMS'' \<and> \<not> lgv_submit_disabled (login_render s') \<and>
     l_cookie s' = l_cookie s \<and> pushed s' = pushed s"
  using signup_message_in_error_slot [of s t] by (simp add: login_render_def signup_message_def)

theorem signup_shown_as_error_witness:
  "\<not> l_loading (init_login\<lparr>l_email := ''a@b'', l_password := ''pw'', isSignup := True\<rparr>) \<and>
   login_form_valid (init_login\<lparr>l_email := ''a@b'', l_password := ''pw'', isSignup := True\<rparr>) \<and>
   isSignup (init_login\<lparr>l_email := ''a@b'', l_password := ''pw'', isSignup := True\<rparr>) \<and>
   lgv_error (login_render (init_login\<lparr>l_email := ''a@b'', l_password := ''pw'', isSignup := True,
     l_error := signup_message\<rparr>)) = Some signup_message"
proof -
  let ?s = "init_login\<lparr>l_email := ''a@b'', l_password := ''pw'', isSignup := True\<rparr>"
  have h1: "\<not> l_loading ?s" by (simp add: init_login_def)
  have h2: "login_form_valid ?s" by code_simp
  have h3: "isSignup ?s" by simp
  obtain s' where "login_run ?s [Submit_login, Login_resolve (length (l_inflight ?s)) (Auth_ok ''tok'')] = Some s'"
    and "lgv_error (login_render s') = Some signup_message"
    using signup_shown_as_error [OF h1 h2 h3, of "''tok''"] by blast
  then show ?thesis using h1 h2 h3
    by (simp add: init_login_def handleLogin_def login_resolve_def)
qed

end
