(* ===== verification/Layout.thy ===== *)
theory Layout
  imports Session_Gate
begin

text \<open>
  The dashboard layout, \<open>src/app/Dashboard/layout.tsx\<close>: the navigation links of the
  side bar and the sign-out form, which posts to the sign-out route, and the theme button. The theme
  context it calls is not part of the sources; its light/dark state and toggle are
  modelled from the spec.
\<close>

definition nav_links :: "path list" where
  "nav_links = [''/Dashboard'', ''/Dashboard/employee-directory'', ''/Dashboard/leave-requests'',
                ''/Dashboard/profile'']"

text \<open>
  The theme the context provides (the spec's light/dark state with a light default;
  the context itself is not part of the sources) and the theme button of the side bar
  (lines 14--28): its title names the other theme, its icon is a moon in light mode
  and a sun in dark mode, and a click toggles the theme.
\<close>

datatype theme = Light | Dark

datatype theme_icon = Moon_icon | Sun_icon

definition default_theme :: theme where
  "default_theme = Light"

fun toggleTheme :: "theme \<Rightarrow> theme" where
  "toggleTheme Light = Dark"
| "toggleTheme Dark = Light"

definition theme_button_title :: "theme \<Rightarrow> string" where
  "theme_button_title th = ''Switch to '' @ (if th = Light then ''dark'' else ''light'') @ '' mode''"

definition theme_button_icon :: "theme \<Rightarrow> theme_icon" where
  "theme_button_icon th = (if th = Light then Moon_icon else Sun_icon)"

text \<open>The sign-out form: its action and method.\<close>

definition signout_form :: "path \<times> string" where
  "signout_form = (''/api/auth/signout'', ''post'')"

lemma nav_links_pages: "list_all dashboard_page nav_links"
  by (simp add: nav_links_def dashboard_page_def)

end
