(* ===== verification/Spec2Isabelle.thy ===== *)
theory Spec2Isabelle
  imports Session_Gate Employee_Directory Leave_Requests Profile Login Layout
begin

text \<open>
  \<^bold>\<open>A verification development of the HRMS dashboard.\<close>

  The program is a Next.js application (\<open>src/src/\<close>): a request middleware that gates
  the dashboard pages on a session cookie, API routes that forward query parameters
  to a hosted data service (supabase) and relay its answers, and client pages that
  keep list state in React hooks. This development models the parts that carry
  behaviour and proves what they promise, as a library of theories:

  \<^item> \<open>HRMS_Prelude\<close>: the JavaScript string operations the code calls
    (\<open>toLowerCase\<close> on ASCII letters, \<open>includes\<close>, \<open>startsWith\<close>, \<open>join\<close>),
    \<open>String(n)\<close> for identifiers, and the lemma collections of the development.
  \<^item> \<open>Session_Gate\<close>: \<open>middleware.ts\<close> (\<^const>\<open>Session_Gate.middleware\<close>, its
    \<open>config.matcher\<close> as \<^const>\<open>Session_Gate.gate\<close>) and the sign-out route
    \<open>api/auth/signout/route.ts\<close> (\<^const>\<open>Session_Gate.signout_POST\<close>). Claims: no
    dashboard page without a session, every page with one, no redirect loop, and two
    findings (API routes are outside the matcher; sign-out keeps the cookie session).
  \<^item> \<open>Query_Params\<close>: JavaScript numbers as \<^typ>\<open>jsnum\<close> (an integer or \<open>NaN\<close>;
    the values the routes compute are integers, so no floating point is needed),
    \<open>parseInt\<close> as ECMAScript defines it on the strings a URL can carry,
    \<open>Math.max\<close>, \<open>Math.ceil\<close> of a quotient, the page envelope of the GET routes,
    and \<^const>\<open>Query_Params.newest_page\<close>, the spec's page of a list: the rows a
    predicate keeps, newest first, sliced at \<open>(page - 1) * limit\<close>, with its counts.
  \<^item> \<open>Data_Service\<close>: the remote data service is not in the repository; its query
    builder and evaluation are modelled from the spec's collaborator contract: the
    \<open>or=(...)\<close> filter syntax (split at commas, \<open>col.op.value\<close>, an unquoted value
    ended by a comma or a closing parenthesis, so a \<open>)\<close> in the text is a parse
    error; nested logic trees are not modelled), \<open>ilike\<close> patterns with
    \<open>%\<close>, \<open>*\<close> and \<open>_\<close>, equality filters, newest-first ordering (a stable sort),
    \<open>range\<close>, the exact count, and insert with a server identifier and timestamps.
    A table is generic in its row type through a \<^typ>\<open>'r schema\<close> record; the
    table invariant \<^const>\<open>Data_Service.table_wf\<close> (distinct identifiers below the
    next one, rows older than the clock) is preserved by every insert. One lemma,
    \<open>run_select_newest_page\<close>, shows that a select with equality and \<open>ilike\<close>
    filters, newest-first order and a page range, relayed in the envelope, is the
    spec's \<^const>\<open>Query_Params.newest_page\<close>; both GET refinements are instances.
  \<^item> \<open>Employees_Api\<close>: \<open>api/employees/route.ts\<close>, GET and POST on the employees
    table. The GET route refines the abstract page \<^const>\<open>Employees_Api.employees_page_spec\<close>
    (the spec's section 4.2) when page and limit are numbers and the search has no
    pattern character, comma or closing parenthesis. The remaining branches are
    findings: a \<open>NaN\<close> page answers 500; every search containing \<open>)\<close> answers 500;
    and a search \<open>x,name.ilike.%\<close> injects a condition every row satisfies, so it
    answers the first page of all employees whatever \<open>x\<close> is.
  \<^item> \<open>Employee_Directory\<close>: \<open>Dashboard/employee-directory/page.tsx\<close>. The React state
    is the record \<^typ>\<open>dir_state\<close>; the two effects (300 ms debounce, reload on a
    change of debounced search or filter), every handler and the continuation of each
    \<open>fetch\<close> are cases of the step function \<^const>\<open>Employee_Directory.dir_step\<close>.
    Time is explicit (\<open>Tick d\<close>); requests in flight are a list and resolve in any
    order (\<open>Resolve i r\<close>); events the rendered page cannot produce (any input while
    the loading message is shown, a row that is not rendered, a submit the form's
    native validation blocks) are \<open>None\<close>. Claims: the debounce issues one load for
    the last text, the loading message implies an outstanding load (rule induction on
    \<^const>\<open>Employee_Directory.dir_reachable\<close>), the outcomes of delete, create, edit
    and failed submits. Two fixed traces of overlapping loads (a stale answer
    overwriting a newer one, loading cleared while a load is outstanding) back findings.
  \<^item> \<open>Leaves_Api\<close> and \<open>Leave_Requests\<close>: \<open>api/leaves/route.ts\<close> (GET over employee
    name and leave type with a status filter, POST) on the same data service model,
    with its refinement of the abstract page \<^const>\<open>Leaves_Api.leaves_page_spec\<close>; and
    \<open>Dashboard/leave-requests/page.tsx\<close> as the step function
    \<^const>\<open>Leave_Requests.lv_step\<close>. Its inputs stay rendered while loading, so typing
    during a load issues an overlapping load; its timer-based debounce is proved equal
    to a reference debounce function on every burst of keystrokes. Finding: POST
    accepts any pair of dates.
  \<^item> \<open>Profile\<close>: \<open>Dashboard/profile/page.tsx\<close> as the step function
    \<^const>\<open>Profile.pf_step\<close>; \<open>getUser\<close> and \<open>updateUser\<close> are requests in flight that
    resolve in any order, and a save carries the profile its click saw. Claims: at most
    one save in flight (rule induction), and, over the rendered view
    \<^const>\<open>Profile.pf_render\<close> (lines 72--151), that the message box is styled as an
    error exactly when a save failed. Two fixed traces of races with the loading of the
    user back findings.
  \<^item> \<open>Login\<close>: \<open>src/app/page.tsx\<close> as \<^const>\<open>Login.login_step\<close>; a successful sign-in
    sets the session cookie and pushes \<open>/Dashboard\<close>, which the gate serves; a rejected
    auth call, from any reachable state, leaves the submit button disabled and
    labelled \<open>Loading...\<close> whatever happens next (the handler has no \<open>try\<close>; the
    proof uses the invariant that at most one call is in flight, only while loading); over the rendered view \<^const>\<open>Login.login_render\<close>,
    a successful sign-up shows its confirmation in the error paragraph.
  \<^item> \<open>Layout\<close>: \<open>Dashboard/layout.tsx\<close>: the side-bar links (all dashboard
    pages), the sign-out form, and the theme button over the spec's light/dark theme
    state. It carries no claim of its own: its links are gated by the claims of
    \<open>Session_Gate\<close>.
  \<^item> This theory composes the page with the routes: \<open>api_fetch\<close> is the server
    side of each request the page sends, and \<open>sys_step\<close> interleaves user
    events, route answers and network failures over the pair of page state and
    table. The properties here span components: delete and edit requests have no
    route and never take effect; a load shows the first 20 matches, all of which the
    local filter keeps; the create round trip; in every reachable state every row
    the directory shows is a row of the table and no identifier is shown twice
    (rule induction on \<open>sys_reachable\<close>, with the table invariant as a lemma);
    and answering the
    outstanding requests always ends loading (a liveness property, proved by
    induction on the number of requests in flight). The leave requests page is
    served by \<open>lv_serve\<close>, and its loads show the first 20 matches likewise.
    The event loop that delivers every answer, \<open>drain\<close>, is a \<open>function\<close> whose
    termination is proved by the measure of the requests in flight, each answer
    removing one; it is total (it never gets stuck). With
    in-order delivery the page refines the specification: when the newest load in
    flight carries the current filters, draining ends on the spec's first page for
    them (\<open>expected_view\<close>), proved by induction over the requests in flight.

  Modelling choices. Strings are lists of 8-bit characters and \<open>toLowerCase\<close> maps
  ASCII letters only. Timestamps are natural numbers from a clock the insert
  advances. A route is modelled as answering at the moment its response arrives;
  its effect on the table happens then. The email input's native validation is
  approximated by \<open>@\<close> with text on both sides. JavaScript numbers are IEEE doubles;
  the model reads them as exact integers, which is faithful while page, limit,
  offsets and counts stay below \<open>2^53\<close>, the largest range in which doubles hold
  every integer; beyond it the code rounds and the model does not. No definition
  needs fuel: every recursion is structural or has a measure, and the step
  functions are total. A rendered view is a record of the labels, texts and
  attributes a page shows, a function of its state; class names are left out.

  A successful sign-up opens no session in the model, which assumes the auth
  service requires email confirmation (the page's own message says so). A click on
  the directory behind its modal overlay is allowed by the model, which is more
  permissive than the rendered page.

  Modelled from the spec rather than the sources: the data service (it stays
  partly modelled: it is an external service, and only the query forms the routes
  build and the answers they read are modelled, not its other operators, its
  authorisation or its concurrency), the theme context
  (\<open>contexts/ThemeContext\<close> is imported but not in the repository), and the browser's
  delivery of responses. Not modelled: styling, date formatting and
  \<open>console.error\<close> logging, and the auth service's internals (its answers are inputs
  of the model: a user, a session token, an error message, or a rejection).
\<close>

section \<open>The dashboard served by the API routes\<close>

definition form_json :: "form_data \<Rightarrow> (string \<times> string) list" where
  "form_json f = [(''name'', f_name f), (''email'', f_email f), (''department'', f_department f),
                  (''role'', f_role f), (''status'', f_status f)]"

definition api_fetch :: "bool \<Rightarrow> employee table \<Rightarrow> dir_request \<Rightarrow> employee table \<times> fetch_result" where
  "api_fetch env_ok t req =
     (case req of
        Load_req q \<Rightarrow>
          (t, case employees_GET env_ok q (rows t) of
                Ok_json env \<Rightarrow> Http_ok (Json_page (Some (items env)))
              | Error_500 m \<Rightarrow> Http_not_ok)
      | Create_req f \<Rightarrow>
          (case employees_POST env_ok (Some (form_json f)) t of
             (t', Ok_json r) \<Rightarrow> (t', Http_ok (Json_employee r))
           | (t', Error_500 m) \<Rightarrow> (t', Http_not_ok))
      | Delete_req i \<Rightarrow> (t, Http_not_ok)
      | Update_req i f \<Rightarrow> (t, Http_not_ok))"

datatype sys_event = User dir_event | Serve nat | Drop nat

type_synonym sys_state = "dir_state \<times> employee table"

fun sys_step :: "bool \<Rightarrow> sys_state \<Rightarrow> sys_event \<Rightarrow> sys_state option" where
  "sys_step env (s, t) (User ev) =
     (case ev of Resolve i r \<Rightarrow> None | _ \<Rightarrow> map_option (\<lambda>s'. (s', t)) (dir_step s ev))"
| "sys_step env (s, t) (Serve i) =
     (if i < length (inflight s)
      then (case api_fetch env t (inflight s ! i) of
              (t', r) \<Rightarrow> map_option (\<lambda>s'. (s', t')) (resolve s i r))
      else None)"
| "sys_step env (s, t) (Drop i) = map_option (\<lambda>s'. (s', t)) (resolve s i Network_error)"

fun sys_run :: "bool \<Rightarrow> sys_state \<Rightarrow> sys_event list \<Rightarrow> sys_state option" where
  "sys_run env st [] = Some st"
| "sys_run env st (e # es) = (case sys_step env st e of None \<Rightarrow> None | Some st' \<Rightarrow> sys_run env st' es)"

inductive sys_reachable :: "bool \<Rightarrow> employee table \<Rightarrow> sys_state \<Rightarrow> bool" where
  init: "sys_reachable env t0 (init_dir, t0)"
| step: "sys_reachable env t0 st \<Longrightarrow> sys_step env st e = Some st' \<Longrightarrow> sys_reachable env t0 st'"

text \<open>The leave requests page served by the leaves route.\<close>

definition lv_serve :: "bool \<Rightarrow> leave list \<Rightarrow> query_pairs \<Rightarrow> lv_result" where
  "lv_serve env_ok rs q =
     (case leaves_GET env_ok q rs of Ok_json env \<Rightarrow> Lv_ok (Some (items env)) | Error_500 m \<Rightarrow> Lv_not_ok)"

text \<open>
  The browser's event loop delivering the answers of all requests in flight, oldest
  first, until none is left.
\<close>

function drain :: "bool \<Rightarrow> sys_state \<Rightarrow> sys_state option" where
  "drain env st =
     (if inflight (fst st) = [] then Some st
      else case sys_step env st (Serve 0) of None \<Rightarrow> None | Some st' \<Rightarrow> drain env st')"
  by pat_completeness auto

text \<open>
  The view the spec promises for the current filters: the first page of the matching
  employees, newest first; and the queries of the loads in flight, in issue order.
\<close>

definition load_queries :: "dir_request list \<Rightarrow> query_pairs list" where
  "load_queries rs = concat (map (\<lambda>r. case r of Load_req q \<Rightarrow> [q] | _ \<Rightarrow> []) rs)"

definition expected_view :: "dir_state \<Rightarrow> employee table \<Rightarrow> employee list" where
  "expected_view s t = take 20 (sort_key (\<lambda>e. - int (emp_created_at e))
      (filter (employee_matches (debouncedSearch s) (department s) (status s)) (rows t)))"


section \<open>Lemmas on the served dashboard\<close>

lemma load_params_page: "page_of (load_params s) = Num 1" and load_params_limit: "limit_of (load_params s) = Num 20"
  by (simp_all add: load_params_def page_of_def limit_of_def param_def js_parseInt_def strip_sign_def
      strip_radix_def js_whitespace_def digit_value_def digits_to_nat_def)

lemma param_load_params:
  "param (load_params s) ''search'' [] = debouncedSearch s \<and>
   param (load_params s) ''department'' [] = department s \<and>
   param (load_params s) ''status'' [] = status s"
  by (simp add: load_params_def param_def)

lemma employee_matches_local:
  "employee_matches q d st e \<Longrightarrow>
   matches_query q e \<and> (d = [] \<or> emp_department e = d) \<and> (st = [] \<or> emp_status e = st)"
proof -
  assume m: "employee_matches q d st e"
  have "matches_query q e"
  proof (cases "q = []")
    case True
    then show ?thesis by (simp add: matches_query_def)
  next
    case False
    with m obtain f where f: "f \<in> set [emp_name e, emp_email e, emp_department e, emp_role e]"
      and sub: "sublist (js_lower q) (js_lower f)"
      by (auto simp: employee_matches_def)
    from sub have "js_includes (js_lower f) (js_lower q)" by (simp add: js_includes_def)
    with f show ?thesis unfolding matches_query_def by (rule js_includes_lower_join)
  qed
  with m show ?thesis by (simp add: employee_matches_def)
qed

lemma filtered_all:
  "\<forall>e \<in> set (employees s). employee_matches (debouncedSearch s) (department s) (status s) e \<Longrightarrow>
   filtered s = employees s"
  by (auto simp: filtered_def filter_id_conv dest: employee_matches_local)

lemma api_fetch_table_wf:
  "table_wf employee_schema t \<Longrightarrow> api_fetch env t req = (t', r) \<Longrightarrow> table_wf employee_schema t'"
proof (cases req)
  case (Create_req f)
  assume wf: "table_wf employee_schema t" and a: "api_fetch env t req = (t', r)"
  show ?thesis
  proof (cases "employees_POST env (Some (form_json f)) t")
    case (Pair t'' resp)
    then show ?thesis
    proof (cases resp)
      case (Ok_json x)
      with Pair obtain body where "run_insert employee_schema t body = Inr (t'', x)"
        using employees_POST_Ok by blast
      then have "table_wf employee_schema t''"
        using run_insert_table_wf [OF schema_ok_employee wf] by blast
      with a Create_req Pair Ok_json show ?thesis by (simp add: api_fetch_def)
    next
      case (Error_500 m)
      with Pair have "t'' = t" using employees_POST_unchanged by blast
      with a wf Create_req Pair Error_500 show ?thesis by (simp add: api_fetch_def)
    qed
  qed
qed (simp_all add: api_fetch_def)

lemma api_fetch_answers:
  "api_fetch env t req = (t', r) \<Longrightarrow> on_result s req r \<noteq> None"
  by (cases req) (auto simp: api_fetch_def split: api_response.splits prod.splits)

lemma sys_step_inv:
  assumes inv: "table_wf employee_schema t \<and> loading_inv s"
    and st: "sys_step env (s, t) e = Some (s', t')"
  shows "table_wf employee_schema t' \<and> loading_inv s'"
proof (cases e)
  case (User ev)
  with st have "dir_step s ev = Some s' \<and> t' = t"
    by (cases ev) (auto simp del: dir_step.simps)
  then show ?thesis using inv dir_step_inv by blast
next
  case (Serve i)
  obtain t'' r where a: "api_fetch env t (inflight s ! i) = (t'', r)" by fastforce
  with Serve st have "resolve s i r = Some s'" and "t' = t''"
    by (auto split: if_splits)
  then show ?thesis using inv resolve_inv api_fetch_table_wf [OF _ a] by blast
next
  case (Drop i)
  then show ?thesis using inv st resolve_inv by auto
qed

lemma sys_reachable_inv:
  "sys_reachable env t0 st \<Longrightarrow> table_wf employee_schema t0 \<Longrightarrow>
   table_wf employee_schema (snd st) \<and> loading_inv (fst st)"
proof (induction rule: sys_reachable.induct)
  case init
  then show ?case by (simp add: loading_inv_def load_pending_def init_dir_def)
next
  case (step env t0 st e st')
  then show ?case using sys_step_inv [of "snd st" "fst st" env e "fst st'" "snd st'"] by simp
qed







lemma serve_progress:
  "i < length (inflight s) \<Longrightarrow>
   \<exists>s' t'. sys_step env (s, t) (Serve i) = Some (s', t') \<and>
     inflight s' = take i (inflight s) @ drop (Suc i) (inflight s)"
proof -
  assume i: "i < length (inflight s)"
  obtain t' r where a: "api_fetch env t (inflight s ! i) = (t', r)" by fastforce
  let ?s0 = "s\<lparr>inflight := take i (inflight s) @ drop (Suc i) (inflight s)\<rparr>"
  obtain s' where on: "on_result ?s0 (inflight s ! i) r = Some s'"
    using api_fetch_answers [OF a, of ?s0] by blast
  have "inflight s' = inflight ?s0"
  proof (cases "\<exists>q. inflight s ! i = Load_req q")
    case True
    then show ?thesis using on on_result_load by auto
  next
    case False
    then show ?thesis using on_result_loading [OF on] by auto
  qed
  then show ?thesis using i a on by (simp add: resolve_def)
qed

lemma lv_params_page: "page_of (lv_params s) = Num 1"
  and lv_params_limit: "limit_of (lv_params s) = Num 20"
  by (simp_all add: lv_params_def page_of_def limit_of_def param_def js_parseInt_def strip_sign_def
      strip_radix_def js_whitespace_def digit_value_def digits_to_nat_def)

lemma param_lv_params:
  "param (lv_params s) ''search'' [] = lv_debounced s \<and> param (lv_params s) ''status'' [] = lv_filter s"
  by (simp add: lv_params_def param_def)

lemma serve_shrinks:
  "sys_step env st (Serve 0) = Some st' \<Longrightarrow> length (inflight (fst st')) < length (inflight (fst st))"
proof -
  assume step: "sys_step env st (Serve 0) = Some st'"
  obtain s t where st: "st = (s, t)" by fastforce
  have pos: "0 < length (inflight s)"
    using step st by (auto split: if_splits)
  obtain s' t' where got: "sys_step env (s, t) (Serve 0) = Some (s', t')"
    and fl: "inflight s' = take 0 (inflight s) @ drop (Suc 0) (inflight s)"
    using serve_progress [OF pos, of env t] by blast
  have "st' = (s', t')" using step got st by (simp del: sys_step.simps)
  then show ?thesis using fl pos st by simp
qed

termination drain
  by (relation "measure (\<lambda>(env, st). length (inflight (fst st)))") (auto dest: serve_shrinks)

declare drain.simps [simp del]

lemma load_queries_Cons [simp]:
  "load_queries (r # rs) = (case r of Load_req q \<Rightarrow> [q] | _ \<Rightarrow> []) @ load_queries rs"
  "load_queries [] = []"
  by (simp_all add: load_queries_def)

lemma serve_current_load:
  "safe_search (debouncedSearch s) \<Longrightarrow>
   api_fetch True t (Load_req (load_params s)) = (t, Http_ok (Json_page (Some (expected_view s t))))"
proof -
  assume "safe_search (debouncedSearch s)"
  then have sf: "safe_search (param (load_params s) ''search'' [])" by (simp add: param_load_params)
  have "employees_GET True (load_params s) (rows t) =
     Ok_json (employees_page_spec (debouncedSearch s) (department s) (status s) 1 20 (rows t))"
    using employees_GET_spec [OF load_params_page load_params_limit sf] by (simp add: param_load_params)
  then show ?thesis by (simp add: api_fetch_def employees_page_spec_def newest_page_def expected_view_def Let_def)
qed

lemma drain_head:
  "inflight s = r # rest \<Longrightarrow>
   drain env (s, t) =
     (case api_fetch env t r of (t', a) \<Rightarrow>
        (case on_result (s\<lparr>inflight := rest\<rparr>) r a of None \<Rightarrow> None | Some s' \<Rightarrow> drain env (s', t')))"
  by (subst drain.simps) (simp add: resolve_def split: prod.splits option.splits)

lemma drain_in_order:
  "inflight s = xs \<Longrightarrow> safe_search (debouncedSearch s) \<Longrightarrow> list_all (\<lambda>r. \<forall>f. r \<noteq> Create_req f) xs \<Longrightarrow>
   (load_queries xs \<noteq> [] \<and> last (load_queries xs) = load_params s) \<or>
   (load_queries xs = [] \<and> employees s = expected_view s t \<and> \<not> loading s) \<Longrightarrow>
   \<exists>s'. drain True (s, t) = Some (s', t) \<and> employees s' = expected_view s t \<and> \<not> loading s' \<and>
     debouncedSearch s' = debouncedSearch s \<and> department s' = department s \<and> status s' = status s"
proof (induction xs arbitrary: s)
  case Nil
  then show ?case by (simp add: drain.simps)
next
  case (Cons r rest)
  show ?case
  proof (cases r)
    case (Load_req q)
    have ld: "load_queries (r # rest) = q # load_queries rest" using Load_req by simp
    show ?thesis
    proof (cases "load_queries rest = []")
      case True
      then have q: "q = load_params s" using Cons.prems(4) ld by simp
      let ?s1 = "s\<lparr>inflight := rest, employees := expected_view s t, loading := False\<rparr>"
      have d: "drain True (s, t) = drain True (?s1, t)"
        using serve_current_load [OF Cons.prems(2)] Load_req q by (simp add: drain_head [OF Cons.prems(1)])
      have "\<exists>s'. drain True (?s1, t) = Some (s', t) \<and> employees s' = expected_view ?s1 t \<and> \<not> loading s' \<and>
          debouncedSearch s' = debouncedSearch ?s1 \<and> department s' = department ?s1 \<and> status s' = status ?s1"
        using Cons.prems(2,3) True by (intro Cons.IH) (simp_all add: expected_view_def)
      then show ?thesis using d by (simp add: expected_view_def)
    next
      case False
      have "\<exists>E. drain True (s, t) = drain True (s\<lparr>inflight := rest, employees := E, loading := False\<rparr>, t)"
      proof (cases "employees_GET True q (rows t)")
        case (Ok_json env)
        then show ?thesis using Load_req
          by (intro exI [of _ "items env"]) (simp add: drain_head [OF Cons.prems(1)] api_fetch_def)
      next
        case (Error_500 m)
        then show ?thesis using Load_req
          by (intro exI [of _ "employees s"]) (simp add: drain_head [OF Cons.prems(1)] api_fetch_def)
      qed
      then obtain E where d: "drain True (s, t) = drain True (s\<lparr>inflight := rest, employees := E, loading := False\<rparr>, t)" ..
      let ?s1 = "s\<lparr>inflight := rest, employees := E, loading := False\<rparr>"
      have "last (load_queries rest) = load_params ?s1"
        using Cons.prems(4) ld False by (simp add: load_params_def)
      then have "\<exists>s'. drain True (?s1, t) = Some (s', t) \<and> employees s' = expected_view ?s1 t \<and> \<not> loading s' \<and>
          debouncedSearch s' = debouncedSearch ?s1 \<and> department s' = department ?s1 \<and> status s' = status ?s1"
        using Cons.prems(2,3) False by (intro Cons.IH) simp_all
      then show ?thesis using d by (simp add: expected_view_def)
    qed
  next
    case (Delete_req i)
    let ?s1 = "s\<lparr>inflight := rest\<rparr>"
    have d: "drain True (s, t) = drain True (?s1, t)"
      using Delete_req by (simp add: drain_head [OF Cons.prems(1)] api_fetch_def)
    have "\<exists>s'. drain True (?s1, t) = Some (s', t) \<and> employees s' = expected_view ?s1 t \<and> \<not> loading s' \<and>
        debouncedSearch s' = debouncedSearch ?s1 \<and> department s' = department ?s1 \<and> status s' = status ?s1"
      using Cons.prems(2-4) Delete_req
      by (intro Cons.IH) (simp_all add: close_modal_def load_params_def expected_view_def)
    then show ?thesis using d by (simp add: expected_view_def close_modal_def)
  next
    case (Update_req i f)
    let ?s1 = "close_modal (s\<lparr>inflight := rest\<rparr>)"
    have d: "drain True (s, t) = drain True (?s1, t)"
      using Update_req by (simp add: drain_head [OF Cons.prems(1)] api_fetch_def)
    have "\<exists>s'. drain True (?s1, t) = Some (s', t) \<and> employees s' = expected_view ?s1 t \<and> \<not> loading s' \<and>
        debouncedSearch s' = debouncedSearch ?s1 \<and> department s' = department ?s1 \<and> status s' = status ?s1"
      using Cons.prems(2-4) Update_req
      by (intro Cons.IH) (simp_all add: close_modal_def load_params_def expected_view_def)
    then show ?thesis using d by (simp add: expected_view_def close_modal_def)
  next
    case (Create_req f)
    then show ?thesis using Cons.prems(3) by simp
  qed
qed

section \<open>Properties across the client and the routes\<close>

text \<open>
  C4: a confirmed delete of a rendered row never removes it: the page sends
  \<open>DELETE /api/employees/<id>\<close>, for which the application has no route, so the
  answer is not ok and neither the list nor the table changes.
\<close>

theorem delete_never_removes:
  "\<not> loading s \<Longrightarrow> e \<in> set (filtered s) \<Longrightarrow>
   sys_run env (s, t) [User (Click_delete (emp_id e) True), Serve (length (inflight s))] = Some (s, t)"
  by (auto simp: handleDelete_def resolve_last api_fetch_def)

theorem delete_never_removes_witness:
  "\<not> loading (init_dir\<lparr>loading := False, inflight := [], employees := [\<lparr>emp_id = ''1'', emp_name = ''A'', emp_email = ''a@b'', emp_department = ''HR'', emp_role = ''R'', emp_status = ''S'', emp_created_at = 0, emp_updated_at = 0\<rparr>]\<rparr>) \<and>
   \<lparr>emp_id = ''1'', emp_name = ''A'', emp_email = ''a@b'', emp_department = ''HR'', emp_role = ''R'', emp_status = ''S'', emp_created_at = 0, emp_updated_at = 0\<rparr> \<in> set (filtered (init_dir\<lparr>loading := False, inflight := [], employees := [\<lparr>emp_id = ''1'', emp_name = ''A'', emp_email = ''a@b'', emp_department = ''HR'', emp_role = ''R'', emp_status = ''S'', emp_created_at = 0, emp_updated_at = 0\<rparr>]\<rparr>)) \<and>
   sys_run True (init_dir\<lparr>loading := False, inflight := [], employees := [\<lparr>emp_id = ''1'', emp_name = ''A'', emp_email = ''a@b'', emp_department = ''HR'', emp_role = ''R'', emp_status = ''S'', emp_created_at = 0, emp_updated_at = 0\<rparr>]\<rparr>, \<lparr>rows = [\<lparr>emp_id = ''1'', emp_name = ''A'', emp_email = ''a@b'', emp_department = ''HR'', emp_role = ''R'', emp_status = ''S'', emp_created_at = 0, emp_updated_at = 0\<rparr>], next_id = 2, clock = 1\<rparr>)
     [User (Click_delete ''1'' True), Serve 0] = Some (init_dir\<lparr>loading := False, inflight := [], employees := [\<lparr>emp_id = ''1'', emp_name = ''A'', emp_email = ''a@b'', emp_department = ''HR'', emp_role = ''R'', emp_status = ''S'', emp_created_at = 0, emp_updated_at = 0\<rparr>]\<rparr>, \<lparr>rows = [\<lparr>emp_id = ''1'', emp_name = ''A'', emp_email = ''a@b'', emp_department = ''HR'', emp_role = ''R'', emp_status = ''S'', emp_created_at = 0, emp_updated_at = 0\<rparr>], next_id = 2, clock = 1\<rparr>)"
proof -
  have h1: "\<not> loading (init_dir\<lparr>loading := False, inflight := [], employees := [\<lparr>emp_id = ''1'', emp_name = ''A'', emp_email = ''a@b'', emp_department = ''HR'', emp_role = ''R'', emp_status = ''S'', emp_created_at = 0, emp_updated_at = 0\<rparr>]\<rparr>)" by (simp add: init_dir_def)
  have h2: "\<lparr>emp_id = ''1'', emp_name = ''A'', emp_email = ''a@b'', emp_department = ''HR'', emp_role = ''R'', emp_status = ''S'', emp_created_at = 0, emp_updated_at = 0\<rparr> \<in> set (filtered (init_dir\<lparr>loading := False, inflight := [], employees := [\<lparr>emp_id = ''1'', emp_name = ''A'', emp_email = ''a@b'', emp_department = ''HR'', emp_role = ''R'', emp_status = ''S'', emp_created_at = 0, emp_updated_at = 0\<rparr>]\<rparr>))" by code_simp
  show ?thesis using h1 h2 delete_never_removes [OF h1 h2, of True "\<lparr>rows = [\<lparr>emp_id = ''1'', emp_name = ''A'', emp_email = ''a@b'', emp_department = ''HR'', emp_role = ''R'', emp_status = ''S'', emp_created_at = 0, emp_updated_at = 0\<rparr>], next_id = 2, clock = 1\<rparr>"] by simp
qed

text \<open>
  C5: an edit is never saved: the page sends \<open>PUT /api/employees/<id>\<close>, which has
  no route; the answer is not ok, the modal closes and the edit is discarded.
\<close>

theorem edit_discarded:
  "\<not> loading s \<Longrightarrow> showModal s \<Longrightarrow> form_valid (formData s) \<Longrightarrow> editingEmployee s = Some e \<Longrightarrow>
   sys_run env (s, t) [User Submit, Serve (length (inflight s))] = Some (close_modal s, t)"
  by (simp add: handleSubmit_def resolve_last api_fetch_def)

theorem edit_discarded_witness:
  "\<not> loading (init_dir\<lparr>loading := False, inflight := [], showModal := True, formData := \<lparr>f_name = ''B'', f_email = ''b@c'', f_department = ''HR'', f_role = ''Lead'', f_status = ''S''\<rparr>,
       employees := [\<lparr>emp_id = ''1'', emp_name = ''A'', emp_email = ''a@b'', emp_department = ''HR'', emp_role = ''R'', emp_status = ''S'', emp_created_at = 0, emp_updated_at = 0\<rparr>], editingEmployee := Some \<lparr>emp_id = ''1'', emp_name = ''A'', emp_email = ''a@b'', emp_department = ''HR'', emp_role = ''R'', emp_status = ''S'', emp_created_at = 0, emp_updated_at = 0\<rparr>\<rparr>) \<and>
   form_valid \<lparr>f_name = ''B'', f_email = ''b@c'', f_department = ''HR'', f_role = ''Lead'', f_status = ''S''\<rparr> \<and>
   sys_run True (init_dir\<lparr>loading := False, inflight := [], showModal := True, formData := \<lparr>f_name = ''B'', f_email = ''b@c'', f_department = ''HR'', f_role = ''Lead'', f_status = ''S''\<rparr>,
       employees := [\<lparr>emp_id = ''1'', emp_name = ''A'', emp_email = ''a@b'', emp_department = ''HR'', emp_role = ''R'', emp_status = ''S'', emp_created_at = 0, emp_updated_at = 0\<rparr>], editingEmployee := Some \<lparr>emp_id = ''1'', emp_name = ''A'', emp_email = ''a@b'', emp_department = ''HR'', emp_role = ''R'', emp_status = ''S'', emp_created_at = 0, emp_updated_at = 0\<rparr>\<rparr>, \<lparr>rows = [], next_id = 0, clock = 0\<rparr>)
     [User Submit, Serve 0] =
   Some (close_modal (init_dir\<lparr>loading := False, inflight := [], showModal := True, formData := \<lparr>f_name = ''B'', f_email = ''b@c'', f_department = ''HR'', f_role = ''Lead'', f_status = ''S''\<rparr>,
       employees := [\<lparr>emp_id = ''1'', emp_name = ''A'', emp_email = ''a@b'', emp_department = ''HR'', emp_role = ''R'', emp_status = ''S'', emp_created_at = 0, emp_updated_at = 0\<rparr>], editingEmployee := Some \<lparr>emp_id = ''1'', emp_name = ''A'', emp_email = ''a@b'', emp_department = ''HR'', emp_role = ''R'', emp_status = ''S'', emp_created_at = 0, emp_updated_at = 0\<rparr>\<rparr>), \<lparr>rows = [], next_id = 0, clock = 0\<rparr>)"
proof -
  let ?s = "init_dir\<lparr>loading := False, inflight := [], showModal := True, formData := \<lparr>f_name = ''B'', f_email = ''b@c'', f_department = ''HR'', f_role = ''Lead'', f_status = ''S''\<rparr>,
       employees := [\<lparr>emp_id = ''1'', emp_name = ''A'', emp_email = ''a@b'', emp_department = ''HR'', emp_role = ''R'', emp_status = ''S'', emp_created_at = 0, emp_updated_at = 0\<rparr>], editingEmployee := Some \<lparr>emp_id = ''1'', emp_name = ''A'', emp_email = ''a@b'', emp_department = ''HR'', emp_role = ''R'', emp_status = ''S'', emp_created_at = 0, emp_updated_at = 0\<rparr>\<rparr>"
  have h1: "\<not> loading ?s" by (simp add: init_dir_def)
  have h2: "showModal ?s" by simp
  have h3: "form_valid (formData ?s)" by code_simp
  have h4: "editingEmployee ?s = Some \<lparr>emp_id = ''1'', emp_name = ''A'', emp_email = ''a@b'', emp_department = ''HR'', emp_role = ''R'', emp_status = ''S'', emp_created_at = 0, emp_updated_at = 0\<rparr>" by simp
  show ?thesis using h1 h3 edit_discarded [OF h1 h2 h3 h4, of True "\<lparr>rows = [], next_id = 0, clock = 0\<rparr>"]
    by (simp del: sys_run.simps add: init_dir_def)
qed

text \<open>
  C2: a load of the page shows the first 20 matching rows of the table, newest first,
  although the page asks for the whole collection (it sends no page or limit, so the
  route's default limit applies); every row received is rendered by the local filter.
\<close>

theorem load_shows_first_page:
  "safe_search (debouncedSearch s) \<Longrightarrow>
   (let s' = s\<lparr>employees := take 20 (sort_key (\<lambda>e. - int (emp_created_at e))
                  (filter (employee_matches (debouncedSearch s) (department s) (status s)) (rows t))),
                loading := False\<rparr>
    in sys_step True (loadEmployees s, t) (Serve (length (inflight s))) = Some (s', t) \<and>
       filtered s' = employees s')"
proof -
  assume safe: "safe_search (debouncedSearch s)"
  then have sf: "safe_search (param (load_params s) ''search'' [])" by (simp add: param_load_params)
  have get: "employees_GET True (load_params s) (rows t) =
     Ok_json (employees_page_spec (debouncedSearch s) (department s) (status s) 1 20 (rows t))"
    using employees_GET_spec [OF load_params_page load_params_limit sf] by (simp add: param_load_params)
  let ?s' = "s\<lparr>employees := take 20 (sort_key (\<lambda>e. - int (emp_created_at e))
       (filter (employee_matches (debouncedSearch s) (department s) (status s)) (rows t))),
       loading := False\<rparr>"
  have shown: "filtered ?s' = employees ?s'"
    by (rule filtered_all) (auto dest: in_set_takeD)
  show ?thesis
    using shown by (simp add: loadEmployees_def resolve_def api_fetch_def get employees_page_spec_def newest_page_def Let_def)
qed

theorem load_shows_first_page_witness:
  "safe_search (debouncedSearch init_dir) \<and>
   sys_step True (loadEmployees init_dir, \<lparr>rows = [\<lparr>emp_id = ''1'', emp_name = ''A'', emp_email = ''a@b'', emp_department = ''HR'', emp_role = ''R'', emp_status = ''S'', emp_created_at = 0, emp_updated_at = 0\<rparr>], next_id = 2, clock = 1\<rparr>) (Serve 1) =
     Some (init_dir\<lparr>employees := [\<lparr>emp_id = ''1'', emp_name = ''A'', emp_email = ''a@b'', emp_department = ''HR'', emp_role = ''R'', emp_status = ''S'', emp_created_at = 0, emp_updated_at = 0\<rparr>], loading := False\<rparr>, \<lparr>rows = [\<lparr>emp_id = ''1'', emp_name = ''A'', emp_email = ''a@b'', emp_department = ''HR'', emp_role = ''R'', emp_status = ''S'', emp_created_at = 0, emp_updated_at = 0\<rparr>], next_id = 2, clock = 1\<rparr>)"
proof -
  have h: "safe_search (debouncedSearch init_dir)" by (simp add: init_dir_def safe_search_def)
  show ?thesis using h load_shows_first_page [OF h, of "\<lparr>rows = [\<lparr>emp_id = ''1'', emp_name = ''A'', emp_email = ''a@b'', emp_department = ''HR'', emp_role = ''R'', emp_status = ''S'', emp_created_at = 0, emp_updated_at = 0\<rparr>], next_id = 2, clock = 1\<rparr>"]
    by (simp add: init_dir_def employee_matches_def Let_def)
qed

text \<open>
  C7: the add form round trip: a submitted draft is inserted by the POST route with the
  next identifier and the current time, and the returned row is prepended to the list.
\<close>

theorem create_flow:
  "\<not> loading s \<Longrightarrow> showModal s \<Longrightarrow> form_valid (formData s) \<Longrightarrow> editingEmployee s = None \<Longrightarrow>
   sys_run True (s, t) [User Submit, Serve (length (inflight s))] =
     (let r = \<lparr>emp_id = decimal (next_id t), emp_name = f_name (formData s),
               emp_email = f_email (formData s), emp_department = f_department (formData s),
               emp_role = f_role (formData s), emp_status = f_status (formData s),
               emp_created_at = clock t, emp_updated_at = clock t\<rparr>
      in Some (close_modal (s\<lparr>employees := r # employees s\<rparr>),
               t\<lparr>rows := rows t @ [r], next_id := Suc (next_id t), clock := Suc (clock t)\<rparr>))"
  by (simp add: handleSubmit_def resolve_last api_fetch_def employees_POST_def run_insert_def
      employee_schema_def employee_data_columns_def build_employee_def form_json_def Let_def)

theorem create_flow_witness:
  "\<not> loading (init_dir\<lparr>loading := False, inflight := [], showModal := True, formData := \<lparr>f_name = ''B'', f_email = ''b@c'', f_department = ''HR'', f_role = ''Lead'', f_status = ''S''\<rparr>\<rparr>) \<and> form_valid \<lparr>f_name = ''B'', f_email = ''b@c'', f_department = ''HR'', f_role = ''Lead'', f_status = ''S''\<rparr> \<and>
   sys_run True (init_dir\<lparr>loading := False, inflight := [], showModal := True, formData := \<lparr>f_name = ''B'', f_email = ''b@c'', f_department = ''HR'', f_role = ''Lead'', f_status = ''S''\<rparr>\<rparr>, \<lparr>rows = [], next_id = 0, clock = 0\<rparr>) [User Submit, Serve 0] =
   Some (close_modal ((init_dir\<lparr>loading := False, inflight := [], showModal := True, formData := \<lparr>f_name = ''B'', f_email = ''b@c'', f_department = ''HR'', f_role = ''Lead'', f_status = ''S''\<rparr>\<rparr>)\<lparr>employees := [\<lparr>emp_id = decimal 0, emp_name = ''B'', emp_email = ''b@c'',
           emp_department = ''HR'', emp_role = ''Lead'', emp_status = ''S'', emp_created_at = 0, emp_updated_at = 0\<rparr>]\<rparr>),
         \<lparr>rows = [\<lparr>emp_id = decimal 0, emp_name = ''B'', emp_email = ''b@c'',
           emp_department = ''HR'', emp_role = ''Lead'', emp_status = ''S'', emp_created_at = 0, emp_updated_at = 0\<rparr>],
          next_id = 1, clock = 1\<rparr>)"
proof -
  let ?s = "init_dir\<lparr>loading := False, inflight := [], showModal := True, formData := \<lparr>f_name = ''B'', f_email = ''b@c'', f_department = ''HR'', f_role = ''Lead'', f_status = ''S''\<rparr>\<rparr>"
  have h1: "\<not> loading ?s" by (simp add: init_dir_def)
  have h2: "showModal ?s" by simp
  have h3: "form_valid (formData ?s)" by code_simp
  have h4: "editingEmployee ?s = None" by (simp add: init_dir_def)
  show ?thesis using h1 h3 create_flow [OF h1 h2 h3 h4, of "\<lparr>rows = [], next_id = 0, clock = 0\<rparr>"]
    by (simp del: sys_run.simps add: init_dir_def Let_def)
qed




text \<open>
  C9: the page never stays loading: from every reachable state, answering the
  outstanding requests oldest first ends with none outstanding and the list shown.
\<close>

theorem drain_ends_loading:
  assumes "sys_reachable env t0 st" and "table_wf employee_schema t0"
  shows "\<exists>st'. sys_run env st (replicate (length (inflight (fst st))) (Serve 0)) = Some st' \<and>
           sys_reachable env t0 st' \<and> inflight (fst st') = [] \<and> \<not> loading (fst st')"
  using assms
proof (induction "length (inflight (fst st))" arbitrary: st)
  case 0
  then show ?case
    using sys_reachable_inv [OF "0.prems"] by (auto simp: loading_inv_def load_pending_def)
next
  case (Suc n)
  obtain s t where st: "st = (s, t)" by fastforce
  have pos: "0 < length (inflight s)" using Suc.hyps(2) st by (metis fst_conv zero_less_Suc)
  obtain s' t' where step: "sys_step env (s, t) (Serve 0) = Some (s', t')"
    and fl: "inflight s' = take 0 (inflight s) @ drop (Suc 0) (inflight s)"
    using serve_progress [OF pos, of env t] by blast
  have r': "sys_reachable env t0 (s', t')"
    using Suc.prems(1) st step sys_reachable.step by blast
  have n: "n = length (inflight (fst (s', t')))" using fl Suc.hyps(2) st by simp
  obtain st'' where run: "sys_run env (s', t') (replicate n (Serve 0)) = Some st''" and
    fin: "sys_reachable env t0 st''" "inflight (fst st'') = [] \<and> \<not> loading (fst st'')"
    using Suc.hyps(1) [OF n r' Suc.prems(2)] n by auto
  have "sys_run env st (replicate (length (inflight (fst st))) (Serve 0)) = Some st''"
    using run step st Suc.hyps(2) [symmetric] by (simp del: sys_step.simps)
  then show ?case using fin by blast
qed

theorem drain_ends_loading_witness:
  "sys_reachable True \<lparr>rows = [], next_id = 0, clock = 0\<rparr> (init_dir, \<lparr>rows = [], next_id = 0, clock = 0\<rparr>) \<and>
   table_wf employee_schema \<lparr>rows = [], next_id = 0, clock = 0\<rparr> \<and>
   (\<exists>st'. sys_run True (init_dir, \<lparr>rows = [], next_id = 0, clock = 0\<rparr>) [Serve 0] = Some st' \<and>
      inflight (fst st') = [] \<and> \<not> loading (fst st'))"
proof -
  have h1: "sys_reachable True \<lparr>rows = [], next_id = 0, clock = 0\<rparr> (init_dir, \<lparr>rows = [], next_id = 0, clock = 0\<rparr>)" by (rule sys_reachable.init)
  have h2: "table_wf employee_schema \<lparr>rows = [], next_id = 0, clock = 0\<rparr>" by (simp add: table_wf_def)
  have "length (inflight (fst (init_dir, \<lparr>rows = [], next_id = 0, clock = 0\<rparr>))) = 1" by (simp add: init_dir_def)
  then show ?thesis using h1 h2 drain_ends_loading [OF h1 h2] by auto
qed

text \<open>
  C12: a load of the leave requests page shows the first 20 matching requests of the
  table, newest first; the page's local status filter keeps all of them.
\<close>

theorem lv_load_shows_first_page:
  "safe_search (lv_debounced s) \<Longrightarrow>
   (let s' = s\<lparr>leaves := take 20 (sort_key (\<lambda>r. - int (lv_created_at r))
                  (filter (leave_matches (lv_debounced s) (lv_filter s)) rs)),
                lv_loading := False\<rparr>
    in lv_step (loadLeaves s) (Lv_resolve (length (lv_inflight s)) (lv_serve True rs (lv_params s))) =
         Some s' \<and> lv_filtered s' = leaves s')"
proof -
  assume "safe_search (lv_debounced s)"
  then have sf: "safe_search (param (lv_params s) ''search'' [])" by (simp add: param_lv_params)
  have get: "leaves_GET True (lv_params s) rs =
     Ok_json (leaves_page_spec (lv_debounced s) (lv_filter s) 1 20 rs)"
    using leaves_GET_spec [OF lv_params_page lv_params_limit sf] by (simp add: param_lv_params)
  let ?s' = "s\<lparr>leaves := take 20 (sort_key (\<lambda>r. - int (lv_created_at r))
                  (filter (leave_matches (lv_debounced s) (lv_filter s)) rs)), lv_loading := False\<rparr>"
  have shown: "lv_filtered ?s' = leaves ?s'"
    by (auto simp: lv_filtered_def leave_matches_def filter_id_conv dest: in_set_takeD)
  show ?thesis
    using shown by (simp add: loadLeaves_def lv_resolve_def lv_serve_def get leaves_page_spec_def newest_page_def Let_def)
qed

theorem lv_load_shows_first_page_witness:
  "safe_search (lv_debounced init_lv) \<and>
   lv_step (loadLeaves init_lv) (Lv_resolve 1 (lv_serve True [] (lv_params init_lv))) =
     Some (init_lv\<lparr>lv_loading := False\<rparr>)"
proof -
  have h: "safe_search (lv_debounced init_lv)" by (simp add: init_lv_def safe_search_def)
  show ?thesis using h lv_load_shows_first_page [OF h, of "[]"]
    by (simp add: init_lv_def Let_def)
qed

text \<open>
  The event loop terminates: from every state of page and table, delivering the
  answers of the requests in flight ends, with none left in flight.
\<close>

theorem drain_total:
  "\<exists>st'. drain env st = Some st' \<and> inflight (fst st') = []"
proof (induction env st rule: drain.induct)
  case (1 env st)
  show ?case
  proof (cases "inflight (fst st) = []")
    case True
    then show ?thesis by (simp add: drain.simps)
  next
    case False
    obtain s t where st: "st = (s, t)" by fastforce
    have pos: "0 < length (inflight s)" using False st by simp
    obtain s' t' where step: "sys_step env (s, t) (Serve 0) = Some (s', t')"
      using serve_progress [OF pos, of env t] by blast
    then show ?thesis
      using "1.IH" [of "(s', t')"] False st by (simp add: drain.simps)
  qed
qed

text \<open>
  The JSON body the add form sends names exactly the data columns of the employees
  table, so the POST route accepts every draft the form can submit.
\<close>

theorem form_json_fits_table:
  "map fst (form_json f) = employee_data_columns \<and>
   (\<exists>t' r. employees_POST True (Some (form_json f)) t = (t', Ok_json r))"
  by (simp add: form_json_def employee_data_columns_def employees_POST_def run_insert_def
      employee_schema_def Let_def)

text \<open>
  C13: with in-order delivery the page converges to the specification: if the newest
  load in flight carries the current filters and no create is in flight, delivering
  the answers oldest first ends with the page showing the spec's first page for the
  current filters, all of it rendered, and the loading message gone.
\<close>

theorem page_converges_in_order:
  "safe_search (debouncedSearch s) \<Longrightarrow> list_all (\<lambda>r. \<forall>f. r \<noteq> Create_req f) (inflight s) \<Longrightarrow>
   load_queries (inflight s) \<noteq> [] \<Longrightarrow> last (load_queries (inflight s)) = load_params s \<Longrightarrow>
   \<exists>s'. drain True (s, t) = Some (s', t) \<and> employees s' = expected_view s t \<and> \<not> loading s' \<and>
     filtered s' = employees s'"
proof -
  assume a: "safe_search (debouncedSearch s)" "list_all (\<lambda>r. \<forall>f. r \<noteq> Create_req f) (inflight s)"
    "load_queries (inflight s) \<noteq> []" "last (load_queries (inflight s)) = load_params s"
  obtain s' where d: "drain True (s, t) = Some (s', t)" and e: "employees s' = expected_view s t"
    and l: "\<not> loading s'" and f: "debouncedSearch s' = debouncedSearch s" "department s' = department s"
      "status s' = status s"
    using drain_in_order [OF refl a(1,2)] a(3,4) by blast
  have "filtered s' = employees s'"
    using e f by (intro filtered_all) (auto simp: expected_view_def dest: in_set_takeD)
  then show ?thesis using d e l by blast
qed

theorem page_converges_in_order_witness:
  "safe_search (debouncedSearch init_dir) \<and> list_all (\<lambda>r. \<forall>f. r \<noteq> Create_req f) (inflight init_dir) \<and>
   load_queries (inflight init_dir) \<noteq> [] \<and> last (load_queries (inflight init_dir)) = load_params init_dir \<and>
   (\<exists>s'. drain True (init_dir, \<lparr>rows = [], next_id = 0, clock = 0\<rparr>) = Some (s', \<lparr>rows = [], next_id = 0, clock = 0\<rparr>) \<and>
      employees s' = [] \<and> \<not> loading s')"
proof -
  have h1: "safe_search (debouncedSearch init_dir)" by (simp add: init_dir_def safe_search_def)
  have h2: "list_all (\<lambda>r. \<forall>f. r \<noteq> Create_req f) (inflight init_dir)" by (simp add: init_dir_def)
  have h3: "load_queries (inflight init_dir) \<noteq> []" by (simp add: init_dir_def)
  have h4: "last (load_queries (inflight init_dir)) = load_params init_dir"
    by (simp add: init_dir_def load_params_def)
  show ?thesis using h1 h2 h3 h4 page_converges_in_order [OF h1 h2 h3 h4, of "\<lparr>rows = [], next_id = 0, clock = 0\<rparr>"]
    by (auto simp: expected_view_def)
qed

end
